theory Spec2Isabelle
  imports Complex_Main "HOL-Library.Sublist" "HOL-Library.Word" "HOL-Library.Log_Nat"
begin

unbundle bit_operations_syntax

section \<open>Go values: errors, results, strings\<close>

text \<open>
  A Go \<^verbatim>\<open>error\<close> value is modelled by the message its \<^verbatim>\<open>Error()\<close> method returns; a nil
  error is \<open>None\<close> of \<open>error option\<close>. A call that can panic, fail with an error or return
  a value has three outcomes.
\<close>

datatype error = GoError (Error: string)

datatype 'a result = Panic string | Fail error | Ok 'a

text \<open>\<^verbatim>\<open>%d\<close> of a non-negative \<^verbatim>\<open>int\<close>: decimal digits, most significant first.\<close>

definition digit :: "nat \<Rightarrow> char" where
  "digit d = char_of (48 + d)"

fun itoa :: "nat \<Rightarrow> string" where
  "itoa n = (if n < 10 then [digit n] else itoa (n div 10) @ [digit (n mod 10)])"

declare itoa.simps [simp del]

text \<open>\<^verbatim>\<open>strings.Join(tokens, sep)\<close>.\<close>

fun strings_Join :: "string list \<Rightarrow> string \<Rightarrow> string" where
  "strings_Join [] sep = []"
| "strings_Join [x] sep = x"
| "strings_Join (x # y # ys) sep = x @ sep @ strings_Join (y # ys) sep"

text \<open>
  \<^verbatim>\<open>strings.Split(s, sep)\<close>: the substrings of \<open>s\<close> between the leftmost non-overlapping
  occurrences of \<open>sep\<close>; one more field than there are occurrences, so the empty string
  splits into one empty field. Every call in the package passes a one-byte separator; for
  an empty separator Go explodes \<open>s\<close> into its UTF-8 sequences, which is written bytewise
  here.
\<close>

function strings_Split :: "string \<Rightarrow> string \<Rightarrow> string list" where
  "strings_Split s sep =
     (if sep = [] then map (\<lambda>c. [c]) s
      else if s = [] then [[]]
      else if prefix sep s then [] # strings_Split (drop (length sep) s) sep
      else (case strings_Split (tl s) sep of
              [] \<Rightarrow> [[hd s]]
            | t # ts \<Rightarrow> (hd s # t) # ts))"
  by pat_completeness auto
termination
  by (relation "measure (\<lambda>(s, sep). length s)") auto

declare strings_Split.simps [simp del]

text \<open>\<^verbatim>\<open>strings.Contains(s, substr)\<close>, used to state that a message carries a vendor string.\<close>

fun strings_Contains :: "string \<Rightarrow> string \<Rightarrow> bool" where
  "strings_Contains [] sub = (sub = [])"
| "strings_Contains (c # cs) sub = (prefix sub (c # cs) \<or> strings_Contains cs sub)"

section \<open>float64 amounts\<close>

text \<open>
  A finite \<^verbatim>\<open>float64\<close> is modelled by the rational it denotes. \<open>fl64\<close> rounds a rational
  to the nearest binary64 value, ties to even, with 53 significant bits and the subnormal
  spacing \<open>2 powi - 1074\<close>; every arithmetic operation of the source is the exact operation
  followed by \<open>fl64\<close>. Infinities and NaN have no counterpart: the model is that of the code
  for magnitudes below \<open>2 ^ 1024\<close>. A decimal literal such as \<^verbatim>\<open>99.99\<close> denotes
  \<open>fl64 (9999 / 100)\<close>.
\<close>

type_synonym float64 = rat

definition expo :: "rat \<Rightarrow> int" where
  "expo x = (case quotient_of \<bar>x\<bar> of (p, q) \<Rightarrow>
      let e0 = bitlen p - bitlen q in if 2 powi e0 \<le> \<bar>x\<bar> then e0 else e0 - 1)"

definition round_even :: "rat \<Rightarrow> int" where
  "round_even r = (let f = \<lfloor>r\<rfloor>; d = r - of_int f in
      if d < 1 / 2 then f else if 1 / 2 < d then f + 1 else if even f then f else f + 1)"

definition fl64 :: "rat \<Rightarrow> float64" where
  "fl64 x = (if x = 0 then 0 else
      let u = 2 powi (max (expo x - 52) (- 1074)) in of_int (round_even (x / u)) * u)"

text \<open>\<^verbatim>\<open>math.Round\<close>: nearest integer, halves away from zero.\<close>

definition math_Round :: "float64 \<Rightarrow> float64" where
  "math_Round x = (if 0 \<le> x then of_int \<lfloor>x + 1 / 2\<rfloor> else - of_int \<lfloor>- x + 1 / 2\<rfloor>)"

text \<open>
  \<^verbatim>\<open>int64(f)\<close> truncates toward zero. Outside the range of \<^verbatim>\<open>int64\<close> the Go specification
  leaves the value to the implementation; on amd64 it is \<open>- (2 ^ 63)\<close>.
\<close>

definition int64_of_float64 :: "float64 \<Rightarrow> 64 word" where
  "int64_of_float64 x = (let t = (if 0 \<le> x then \<lfloor>x\<rfloor> else - \<lfloor>- x\<rfloor>) in
      if - (2 ^ 63) \<le> t \<and> t < 2 ^ 63 then word_of_int t else word_of_int (- (2 ^ 63)))"

definition float64_of_int64 :: "64 word \<Rightarrow> float64" where
  "float64_of_int64 w = fl64 (of_int (sint w))"

definition priceInt64ToFloat64 :: "64 word \<Rightarrow> float64" where
  "priceInt64ToFloat64 price = fl64 (float64_of_int64 price / 100)"

definition priceFloat64ToInt64 :: "float64 \<Rightarrow> 64 word" where
  "priceFloat64ToInt64 price = int64_of_float64 (math_Round (fl64 (price * 100)))"

text \<open>
  \<^verbatim>\<open>priceStringToFloat64\<close> panics with the error of \<^verbatim>\<open>strconv.ParseFloat\<close>, which is a
  parameter \<open>ParseFloat\<close> of every function that reaches it.
\<close>

definition priceStringToFloat64 :: "(string \<Rightarrow> error + float64) \<Rightarrow> string \<Rightarrow> float64 result" where
  "priceStringToFloat64 ParseFloat price =
     (case ParseFloat price of Inl err \<Rightarrow> Panic (Error err) | Inr f \<Rightarrow> Ok f)"

section \<open>Attachment codec\<close>

definition joinAttachString :: "string list \<Rightarrow> string" where
  "joinAttachString tokens = strings_Join tokens ''|''"

definition parseAttachString :: "string \<Rightarrow> string \<times> string \<times> string \<times> error option" where
  "parseAttachString s =
     (let tokens = strings_Split s ''|'' in
      if length tokens \<noteq> 3 then
        ('''', '''', '''',
         Some (GoError (''parseAttachString() error: len(tokens) expected 3, got: ''
                        @ itoa (length tokens))))
      else (tokens ! 0, tokens ! 1, tokens ! 2, None))"

text \<open>\<^verbatim>\<open>GetOwnerAndNameFromId\<close> panics with the error it builds.\<close>

definition GetOwnerAndNameFromId :: "string \<Rightarrow> (string \<times> string) result" where
  "GetOwnerAndNameFromId ident =
     (let tokens = strings_Split ident ''/'' in
      if length tokens \<noteq> 2 then
        Panic (''GetOwnerAndNameFromId() error, wrong token count for ID: '' @ ident)
      else Ok (tokens ! 0, tokens ! 1))"

section \<open>Common contract\<close>

type_synonym PaymentState = string

definition PaymentStatePaid :: PaymentState where
  "PaymentStatePaid = ''Paid''"

definition PaymentStateCreated :: PaymentState where
  "PaymentStateCreated = ''Created''"

definition PaymentStateCanceled :: PaymentState where
  "PaymentStateCanceled = ''Canceled''"

definition PaymentStateTimeout :: PaymentState where
  "PaymentStateTimeout = ''Timeout''"

definition PaymentStateError :: PaymentState where
  "PaymentStateError = ''Error''"

text \<open>
  Field names are global in a theory, so the fields of \<^verbatim>\<open>PayReq\<close> and \<^verbatim>\<open>PayResp\<close> and of
  the vendor structures carry a prefix; those of \<^verbatim>\<open>NotifyResult\<close> keep the source's names.
\<close>

record PayReq =
  req_ProviderName :: string
  req_ProductName :: string
  req_PayerName :: string
  req_PayerId :: string
  req_PayerEmail :: string
  req_PaymentName :: string
  req_ProductDisplayName :: string
  req_ProductDescription :: string
  req_ProductImage :: string
  req_Price :: float64
  req_Currency :: string
  req_ReturnUrl :: string
  req_NotifyUrl :: string
  req_PaymentEnv :: string

record PayResp =
  resp_PayUrl :: string
  resp_OrderId :: string
  resp_AttachInfo :: "(string \<times> string) list"

record NotifyResult =
  PaymentName :: string
  PaymentStatus :: PaymentState
  NotifyMessage :: string
  ProductName :: string
  ProductDisplayName :: string
  ProviderName :: string
  Price :: float64
  Currency :: string
  OrderId :: string

text \<open>The zero value \<^verbatim>\<open>&NotifyResult{}\<close>.\<close>

definition NotifyResult_zero :: NotifyResult where
  "NotifyResult_zero =
     \<lparr>PaymentName = '''', PaymentStatus = '''', NotifyMessage = '''', ProductName = '''',
      ProductDisplayName = '''', ProviderName = '''', Price = 0, Currency = '''',
      OrderId = ''''\<rparr>"

text \<open>
  A pair \<^verbatim>\<open>(*T, error)\<close> returned by the package has exactly one component that is not
  nil: \<open>Ok v\<close> stands for \<^verbatim>\<open>(v, nil)\<close>, \<open>Fail e\<close> for \<^verbatim>\<open>(nil, e)\<close>. The calls into the vendor
  SDKs and the standard library's decoders are parameters of the functions that make
  them, returning \<open>Inl\<close> of the error or \<open>Inr\<close> of the response.
\<close>

definition result_bind :: "'a result \<Rightarrow> ('a \<Rightarrow> 'b result) \<Rightarrow> 'b result" where
  "result_bind r f = (case r of Panic m \<Rightarrow> Panic m | Fail e \<Rightarrow> Fail e | Ok v \<Rightarrow> f v)"

definition nil_dereference :: string where
  "nil_dereference = ''runtime error: invalid memory address or nil pointer dereference''"

definition index0 :: "'a list \<Rightarrow> 'a result" where
  "index0 xs = (case xs of [] \<Rightarrow> Panic ''runtime error: index out of range [0] with length 0''
                | x # _ \<Rightarrow> Ok x)"

text \<open>
  The acknowledgement of the Stripe, Alipay, PayPal, Airwallex and GC adapters, whose
  \<^verbatim>\<open>GetResponseError\<close> methods have one and the same body.
\<close>

definition success_or_fail :: "error option \<Rightarrow> string" where
  "success_or_fail err = (if err = None then ''success'' else ''fail'')"

section \<open>Stripe\<close>

record StripePaymentProvider =
  PublishableKey :: string
  SecretKey :: string
  isProd :: bool

text \<open>
  The constructor writes the SDK's process-wide \<^verbatim>\<open>stripe.Key\<close>: the second component of
  the value is the key after the call.
\<close>

definition NewStripePaymentProvider ::
  "string \<Rightarrow> string \<Rightarrow> StripePaymentProvider result \<times> string" where
  "NewStripePaymentProvider publishableKey secretKey =
     (let pp = \<lparr>PublishableKey = publishableKey, SecretKey = secretKey, isProd = True\<rparr>
      in (Ok pp, SecretKey pp))"

text \<open>
  What \<^verbatim>\<open>Notify\<close> reads of the checkout session and of the payment intent. The session's
  \<^verbatim>\<open>PaymentIntent\<close> is a pointer: \<open>None\<close> when nil, else the intent's ID.
\<close>

record CheckoutSession =
  cs_Status :: string
  cs_PaymentStatus :: string
  cs_PaymentIntent :: "string option"
  cs_Metadata :: "string \<rightharpoonup> string"
  cs_ClientReferenceID :: string

record PaymentIntent =
  pi_Amount :: "64 word"
  pi_Currency :: string

text \<open>Lines 157 to 187 of \<^verbatim>\<open>Notify\<close>: the session is complete and paid.\<close>

definition Stripe_Notify_paid ::
  "(string \<Rightarrow> error + PaymentIntent) \<Rightarrow> CheckoutSession \<Rightarrow> string \<Rightarrow> NotifyResult result" where
  "Stripe_Notify_paid intent_Get sCheckout orderId =
     (case cs_PaymentIntent sCheckout of
        None \<Rightarrow> Panic nil_dereference
      | Some intentId \<Rightarrow>
          (case intent_Get intentId of
             Inl err \<Rightarrow> Fail err
           | Inr sIntent \<Rightarrow>
               (case (case cs_Metadata sCheckout ''product_description'' of
                        None \<Rightarrow> ('''', '''', '''', None)
                      | Some description \<Rightarrow> parseAttachString description) of
                  (productName, productDisplayName, providerName, _) \<Rightarrow>
                    Ok \<lparr>PaymentName = cs_ClientReferenceID sCheckout,
                        PaymentStatus = PaymentStatePaid,
                        NotifyMessage = '''',
                        ProductName = productName,
                        ProductDisplayName = productDisplayName,
                        ProviderName = providerName,
                        Price = priceInt64ToFloat64 (pi_Amount sIntent),
                        Currency = pi_Currency sIntent,
                        OrderId = orderId\<rparr>)))"

text \<open>Lines 144 to 155: the switch on the payment status, reached by a complete session.\<close>

definition Stripe_Notify_complete ::
  "(string \<Rightarrow> error + PaymentIntent) \<Rightarrow> CheckoutSession \<Rightarrow> string \<Rightarrow> NotifyResult result" where
  "Stripe_Notify_complete intent_Get sCheckout orderId =
     (if cs_PaymentStatus sCheckout = ''paid'' then Stripe_Notify_paid intent_Get sCheckout orderId
      else if cs_PaymentStatus sCheckout = ''unpaid'' then
        Ok (NotifyResult_zero\<lparr>PaymentStatus := PaymentStateCreated\<rparr>)
      else
        Ok (NotifyResult_zero
             \<lparr>PaymentStatus := PaymentStateError,
              NotifyMessage := ''unexpected stripe checkout payment status: ''
                               @ cs_PaymentStatus sCheckout\<rparr>))"

definition Stripe_Notify ::
  "(string \<Rightarrow> error + CheckoutSession) \<Rightarrow> (string \<Rightarrow> error + PaymentIntent) \<Rightarrow>
   string \<Rightarrow> string \<Rightarrow> NotifyResult result" where
  "Stripe_Notify checkout_Get intent_Get body orderId =
     (case checkout_Get orderId of
        Inl err \<Rightarrow> Fail err
      | Inr sCheckout \<Rightarrow>
          if cs_Status sCheckout = ''open'' then
            Ok (NotifyResult_zero\<lparr>PaymentStatus := PaymentStateCreated\<rparr>)
          else if cs_Status sCheckout = ''complete'' then
            Stripe_Notify_complete intent_Get sCheckout orderId
          else if cs_Status sCheckout = ''expired'' then
            Ok (NotifyResult_zero\<lparr>PaymentStatus := PaymentStateTimeout\<rparr>)
          else
            Ok (NotifyResult_zero
                 \<lparr>PaymentStatus := PaymentStateError,
                  NotifyMessage := ''unexpected stripe checkout status: ''
                                   @ cs_Status sCheckout\<rparr>))"

definition Stripe_GetResponseError :: "error option \<Rightarrow> string" where
  "Stripe_GetResponseError err = success_or_fail err"

section \<open>Airwallex\<close>

record AirwallexClient =
  ac_ClientId :: string
  ac_APIKey :: string
  ac_APIEndpoint :: string
  ac_APICheckout :: string
  ac_TimeoutSeconds :: nat

record AirwallexPaymentProvider =
  aw_Client :: AirwallexClient

definition NewAirwallexPaymentProvider :: "string \<Rightarrow> string \<Rightarrow> AirwallexPaymentProvider result" where
  "NewAirwallexPaymentProvider clientId apiKey =
     Ok \<lparr>aw_Client =
          \<lparr>ac_ClientId = clientId, ac_APIKey = apiKey,
           ac_APIEndpoint = ''https://api.airwallex.com/api/v1'',
           ac_APICheckout = ''https://checkout.airwallex.com/#/standalone/checkout?'',
           ac_TimeoutSeconds = 15\<rparr>\<rparr>"

text \<open>A value of \<^verbatim>\<open>map[string]interface{}\<close>: a string, on which \<^verbatim>\<open>.(string)\<close> succeeds, or not.\<close>

datatype json_value = JString string | JOther

record AirWallexIntentInfo =
  ai_Amount :: string
  ai_Currency :: string
  ai_Id :: string
  ai_Status :: string
  ai_Descriptor :: string
  ai_MerchantOrderId :: string
  ai_PaymentStatus :: string
  ai_Metadata :: "string \<rightharpoonup> json_value"

text \<open>Lines 332 to 349 of \<^verbatim>\<open>Notify\<close>: the payment has succeeded.\<close>

definition Airwallex_Notify_paid ::
  "(string \<Rightarrow> error + float64) \<Rightarrow> AirWallexIntentInfo \<Rightarrow> NotifyResult result" where
  "Airwallex_Notify_paid ParseFloat intent =
     result_bind
       (case ai_Metadata intent ''description'' of
          None \<Rightarrow> Ok ('''', '''', '''', None)
        | Some (JString description) \<Rightarrow> Ok (parseAttachString description)
        | Some JOther \<Rightarrow> Panic ''interface conversion: interface {} is not string'')
       (\<lambda>(productName, productDisplayName, providerName, _).
          result_bind (priceStringToFloat64 ParseFloat (ai_Amount intent))
            (\<lambda>price.
               Ok \<lparr>PaymentName = ai_MerchantOrderId intent,
                   PaymentStatus = PaymentStatePaid,
                   NotifyMessage = '''',
                   ProductName = productName,
                   ProductDisplayName = productDisplayName,
                   ProviderName = providerName,
                   Price = price,
                   Currency = ai_Currency intent,
                   OrderId = ai_MerchantOrderId intent\<rparr>))"

text \<open>Lines 316 to 331: the payment attempt's status, looked at only when there is one.\<close>

definition Airwallex_Notify_succeeded ::
  "(string \<Rightarrow> error + float64) \<Rightarrow> AirWallexIntentInfo \<Rightarrow> NotifyResult result" where
  "Airwallex_Notify_succeeded ParseFloat intent =
     (if ai_PaymentStatus intent \<noteq> '''' then
        if ai_PaymentStatus intent \<in> set [''CANCELLED'', ''EXPIRED'', ''RECEIVED'',
             ''AUTHENTICATION_REDIRECTED'', ''AUTHORIZED'', ''CAPTURE_REQUESTED''] then
          Ok (NotifyResult_zero\<lparr>PaymentStatus := PaymentStateCreated\<rparr>)
        else if ai_PaymentStatus intent \<in> set [''PAID'', ''SETTLED''] then
          Airwallex_Notify_paid ParseFloat intent
        else
          Ok (NotifyResult_zero
               \<lparr>PaymentStatus := PaymentStateError,
                NotifyMessage := ''unexpected airwallex checkout payment status: ''
                                 @ ai_PaymentStatus intent\<rparr>)
      else Airwallex_Notify_paid ParseFloat intent)"

text \<open>
  \<^verbatim>\<open>GetIntentByOrderId\<close> talks to the vendor over HTTP; its outcome for an order is the
  parameter \<open>GetIntentByOrderId\<close>.
\<close>

definition Airwallex_Notify ::
  "(string \<Rightarrow> error + float64) \<Rightarrow> (string \<Rightarrow> AirWallexIntentInfo result) \<Rightarrow>
   string \<Rightarrow> string \<Rightarrow> NotifyResult result" where
  "Airwallex_Notify ParseFloat GetIntentByOrderId body orderId =
     result_bind (GetIntentByOrderId orderId)
       (\<lambda>intent.
          if ai_Status intent \<in> set [''PENDING'', ''REQUIRES_PAYMENT_METHOD'',
               ''REQUIRES_CUSTOMER_ACTION'', ''REQUIRES_CAPTURE''] then
            Ok (NotifyResult_zero\<lparr>PaymentStatus := PaymentStateCreated\<rparr>)
          else if ai_Status intent = ''CANCELLED'' then
            Ok (NotifyResult_zero\<lparr>PaymentStatus := PaymentStateCanceled\<rparr>)
          else if ai_Status intent = ''EXPIRED'' then
            Ok (NotifyResult_zero\<lparr>PaymentStatus := PaymentStateTimeout\<rparr>)
          else if ai_Status intent = ''SUCCEEDED'' then
            Airwallex_Notify_succeeded ParseFloat intent
          else
            Ok (NotifyResult_zero
                 \<lparr>PaymentStatus := PaymentStateError,
                  NotifyMessage := ''unexpected airwallex checkout status: ''
                                   @ ai_Status intent\<rparr>))"

definition Airwallex_GetResponseError :: "error option \<Rightarrow> string" where
  "Airwallex_GetResponseError err = success_or_fail err"

section \<open>Alipay\<close>

text \<open>
  The provider holds the SDK's client, of a type \<open>'c\<close> left open. \<^verbatim>\<open>alipay.NewClient\<close>
  and \<^verbatim>\<open>SetCertSnByContent\<close>, which sets the certificates in the client or fails, are
  parameters of the constructor.
\<close>

record 'c AlipayPaymentProvider =
  al_Client :: 'c

definition NewAlipayPaymentProvider ::
  "(string \<Rightarrow> string \<Rightarrow> bool \<Rightarrow> error + 'c) \<Rightarrow> ('c \<Rightarrow> string \<Rightarrow> string \<Rightarrow> string \<Rightarrow> error + 'c) \<Rightarrow>
   string \<Rightarrow> string \<Rightarrow> string \<Rightarrow> string \<Rightarrow> string \<Rightarrow> 'c AlipayPaymentProvider result" where
  "NewAlipayPaymentProvider NewClient SetCertSnByContent
     appId appCertificate appPrivateKey authorityPublicKey authorityRootPublicKey =
     (case NewClient appId appPrivateKey True of
        Inl err \<Rightarrow> Fail err
      | Inr client \<Rightarrow>
          (case SetCertSnByContent client appCertificate authorityRootPublicKey authorityPublicKey of
             Inl err \<Rightarrow> Fail err
           | Inr client' \<Rightarrow> Ok \<lparr>al_Client = client'\<rparr>))"

record AlipayErrorResponse =
  er_Code :: string
  er_Msg :: string
  er_SubCode :: string
  er_SubMsg :: string

record TradeQueryResponse =
  tq_TradeStatus :: string
  tq_Subject :: string
  tq_TotalAmount :: string

text \<open>
  \<open>json_Unmarshal\<close> is \<^verbatim>\<open>json.Unmarshal\<close> into an \<^verbatim>\<open>alipay.ErrorResponse\<close>, applied to the
  message of the query's error; \<open>TradeQuery\<close> is the SDK's query by \<^verbatim>\<open>out_trade_no\<close>.
\<close>

definition Alipay_Notify ::
  "(string \<Rightarrow> error + float64) \<Rightarrow> (string \<Rightarrow> error + AlipayErrorResponse) \<Rightarrow>
   (string \<Rightarrow> error + TradeQueryResponse) \<Rightarrow> string \<Rightarrow> string \<Rightarrow> NotifyResult result" where
  "Alipay_Notify ParseFloat json_Unmarshal TradeQuery body orderId =
     (case TradeQuery orderId of
        Inl err \<Rightarrow>
          (case json_Unmarshal (Error err) of
             Inl unmarshalErr \<Rightarrow> Fail err
           | Inr errRsp \<Rightarrow>
               if er_SubCode errRsp = ''ACQ.TRADE_NOT_EXIST'' then
                 Ok (NotifyResult_zero\<lparr>PaymentStatus := PaymentStateCanceled\<rparr>)
               else Fail err)
      | Inr aliRsp \<Rightarrow>
          if tq_TradeStatus aliRsp = ''WAIT_BUYER_PAY'' then
            Ok (NotifyResult_zero\<lparr>PaymentStatus := PaymentStateCreated\<rparr>)
          else if tq_TradeStatus aliRsp = ''TRADE_CLOSED'' then
            Ok (NotifyResult_zero\<lparr>PaymentStatus := PaymentStateTimeout\<rparr>)
          else if tq_TradeStatus aliRsp = ''TRADE_SUCCESS'' then
            (case parseAttachString (tq_Subject aliRsp) of
               (productDisplayName, productName, providerName, _) \<Rightarrow>
                 result_bind (priceStringToFloat64 ParseFloat (tq_TotalAmount aliRsp))
                   (\<lambda>price.
                      Ok \<lparr>PaymentName = orderId,
                          PaymentStatus = PaymentStatePaid,
                          NotifyMessage = '''',
                          ProductName = productName,
                          ProductDisplayName = productDisplayName,
                          ProviderName = providerName,
                          Price = price,
                          Currency = '''',
                          OrderId = orderId\<rparr>))
          else
            Ok (NotifyResult_zero
                 \<lparr>PaymentStatus := PaymentStateError,
                  NotifyMessage := ''unexpected alipay trade state: ''
                                   @ tq_TradeStatus aliRsp\<rparr>))"

definition Alipay_GetResponseError :: "error option \<Rightarrow> string" where
  "Alipay_GetResponseError err = success_or_fail err"

section \<open>WeChat Pay\<close>

record WechatPayNotifyResponse =
  wn_Code :: string
  wn_Message :: string

text \<open>The client is a pointer: \<open>None\<close> when nil.\<close>

record 'c WechatPaymentProvider =
  wx_Client :: "'c option"
  wx_AppId :: string

text \<open>
  \<^verbatim>\<open>wechat.NewClientV3\<close>, \<^verbatim>\<open>GetAndSelectNewestCert\<close> and \<^verbatim>\<open>SetPlatformCert\<close> are parameters.
\<close>

definition NewWechatPaymentProvider ::
  "(string \<Rightarrow> string \<Rightarrow> string \<Rightarrow> string \<Rightarrow> error + 'c) \<Rightarrow> ('c \<Rightarrow> error + string \<times> string) \<Rightarrow>
   ('c \<Rightarrow> string \<Rightarrow> string \<Rightarrow> 'c) \<Rightarrow>
   string \<Rightarrow> string \<Rightarrow> string \<Rightarrow> string \<Rightarrow> string \<Rightarrow> 'c WechatPaymentProvider result" where
  "NewWechatPaymentProvider NewClientV3 GetAndSelectNewestCert SetPlatformCert
     mchId apiV3Key appId serialNo privateKey =
     (if appId = '''' \<or> mchId = '''' \<or> serialNo = '''' \<or> apiV3Key = '''' \<or> privateKey = '''' then
        Ok \<lparr>wx_Client = None, wx_AppId = ''''\<rparr>
      else
        (case NewClientV3 mchId serialNo apiV3Key privateKey of
           Inl err \<Rightarrow> Fail err
         | Inr clientV3 \<Rightarrow>
             (case GetAndSelectNewestCert clientV3 of
                Inl err \<Rightarrow> Fail err
              | Inr (platformCert, serialNo') \<Rightarrow>
                  Ok \<lparr>wx_Client = Some (SetPlatformCert clientV3 platformCert serialNo'),
                      wx_AppId = appId\<rparr>)))"

definition wechat_Success :: int where
  "wechat_Success = 0"

record WechatQueryOrderRsp =
  qr_Code :: int
  qr_Error :: string
  qr_TradeState :: string
  qr_Attach :: string
  qr_AmountTotal :: "64 word"
  qr_OutTradeNo :: string

text \<open>
  \<open>V3TransactionQueryOrder\<close> is the SDK's query by \<^verbatim>\<open>out_trade_no\<close>, a method of the
  client the provider points to.
\<close>

definition Wechat_Notify ::
  "('c option \<Rightarrow> string \<Rightarrow> error + WechatQueryOrderRsp) \<Rightarrow> 'c WechatPaymentProvider \<Rightarrow>
   string \<Rightarrow> string \<Rightarrow> NotifyResult result" where
  "Wechat_Notify V3TransactionQueryOrder pp body orderId =
     (case V3TransactionQueryOrder (wx_Client pp) orderId of
        Inl err \<Rightarrow> Fail err
      | Inr queryRsp \<Rightarrow>
          if qr_Code queryRsp \<noteq> wechat_Success then Fail (GoError (qr_Error queryRsp))
          else if qr_TradeState queryRsp = ''SUCCESS'' then
            (case parseAttachString (qr_Attach queryRsp) of
               (productDisplayName, productName, providerName, _) \<Rightarrow>
                 Ok \<lparr>PaymentName = qr_OutTradeNo queryRsp,
                     PaymentStatus = PaymentStatePaid,
                     NotifyMessage = '''',
                     ProductName = productName,
                     ProductDisplayName = productDisplayName,
                     ProviderName = providerName,
                     Price = priceInt64ToFloat64 (qr_AmountTotal queryRsp),
                     Currency = '''',
                     OrderId = orderId\<rparr>)
          else if qr_TradeState queryRsp = ''CLOSED'' then
            Ok (NotifyResult_zero\<lparr>PaymentStatus := PaymentStateCanceled\<rparr>)
          else if qr_TradeState queryRsp \<in> set [''NOTPAY'', ''USERPAYING''] then
            Ok (NotifyResult_zero\<lparr>PaymentStatus := PaymentStateCreated\<rparr>)
          else
            Ok (NotifyResult_zero
                 \<lparr>PaymentStatus := PaymentStateError,
                  NotifyMessage := ''unexpected wechat trade state: ''
                                   @ qr_TradeState queryRsp\<rparr>))"

text \<open>\<open>StructToJson\<close> is \<^verbatim>\<open>util.StructToJson\<close> of the casdoor library, a parameter.\<close>

definition Wechat_GetResponseError ::
  "(WechatPayNotifyResponse \<Rightarrow> string) \<Rightarrow> error option \<Rightarrow> string" where
  "Wechat_GetResponseError StructToJson err =
     (let response = \<lparr>wn_Code = ''SUCCESS'', wn_Message = ''''\<rparr>;
          response' = (case err of
                         None \<Rightarrow> response
                       | Some e \<Rightarrow> response\<lparr>wn_Code := ''FAIL'', wn_Message := Error e\<rparr>)
      in StructToJson response')"

section \<open>PayPal\<close>

record 'c PaypalPaymentProvider =
  pa_Client :: 'c

text \<open>\<^verbatim>\<open>paypal.NewClient\<close> is a parameter; the third argument selects the sandbox.\<close>

definition NewPaypalPaymentProvider ::
  "(string \<Rightarrow> string \<Rightarrow> bool \<Rightarrow> error + 'c) \<Rightarrow> string \<Rightarrow> string \<Rightarrow> 'c PaypalPaymentProvider result" where
  "NewPaypalPaymentProvider NewClient clientID secret =
     (case NewClient clientID secret True of
        Inl err \<Rightarrow> Fail err
      | Inr client \<Rightarrow> Ok \<lparr>pa_Client = client\<rparr>)"

definition paypal_Success :: int where
  "paypal_Success = 0"

record ErrorDetail =
  ed_Issue :: string
  ed_Description :: string

record PurchaseUnit =
  pu_AmountValue :: string
  pu_AmountCurrencyCode :: string
  pu_Description :: string

text \<open>
  What \<^verbatim>\<open>Notify\<close> reads of the SDK's answers: the code, the details of the error response
  (an empty list also when there is no error response, where indexing panics as well),
  and of the order its id, purchase units and status.
\<close>

record OrderCaptureRsp =
  oc_Code :: int
  oc_Details :: "ErrorDetail list"

record OrderDetailRsp =
  od_Code :: int
  od_Details :: "ErrorDetail list"
  od_Id :: string
  od_PurchaseUnits :: "PurchaseUnit list"
  od_Status :: string

text \<open>
  Lines 118 to 176 of \<^verbatim>\<open>Notify\<close>: the order's details. \<open>fmt_Errorf\<close> is \<^verbatim>\<open>fmt.Errorf\<close>
  applied to the description as its format, with no operands.
\<close>

definition Paypal_Notify_detail ::
  "(string \<Rightarrow> error + float64) \<Rightarrow> (string \<Rightarrow> error) \<Rightarrow> (string \<Rightarrow> error + OrderDetailRsp) \<Rightarrow>
   string \<Rightarrow> NotifyResult result" where
  "Paypal_Notify_detail ParseFloat fmt_Errorf OrderDetail orderId =
     (case OrderDetail orderId of
        Inl err \<Rightarrow> Fail err
      | Inr detailRsp \<Rightarrow>
          if od_Code detailRsp \<noteq> paypal_Success then
            result_bind (index0 (od_Details detailRsp))
              (\<lambda>errDetail.
                 if ed_Issue errDetail = ''ORDER_NOT_APPROVED'' then
                   Ok (NotifyResult_zero
                        \<lparr>PaymentStatus := PaymentStateCanceled,
                         NotifyMessage := ed_Description errDetail\<rparr>)
                 else Fail (fmt_Errorf (ed_Description errDetail)))
          else
            result_bind (index0 (od_PurchaseUnits detailRsp))
              (\<lambda>unit.
                 case ParseFloat (pu_AmountValue unit) of
                   Inl err \<Rightarrow> Fail err
                 | Inr price \<Rightarrow>
                     (case parseAttachString (pu_Description unit) of
                        (productDisplayName, productName, providerName, Some err) \<Rightarrow> Fail err
                      | (productDisplayName, productName, providerName, None) \<Rightarrow>
                          Ok \<lparr>PaymentName = od_Id detailRsp,
                              PaymentStatus =
                                (if od_Status detailRsp = ''COMPLETED'' then PaymentStatePaid
                                 else PaymentStateError),
                              NotifyMessage = '''',
                              ProductName = productName,
                              ProductDisplayName = productDisplayName,
                              ProviderName = providerName,
                              Price = price,
                              Currency = pu_AmountCurrencyCode unit,
                              OrderId = orderId\<rparr>)))"

text \<open>
  \<^verbatim>\<open>Notify\<close> first asks the vendor to capture the order (\<open>OrderCapture\<close>), then reads the
  order (\<open>OrderDetail\<close>).
\<close>

definition Paypal_Notify ::
  "(string \<Rightarrow> error + float64) \<Rightarrow> (string \<Rightarrow> error) \<Rightarrow> (string \<Rightarrow> error + OrderCaptureRsp) \<Rightarrow>
   (string \<Rightarrow> error + OrderDetailRsp) \<Rightarrow> string \<Rightarrow> string \<Rightarrow> NotifyResult result" where
  "Paypal_Notify ParseFloat fmt_Errorf OrderCapture OrderDetail body orderId =
     (case OrderCapture orderId of
        Inl err \<Rightarrow> Fail err
      | Inr captureRsp \<Rightarrow>
          if oc_Code captureRsp \<noteq> paypal_Success then
            result_bind (index0 (oc_Details captureRsp))
              (\<lambda>errDetail.
                 if ed_Issue errDetail = ''ORDER_ALREADY_CAPTURED'' then
                   Paypal_Notify_detail ParseFloat fmt_Errorf OrderDetail orderId
                 else if ed_Issue errDetail = ''ORDER_NOT_APPROVED'' then
                   Ok (NotifyResult_zero
                        \<lparr>PaymentStatus := PaymentStateCanceled,
                         NotifyMessage := ed_Description errDetail\<rparr>)
                 else Fail (fmt_Errorf (ed_Description errDetail)))
          else Paypal_Notify_detail ParseFloat fmt_Errorf OrderDetail orderId)"

definition Paypal_GetResponseError :: "error option \<Rightarrow> string" where
  "Paypal_GetResponseError err = success_or_fail err"

section \<open>GC\<close>

record GcPaymentProvider =
  Xmpch :: string
  gc_SecretKey :: string
  Host :: string

text \<open>The constructor has no error result.\<close>

definition NewGcPaymentProvider :: "string \<Rightarrow> string \<Rightarrow> string \<Rightarrow> GcPaymentProvider" where
  "NewGcPaymentProvider clientId clientSecret host =
     \<lparr>Xmpch = clientId, gc_SecretKey = clientSecret, Host = host\<rparr>"

record GcNotifyRespInfo =
  gn_Xmpch :: string
  gn_OrderDate :: string
  gn_OrderNo :: string
  gn_Amount :: float64
  gn_Jylsh :: string
  gn_TradeNo :: string
  gn_PayMethod :: string
  gn_OrderState :: string
  gn_ReturnType :: string
  gn_PayerId :: string
  gn_PayerName :: string

text \<open>
  \<open>ParseQuery\<close> is \<^verbatim>\<open>url.ParseQuery\<close>, whose values map a key to its list of values (empty
  for an absent key); \<open>DecodeString\<close> is \<^verbatim>\<open>base64.StdEncoding.DecodeString\<close>;
  \<open>json_Unmarshal\<close> is \<^verbatim>\<open>json.Unmarshal\<close> into a \<^verbatim>\<open>GcNotifyRespInfo\<close>.
\<close>

definition Gc_Notify ::
  "(string \<Rightarrow> error + (string \<Rightarrow> string list)) \<Rightarrow> (string \<Rightarrow> error + string) \<Rightarrow>
   (string \<Rightarrow> error + GcNotifyRespInfo) \<Rightarrow> string \<Rightarrow> string \<Rightarrow> NotifyResult result" where
  "Gc_Notify ParseQuery DecodeString json_Unmarshal body orderId =
     (case ParseQuery body of
        Inl err \<Rightarrow> Fail err
      | Inr m \<Rightarrow>
          result_bind (index0 (m ''op'')) (\<lambda>op.
          result_bind (index0 (m ''xmpch'')) (\<lambda>xmpch.
          result_bind (index0 (m ''version'')) (\<lambda>version.
          result_bind (index0 (m ''data'')) (\<lambda>data.
          result_bind (index0 (m ''requesttime'')) (\<lambda>requestTime.
          result_bind (index0 (m ''sign'')) (\<lambda>sign.
            case DecodeString data of
              Inl err \<Rightarrow> Fail err
            | Inr notifyReqInfoBytes \<Rightarrow>
                (case json_Unmarshal notifyReqInfoBytes of
                   Inl err \<Rightarrow> Fail err
                 | Inr notifyRespInfo \<Rightarrow>
                     if gn_OrderState notifyRespInfo \<noteq> ''1'' then
                       Fail (GoError (''error order state: '' @ gn_OrderDate notifyRespInfo))
                     else
                       Ok \<lparr>PaymentName = gn_OrderNo notifyRespInfo,
                           PaymentStatus = PaymentStatePaid,
                           NotifyMessage = '''',
                           ProductName = '''',
                           ProductDisplayName = '''',
                           ProviderName = '''',
                           Price = gn_Amount notifyRespInfo,
                           Currency = '''',
                           OrderId = orderId\<rparr>))))))))"

definition Gc_GetResponseError :: "error option \<Rightarrow> string" where
  "Gc_GetResponseError err = success_or_fail err"

section \<open>Balance and Dummy\<close>

definition NewBalancePaymentProvider :: "unit result" where
  "NewBalancePaymentProvider = Ok ()"

definition Balance_Pay :: "PayReq \<Rightarrow> PayResp result" where
  "Balance_Pay r =
     result_bind (GetOwnerAndNameFromId (req_PayerId r))
       (\<lambda>(owner, _).
          Ok \<lparr>resp_PayUrl = req_ReturnUrl r,
              resp_OrderId = owner @ ''/'' @ req_PaymentName r,
              resp_AttachInfo = []\<rparr>)"

definition Balance_Notify :: "string \<Rightarrow> string \<Rightarrow> NotifyResult result" where
  "Balance_Notify body orderId = Ok (NotifyResult_zero\<lparr>PaymentStatus := PaymentStatePaid\<rparr>)"

definition Balance_GetResponseError :: "error option \<Rightarrow> string" where
  "Balance_GetResponseError err = ''''"

definition NewDummyPaymentProvider :: "unit result" where
  "NewDummyPaymentProvider = Ok ()"

definition Dummy_Pay :: "PayReq \<Rightarrow> PayResp result" where
  "Dummy_Pay r = Ok \<lparr>resp_PayUrl = req_ReturnUrl r, resp_OrderId = '''', resp_AttachInfo = []\<rparr>"

definition Dummy_Notify :: "string \<Rightarrow> string \<Rightarrow> NotifyResult result" where
  "Dummy_Notify body orderId = Ok (NotifyResult_zero\<lparr>PaymentStatus := PaymentStatePaid\<rparr>)"

definition Dummy_GetResponseError :: "error option \<Rightarrow> string" where
  "Dummy_GetResponseError err = ''''"

section \<open>Library functions at the inputs of the examples\<close>

text \<open>
  \<^verbatim>\<open>strconv.ParseFloat(s, 64)\<close> on the notation of the vendors' amounts: an optional sign,
  digits, and an optional point followed by digits, with at least one digit; the value is
  the nearest \<^verbatim>\<open>float64\<close>. Every other string gets the syntax error here, although Go
  reads further notations (exponents, hexadecimal, infinities, NaN): the function stands
  for \<^verbatim>\<open>ParseFloat\<close> on plain decimal strings and on strings Go rejects too. It is used
  for the parameter \<open>ParseFloat\<close> in the examples only.
\<close>

definition is_digit :: "char \<Rightarrow> bool" where
  "is_digit c = (48 \<le> (of_char c :: nat) \<and> (of_char c :: nat) \<le> 57)"

fun digits_value :: "string \<Rightarrow> nat \<Rightarrow> nat option" where
  "digits_value [] acc = Some acc"
| "digits_value (c # cs) acc =
     (if is_digit c then digits_value cs (10 * acc + (of_char c - 48)) else None)"

definition ParseFloat_decimal :: "string \<Rightarrow> error + float64" where
  "ParseFloat_decimal s =
     (let syntax = GoError (''strconv.ParseFloat: parsing '' @ [CHR 0x22] @ s @ [CHR 0x22]
                            @ '': invalid syntax'');
          neg = (s \<noteq> [] \<and> hd s = CHR ''-'');
          unsigned = (if s \<noteq> [] \<and> (hd s = CHR ''-'' \<or> hd s = CHR ''+'') then tl s else s);
          ip = takeWhile (\<lambda>c. c \<noteq> CHR ''.'') unsigned;
          fp = drop 1 (dropWhile (\<lambda>c. c \<noteq> CHR ''.'') unsigned)
      in case (digits_value ip 0, digits_value fp 0) of
           (Some i, Some f) \<Rightarrow>
             if ip = [] \<and> fp = [] then Inl syntax
             else Inr (fl64 ((if neg then - 1 else 1) * (of_nat i + of_nat f / 10 ^ length fp)))
         | _ \<Rightarrow> Inl syntax)"

section \<open>Example inputs\<close>

definition PayReq_example :: PayReq where
  "PayReq_example =
     \<lparr>req_ProviderName = ''stripe'', req_ProductName = ''prod'', req_PayerName = ''Bob'',
      req_PayerId = ''admin/bob'', req_PayerEmail = ''bob@example.com'',
      req_PaymentName = ''order_1'', req_ProductDisplayName = ''Product 1'',
      req_ProductDescription = '''', req_ProductImage = '''',
      req_Price = fl64 (9999 / 100), req_Currency = ''USD'',
      req_ReturnUrl = ''https://example.com/return'',
      req_NotifyUrl = ''https://example.com/notify'', req_PaymentEnv = ''''\<rparr>"

text \<open>
  JSON texts of the examples are built from their members, so that the quotation marks
  are written as the byte \<^verbatim>\<open>0x22\<close>.
\<close>

definition json_quote :: "string \<Rightarrow> string" where
  "json_quote s = [CHR 0x22] @ s @ [CHR 0x22]"

definition json_object :: "(string \<times> string) list \<Rightarrow> string" where
  "json_object members =
     ''{'' @ strings_Join (map (\<lambda>(name, v). json_quote name @ '':'' @ v) members) '','' @ ''}''"

definition AlipayErrorResponse_example :: AlipayErrorResponse where
  "AlipayErrorResponse_example =
     \<lparr>er_Code = ''40004'', er_Msg = ''Business Failed'', er_SubCode = ''ACQ.TRADE_NOT_EXIST'',
      er_SubMsg = ''trade not exist''\<rparr>"

text \<open>
  The message of the error the vendor's client returns for a business failure: the JSON
  text of the error response.
\<close>

definition AlipayError_example :: string where
  "AlipayError_example =
     json_object [(''code'', json_quote ''40004''), (''msg'', json_quote ''Business Failed''),
       (''sub_code'', json_quote ''ACQ.TRADE_NOT_EXIST''),
       (''sub_msg'', json_quote ''trade not exist'')]"

text \<open>
  \<^verbatim>\<open>json.Unmarshal\<close> into an \<^verbatim>\<open>alipay.ErrorResponse\<close> at the inputs of the example: the
  message above decodes to the response above, and a text that does not start a JSON
  value, as \<^verbatim>\<open>connection refused\<close>, is an error. It is used for the parameter
  \<open>json_Unmarshal\<close> in the examples only, at these two kinds of input.
\<close>

definition json_Unmarshal_example :: "string \<Rightarrow> error + AlipayErrorResponse" where
  "json_Unmarshal_example s =
     (if s = AlipayError_example then Inr AlipayErrorResponse_example
      else Inl (GoError (''invalid character '' @ [CHR 0x27] @ take 1 s @ [CHR 0x27]
                         @ '' looking for beginning of value'')))"

definition CheckoutSession_example :: CheckoutSession where
  "CheckoutSession_example =
     \<lparr>cs_Status = ''complete'', cs_PaymentStatus = ''paid'', cs_PaymentIntent = Some ''pi_1'',
      cs_Metadata = [''product_description'' \<mapsto> ''prod|Product 1|stripe''],
      cs_ClientReferenceID = ''order_1''\<rparr>"

definition PaymentIntent_example :: PaymentIntent where
  "PaymentIntent_example =
     \<lparr>pi_Amount = priceFloat64ToInt64 (req_Price PayReq_example), pi_Currency = ''usd''\<rparr>"

text \<open>
  \<^verbatim>\<open>util.StructToJson\<close>, that is \<^verbatim>\<open>json.Marshal\<close>, on a \<^verbatim>\<open>WechatPayNotifyResponse\<close> whose
  strings hold no character that JSON escapes.
\<close>

definition StructToJson_plain :: "WechatPayNotifyResponse \<Rightarrow> string" where
  "StructToJson_plain response =
     (let quote = (\<lambda>s. [CHR 0x22] @ s @ [CHR 0x22]) in
      ''{'' @ quote ''Code'' @ '':'' @ quote (wn_Code response) @ '','' @
      quote ''Message'' @ '':'' @ quote (wn_Message response) @ ''}'')"

definition AirWallexIntentInfo_example :: AirWallexIntentInfo where
  "AirWallexIntentInfo_example =
     \<lparr>ai_Amount = ''99.99'', ai_Currency = ''USD'', ai_Id = ''int_1'', ai_Status = ''SUCCEEDED'',
      ai_Descriptor = ''prod'', ai_MerchantOrderId = ''order_1'', ai_PaymentStatus = ''PAID'',
      ai_Metadata = [''description'' \<mapsto> JString ''prod|Product 1|airwallex'']\<rparr>"

definition TradeQueryResponse_example :: TradeQueryResponse where
  "TradeQueryResponse_example =
     \<lparr>tq_TradeStatus = ''TRADE_SUCCESS'', tq_Subject = ''prod|Product 1|alipay'',
      tq_TotalAmount = ''99.99''\<rparr>"

definition WechatQueryOrderRsp_example :: WechatQueryOrderRsp where
  "WechatQueryOrderRsp_example =
     \<lparr>qr_Code = 0, qr_Error = '''', qr_TradeState = ''SUCCESS'',
      qr_Attach = ''Product 1|prod|wechat'', qr_AmountTotal = 9999, qr_OutTradeNo = ''order_1''\<rparr>"

definition OrderCaptureRsp_example :: OrderCaptureRsp where
  "OrderCaptureRsp_example = \<lparr>oc_Code = 0, oc_Details = []\<rparr>"

definition OrderCaptureRsp_captured :: OrderCaptureRsp where
  "OrderCaptureRsp_captured =
     \<lparr>oc_Code = 422,
      oc_Details = [\<lparr>ed_Issue = ''ORDER_ALREADY_CAPTURED'',
                     ed_Description = ''Order already captured.''\<rparr>]\<rparr>"

definition OrderDetailRsp_example :: OrderDetailRsp where
  "OrderDetailRsp_example =
     \<lparr>od_Code = 0, od_Details = [], od_Id = ''5O190127TN364715T'',
      od_PurchaseUnits = [\<lparr>pu_AmountValue = ''99.99'', pu_AmountCurrencyCode = ''USD'',
                            pu_Description = ''Product 1|prod|paypal''\<rparr>],
      od_Status = ''COMPLETED''\<rparr>"

text \<open>
  A GC notification as the vendor posts it: a form with the six keys, whose \<^verbatim>\<open>data\<close> is
  the base64 text of a JSON object. The object of the examples has the four members the
  adapter reads or that identify the order; the other fields of the decoded notification
  keep their zero value.
\<close>

definition Gc_json_example :: "string \<Rightarrow> string" where
  "Gc_json_example state =
     json_object [(''orderdate'', json_quote ''20240101''), (''orderno'', json_quote ''order_1''),
       (''amount'', ''99.99''), (''orderstate'', json_quote state)]"

definition Gc_data_example :: string where
  "Gc_data_example =
     ''eyJvcmRlcmRhdGUiOiIyMDI0MDEwMSIsIm9yZGVybm8iOiJvcmRlcl8xIiwiYW1vdW50Ijo5OS45OSwib3JkZXJzdGF0ZSI6IjEifQ==''"

definition Gc_data_unmapped :: string where
  "Gc_data_unmapped =
     ''eyJvcmRlcmRhdGUiOiIyMDI0MDEwMSIsIm9yZGVybm8iOiJvcmRlcl8xIiwiYW1vdW50Ijo5OS45OSwib3JkZXJzdGF0ZSI6IkZPT19CQVIifQ==''"

definition Gc_body_example :: "string \<Rightarrow> string" where
  "Gc_body_example data =
     ''op=OrderNotify&xmpch=m1&version=1.4&data='' @ data @
     ''&requesttime=20240101120000&sign=0123456789ABCDEF0123456789ABCDEF''"

text \<open>The same form with its keys in the order of the signed string.\<close>

definition Gc_body_sorted :: "string \<Rightarrow> string" where
  "Gc_body_sorted data =
     ''data='' @ data @
     ''&op=OrderNotify&requesttime=20240101120000&version=1.4&xmpch=m1'' @
     ''&sign=0123456789ABCDEF0123456789ABCDEF''"

definition GcNotifyRespInfo_example :: GcNotifyRespInfo where
  "GcNotifyRespInfo_example =
     \<lparr>gn_Xmpch = '''', gn_OrderDate = ''20240101'', gn_OrderNo = ''order_1'',
      gn_Amount = fl64 (9999 / 100), gn_Jylsh = '''', gn_TradeNo = '''', gn_PayMethod = '''',
      gn_OrderState = ''1'', gn_ReturnType = '''', gn_PayerId = '''', gn_PayerName = ''''\<rparr>"

text \<open>
  \<^verbatim>\<open>url.ParseQuery\<close> on a query that holds no escape, that is none of the bytes \<^verbatim>\<open>%\<close>,
  \<^verbatim>\<open>+\<close> and \<^verbatim>\<open>;\<close>: the query is split at each \<^verbatim>\<open>&\<close>, an empty part is skipped, and each
  other part is cut at its first \<^verbatim>\<open>=\<close> into a key and a value; the values of a key keep
  their order. It is used for the parameter \<open>ParseQuery\<close> in the examples only.
\<close>

definition url_values :: "string \<Rightarrow> string \<Rightarrow> string list" where
  "url_values query key =
     map (\<lambda>pair. drop 1 (dropWhile (\<lambda>c. c \<noteq> CHR ''='') pair))
       (filter (\<lambda>pair. pair \<noteq> [] \<and> takeWhile (\<lambda>c. c \<noteq> CHR ''='') pair = key)
          (strings_Split query ''&''))"

definition url_ParseQuery :: "string \<Rightarrow> error + (string \<Rightarrow> string list)" where
  "url_ParseQuery query = Inr (url_values query)"

text \<open>
  \<^verbatim>\<open>base64.StdEncoding.DecodeString\<close> on a text without line breaks: the digits of the
  standard alphabet, each worth six bits, then the padding that fills the last group of
  four; every other text is corrupt. A last group whose spare bits are not zero is
  decoded too, as Go does outside its strict mode. It is used for the parameter
  \<open>DecodeString\<close> in the examples only.
\<close>

definition b64_value :: "char \<Rightarrow> int option" where
  "b64_value c =
     (let n = (of_char c :: int) in
      if 65 \<le> n \<and> n \<le> 90 then Some (n - 65)
      else if 97 \<le> n \<and> n \<le> 122 then Some (n - 71)
      else if 48 \<le> n \<and> n \<le> 57 then Some (n + 4)
      else if n = 43 then Some 62
      else if n = 47 then Some 63
      else None)"

fun b64_bytes :: "int list \<Rightarrow> string" where
  "b64_bytes (a # b # c # d # rest) =
     (let v = ((a * 64 + b) * 64 + c) * 64 + d in
      char_of (v div 65536) # char_of (v div 256) # char_of v # b64_bytes rest)"
| "b64_bytes [a, b, c] =
     (let v = (a * 64 + b) * 64 + c in [char_of (v div 1024), char_of (v div 4)])"
| "b64_bytes [a, b] = [char_of ((a * 64 + b) div 16)]"
| "b64_bytes _ = []"

definition base64_DecodeString :: "string \<Rightarrow> error + string" where
  "base64_DecodeString s =
     (let digits = takeWhile (\<lambda>c. c \<noteq> CHR ''='') s;
          padding = dropWhile (\<lambda>c. c \<noteq> CHR ''='') s
      in case those (map b64_value digits) of
           Some values \<Rightarrow>
             if (length digits mod 4, padding) \<in> set [(0, []), (2, ''==''), (3, ''='')]
             then Inr (b64_bytes values)
             else Inl (GoError ''illegal base64 data'')
         | None \<Rightarrow> Inl (GoError ''illegal base64 data''))"

text \<open>
  \<^verbatim>\<open>json.Unmarshal\<close> into a \<^verbatim>\<open>GcNotifyRespInfo\<close> at the inputs of the examples: the object
  above, with the order state \<^verbatim>\<open>1\<close> or \<^verbatim>\<open>FOO_BAR\<close>, decodes to the notification above with
  that state. Every other text gets an error here, although Go reads every JSON object:
  the function is used for the parameter \<open>json_Unmarshal\<close> in the examples only, at these
  two texts.
\<close>

definition json_Unmarshal_Gc_example :: "string \<Rightarrow> error + GcNotifyRespInfo" where
  "json_Unmarshal_Gc_example s =
     (if s = Gc_json_example ''1'' then Inr GcNotifyRespInfo_example
      else if s = Gc_json_example ''FOO_BAR''
      then Inr (GcNotifyRespInfo_example\<lparr>gn_OrderState := ''FOO_BAR''\<rparr>)
      else Inl (GoError ''unexpected end of JSON input''))"

text \<open>
  The report of a vendor state outside the mapping, as the specification words it: a
  result, not an error, with status \<open>Error\<close>, so neither \<open>Created\<close> nor \<open>Paid\<close>, and a
  message that is not empty and holds the vendor's string.
\<close>

abbreviation reports_unmapped :: "NotifyResult result \<Rightarrow> string \<Rightarrow> bool" where
  "reports_unmapped res vendor \<equiv>
     (\<exists>r. res = Ok r \<and> PaymentStatus r = PaymentStateError \<and>
          PaymentStatus r \<noteq> PaymentStateCreated \<and> PaymentStatus r \<noteq> PaymentStatePaid \<and>
          NotifyMessage r \<noteq> [] \<and> strings_Contains (NotifyMessage r) vendor)"

section \<open>Splitting on a one-byte separator\<close>

lemma strings_Split_Nil: "strings_Split [] [c] = [[]]"
  by (simp add: strings_Split.simps)

lemma strings_Split_ne: "strings_Split s [c] \<noteq> []"
proof (cases s)
  case Nil
  then show ?thesis by (simp add: strings_Split_Nil)
next
  case (Cons x xs)
  show ?thesis
    unfolding Cons by (subst strings_Split.simps) (simp split: list.splits)
qed

lemma strings_Split_Cons:
  "strings_Split (x # xs) [c] =
     (if x = c then [] # strings_Split xs [c]
      else (x # hd (strings_Split xs [c])) # tl (strings_Split xs [c]))"
proof (cases "strings_Split xs [c]")
  case Nil
  then show ?thesis using strings_Split_ne [of xs c] by simp
next
  case (Cons t ts)
  then show ?thesis by (subst strings_Split.simps) simp
qed

lemma strings_Split_free: "c \<notin> set a \<Longrightarrow> strings_Split a [c] = [a]"
  by (induction a) (auto simp: strings_Split_Nil strings_Split_Cons)

lemma strings_Split_append:
  "c \<notin> set a \<Longrightarrow> strings_Split (a @ c # rest) [c] = a # strings_Split rest [c]"
  by (induction a) (auto simp: strings_Split_Cons)

lemma strings_Contains_self: "strings_Contains s s"
  by (cases s) simp_all

lemma strings_Contains_append: "strings_Contains (p @ s) s"
  by (induction p) (simp_all add: strings_Contains_self)

section \<open>Attachment round trip\<close>

text \<open>
  C4. For strings \<open>a\<close>, \<open>b\<close>, \<open>c\<close> without the separator \<^verbatim>\<open>|\<close>, parsing the joined string
  gives back \<open>(a, b, c)\<close> and no error; and on every string whose split on \<^verbatim>\<open>|\<close> has not
  exactly three fields, \<open>parseAttachString\<close> returns three empty strings and the decoding
  error that names the number of fields.
\<close>

theorem parseAttachString_roundtrip:
  "(CHR ''|'' \<notin> set a \<and> CHR ''|'' \<notin> set b \<and> CHR ''|'' \<notin> set c \<longrightarrow>
      parseAttachString (joinAttachString [a, b, c]) = (a, b, c, None)) \<and>
   (length (strings_Split s ''|'') \<noteq> 3 \<longrightarrow>
      parseAttachString s =
        ('''', '''', '''',
         Some (GoError (''parseAttachString() error: len(tokens) expected 3, got: ''
                        @ itoa (length (strings_Split s ''|''))))))"
  by (simp add: parseAttachString_def joinAttachString_def strings_Split_append
      strings_Split_free)

theorem parseAttachString_roundtrip_witness:
  "parseAttachString (joinAttachString [''prod'', ''Product 1'', ''stripe'']) =
     (''prod'', ''Product 1'', ''stripe'', None) \<and>
   length (strings_Split ''a|b'' ''|'') \<noteq> 3 \<and>
   parseAttachString ''a|b'' =
     ('''', '''', '''',
      Some (GoError ''parseAttachString() error: len(tokens) expected 3, got: 2''))"
proof -
  have free: "CHR ''|'' \<notin> set ''prod'' \<and> CHR ''|'' \<notin> set ''Product 1'' \<and> CHR ''|'' \<notin> set ''stripe''"
    by simp
  have len: "length (strings_Split ''a|b'' ''|'') \<noteq> 3"
    by code_simp
  have msg: "itoa (length (strings_Split ''a|b'' ''|'')) = ''2''"
    by code_simp
  from parseAttachString_roundtrip [of "''prod''" "''Product 1''" "''stripe''" "''a|b''"]
    free len msg
  show ?thesis by simp
qed

section \<open>Balance payment\<close>

lemma GetOwnerAndNameFromId_form:
  "CHR ''/'' \<notin> set owner \<Longrightarrow> CHR ''/'' \<notin> set name \<Longrightarrow>
   GetOwnerAndNameFromId (owner @ CHR ''/'' # name) = Ok (owner, name)"
  by (simp add: GetOwnerAndNameFromId_def strings_Split_append strings_Split_free)

text \<open>
  C10. The Balance adapter's \<open>Pay\<close> panics, through \<open>GetOwnerAndNameFromId\<close>, whenever
  the payer id does not split on \<^verbatim>\<open>/\<close> into exactly two tokens; for a payer id
  \<^verbatim>\<open>owner/name\<close> it returns, with no error, the response whose pay URL is the request's
  return URL and whose order id is the owner, \<^verbatim>\<open>/\<close> and the payment name.
\<close>

theorem Balance_Pay_panics_or_returns:
  "(length (strings_Split (req_PayerId r) ''/'') \<noteq> 2 \<longrightarrow>
      Balance_Pay r =
        Panic (''GetOwnerAndNameFromId() error, wrong token count for ID: '' @ req_PayerId r)) \<and>
   (CHR ''/'' \<notin> set owner \<and> CHR ''/'' \<notin> set name \<and> req_PayerId r = owner @ ''/'' @ name \<longrightarrow>
      Balance_Pay r =
        Ok \<lparr>resp_PayUrl = req_ReturnUrl r,
            resp_OrderId = owner @ ''/'' @ req_PaymentName r,
            resp_AttachInfo = []\<rparr>)"
proof (intro conjI impI)
  assume "length (strings_Split (req_PayerId r) ''/'') \<noteq> 2"
  then show "Balance_Pay r =
      Panic (''GetOwnerAndNameFromId() error, wrong token count for ID: '' @ req_PayerId r)"
    by (simp add: Balance_Pay_def result_bind_def GetOwnerAndNameFromId_def)
next
  assume "CHR ''/'' \<notin> set owner \<and> CHR ''/'' \<notin> set name \<and> req_PayerId r = owner @ ''/'' @ name"
  then show "Balance_Pay r =
      Ok \<lparr>resp_PayUrl = req_ReturnUrl r, resp_OrderId = owner @ ''/'' @ req_PaymentName r,
          resp_AttachInfo = []\<rparr>"
    by (simp add: Balance_Pay_def result_bind_def GetOwnerAndNameFromId_form)
qed

theorem Balance_Pay_panics_or_returns_witness:
  "length (strings_Split (req_PayerId (PayReq_example\<lparr>req_PayerId := ''admin''\<rparr>)) ''/'') \<noteq> 2 \<and>
   Balance_Pay (PayReq_example\<lparr>req_PayerId := ''admin''\<rparr>) =
     Panic ''GetOwnerAndNameFromId() error, wrong token count for ID: admin'' \<and>
   CHR ''/'' \<notin> set ''admin'' \<and> CHR ''/'' \<notin> set ''bob'' \<and>
   req_PayerId PayReq_example = ''admin'' @ ''/'' @ ''bob'' \<and>
   Balance_Pay PayReq_example =
     Ok \<lparr>resp_PayUrl = ''https://example.com/return'', resp_OrderId = ''admin/order_1'',
         resp_AttachInfo = []\<rparr>"
proof -
  have len: "length (strings_Split (req_PayerId (PayReq_example\<lparr>req_PayerId := ''admin''\<rparr>)) ''/'') \<noteq> 2"
    by (simp add: strings_Split_free)
  have form: "CHR ''/'' \<notin> set ''admin'' \<and> CHR ''/'' \<notin> set ''bob'' \<and>
      req_PayerId PayReq_example = ''admin'' @ ''/'' @ ''bob''"
    by (simp add: PayReq_example_def)
  from Balance_Pay_panics_or_returns [of "PayReq_example\<lparr>req_PayerId := ''admin''\<rparr>"] len
  have p: "Balance_Pay (PayReq_example\<lparr>req_PayerId := ''admin''\<rparr>) =
     Panic ''GetOwnerAndNameFromId() error, wrong token count for ID: admin''"
    by simp
  from Balance_Pay_panics_or_returns [of PayReq_example "''admin''" "''bob''"] form
  have q: "Balance_Pay PayReq_example =
     Ok \<lparr>resp_PayUrl = ''https://example.com/return'', resp_OrderId = ''admin/order_1'',
         resp_AttachInfo = []\<rparr>"
    by (simp add: PayReq_example_def)
  from len form p q show ?thesis by simp
qed

section \<open>Alipay: a failed trade query\<close>

lemma AlipayError_example_neq: "''connection refused'' \<noteq> AlipayError_example"
  by code_simp

text \<open>
  C9. When the trade query of the Alipay adapter's \<open>Notify\<close> fails with an error whose
  message decodes to a response with sub-code \<^verbatim>\<open>ACQ.TRADE_NOT_EXIST\<close>, the result has status
  \<open>Canceled\<close> and there is no error; every other error of the query, also one whose
  message does not decode, is returned as it is, with no result.
\<close>

theorem Alipay_Notify_query_error:
  "(TradeQuery orderId = Inl err \<and> json_Unmarshal (Error err) = Inr errRsp \<and>
    er_SubCode errRsp = ''ACQ.TRADE_NOT_EXIST'' \<longrightarrow>
      Alipay_Notify ParseFloat json_Unmarshal TradeQuery body orderId =
        Ok (NotifyResult_zero\<lparr>PaymentStatus := PaymentStateCanceled\<rparr>)) \<and>
   (TradeQuery orderId = Inl err \<and>
    \<not> (\<exists>errRsp. json_Unmarshal (Error err) = Inr errRsp \<and>
           er_SubCode errRsp = ''ACQ.TRADE_NOT_EXIST'') \<longrightarrow>
      Alipay_Notify ParseFloat json_Unmarshal TradeQuery body orderId = Fail err)"
  by (auto simp: Alipay_Notify_def split: sum.splits)

theorem Alipay_Notify_query_error_witness:
  "Alipay_Notify ParseFloat_decimal json_Unmarshal_example
     (\<lambda>_. Inl (GoError AlipayError_example)) [] ''order_1'' =
     Ok (NotifyResult_zero\<lparr>PaymentStatus := PaymentStateCanceled\<rparr>) \<and>
   Alipay_Notify ParseFloat_decimal json_Unmarshal_example
     (\<lambda>_. Inl (GoError ''connection refused'')) [] ''order_1'' =
     Fail (GoError ''connection refused'')"
proof -
  have a: "json_Unmarshal_example (Error (GoError AlipayError_example)) =
      Inr AlipayErrorResponse_example \<and>
      er_SubCode AlipayErrorResponse_example = ''ACQ.TRADE_NOT_EXIST''"
    by (simp add: json_Unmarshal_example_def AlipayErrorResponse_example_def)
  have b: "\<not> (\<exists>errRsp. json_Unmarshal_example (Error (GoError ''connection refused'')) = Inr errRsp \<and>
      er_SubCode errRsp = ''ACQ.TRADE_NOT_EXIST'')"
    by (simp add: json_Unmarshal_example_def AlipayError_example_neq)
  from a Alipay_Notify_query_error [of "\<lambda>_. Inl (GoError AlipayError_example)"
      "''order_1''" "GoError AlipayError_example" json_Unmarshal_example
      AlipayErrorResponse_example ParseFloat_decimal "[]"]
  have c: "Alipay_Notify ParseFloat_decimal json_Unmarshal_example
     (\<lambda>_. Inl (GoError AlipayError_example)) [] ''order_1'' =
     Ok (NotifyResult_zero\<lparr>PaymentStatus := PaymentStateCanceled\<rparr>)"
    by simp
  from b Alipay_Notify_query_error [of "\<lambda>_. Inl (GoError ''connection refused'')"
      "''order_1''" "GoError ''connection refused''" json_Unmarshal_example
      AlipayErrorResponse_example ParseFloat_decimal "[]"]
  have d: "Alipay_Notify ParseFloat_decimal json_Unmarshal_example
     (\<lambda>_. Inl (GoError ''connection refused'')) [] ''order_1'' =
     Fail (GoError ''connection refused'')"
    by simp
  from c d show ?thesis by simp
qed

section \<open>Stripe: the session status before the payment status\<close>

lemma price_9999_roundtrip:
  "priceInt64ToFloat64 (priceFloat64ToInt64 (fl64 (9999 / 100))) = fl64 (9999 / 100)"
  by code_simp

lemma PaymentState_distinct:
  "PaymentStatePaid \<noteq> PaymentStateCreated" "PaymentStatePaid \<noteq> PaymentStateError"
  "PaymentStateCreated \<noteq> PaymentStateError" "PaymentStatePaid \<noteq> PaymentStateCanceled"
  "PaymentStatePaid \<noteq> PaymentStateTimeout" "PaymentStateCreated \<noteq> PaymentStateCanceled"
  "PaymentStateCreated \<noteq> PaymentStateTimeout" "PaymentStateCanceled \<noteq> PaymentStateTimeout"
  "PaymentStateCanceled \<noteq> PaymentStateError" "PaymentStateTimeout \<noteq> PaymentStateError"
  "PaymentStateCreated \<noteq> PaymentStatePaid" "PaymentStateError \<noteq> PaymentStatePaid"
  "PaymentStateError \<noteq> PaymentStateCreated" "PaymentStateCanceled \<noteq> PaymentStatePaid"
  "PaymentStateTimeout \<noteq> PaymentStatePaid" "PaymentStateCanceled \<noteq> PaymentStateCreated"
  "PaymentStateTimeout \<noteq> PaymentStateCreated" "PaymentStateTimeout \<noteq> PaymentStateCanceled"
  "PaymentStateError \<noteq> PaymentStateCanceled" "PaymentStateError \<noteq> PaymentStateTimeout"
  by (simp_all add: PaymentStatePaid_def PaymentStateCreated_def PaymentStateError_def
      PaymentStateCanceled_def PaymentStateTimeout_def)

lemma Stripe_Notify_paid_status:
  "cs_PaymentIntent s = Some i \<Longrightarrow> intent_Get i = Inr sIntent \<Longrightarrow>
   \<exists>r. Stripe_Notify_paid intent_Get s orderId = Ok r \<and> PaymentStatus r = PaymentStatePaid \<and>
       Price r = priceInt64ToFloat64 (pi_Amount sIntent)"
  by (auto simp: Stripe_Notify_paid_def split: option.splits prod.splits)

text \<open>
  C2. The Stripe adapter's \<open>Notify\<close> looks at the session status first: an open session
  gives \<open>Created\<close> and an expired one \<open>Timeout\<close>, and for every session status other than
  \<^verbatim>\<open>complete\<close> the result is the same whatever the payment status is; for a complete
  session the payment status decides. For a payment of 99.99, whose amount \<open>Pay\<close> sends
  as \<open>priceFloat64ToInt64 99.99\<close> minor units (lines 59 and 71), a complete and paid session
  gives status \<open>Paid\<close> and price 99.99.
\<close>

theorem Stripe_Notify_outer_axis_first:
  "(checkout_Get orderId = Inr s \<and> cs_Status s = ''open'' \<longrightarrow>
      Stripe_Notify checkout_Get intent_Get body orderId =
        Ok (NotifyResult_zero\<lparr>PaymentStatus := PaymentStateCreated\<rparr>)) \<and>
   (checkout_Get orderId = Inr s \<and> cs_Status s = ''expired'' \<longrightarrow>
      Stripe_Notify checkout_Get intent_Get body orderId =
        Ok (NotifyResult_zero\<lparr>PaymentStatus := PaymentStateTimeout\<rparr>)) \<and>
   (checkout_Get orderId = Inr s \<and> cs_Status s \<noteq> ''complete'' \<longrightarrow>
      Stripe_Notify (\<lambda>_. Inr (s\<lparr>cs_PaymentStatus := p\<rparr>)) intent_Get body orderId =
      Stripe_Notify checkout_Get intent_Get body orderId) \<and>
   (checkout_Get orderId = Inr s \<and> cs_Status s = ''complete'' \<longrightarrow>
      Stripe_Notify checkout_Get intent_Get body orderId =
        (if cs_PaymentStatus s = ''paid'' then Stripe_Notify_paid intent_Get s orderId
         else if cs_PaymentStatus s = ''unpaid'' then
           Ok (NotifyResult_zero\<lparr>PaymentStatus := PaymentStateCreated\<rparr>)
         else Ok (NotifyResult_zero
                   \<lparr>PaymentStatus := PaymentStateError,
                    NotifyMessage := ''unexpected stripe checkout payment status: ''
                                     @ cs_PaymentStatus s\<rparr>))) \<and>
   (checkout_Get orderId = Inr s \<and> cs_Status s = ''complete'' \<and> cs_PaymentStatus s = ''paid'' \<and>
    cs_PaymentIntent s = Some i \<and> intent_Get i = Inr sIntent \<and>
    pi_Amount sIntent = priceFloat64ToInt64 (fl64 (9999 / 100)) \<longrightarrow>
      (\<exists>r. Stripe_Notify checkout_Get intent_Get body orderId = Ok r \<and>
           PaymentStatus r = PaymentStatePaid \<and> Price r = fl64 (9999 / 100)))"
proof (intro conjI impI)
  assume "checkout_Get orderId = Inr s \<and> cs_Status s = ''open''"
  then show "Stripe_Notify checkout_Get intent_Get body orderId =
      Ok (NotifyResult_zero\<lparr>PaymentStatus := PaymentStateCreated\<rparr>)"
    by (simp add: Stripe_Notify_def)
next
  assume "checkout_Get orderId = Inr s \<and> cs_Status s = ''expired''"
  then show "Stripe_Notify checkout_Get intent_Get body orderId =
      Ok (NotifyResult_zero\<lparr>PaymentStatus := PaymentStateTimeout\<rparr>)"
    by (simp add: Stripe_Notify_def)
next
  assume "checkout_Get orderId = Inr s \<and> cs_Status s \<noteq> ''complete''"
  then show "Stripe_Notify (\<lambda>_. Inr (s\<lparr>cs_PaymentStatus := p\<rparr>)) intent_Get body orderId =
      Stripe_Notify checkout_Get intent_Get body orderId"
    by (simp add: Stripe_Notify_def)
next
  assume "checkout_Get orderId = Inr s \<and> cs_Status s = ''complete''"
  then show "Stripe_Notify checkout_Get intent_Get body orderId =
        (if cs_PaymentStatus s = ''paid'' then Stripe_Notify_paid intent_Get s orderId
         else if cs_PaymentStatus s = ''unpaid'' then
           Ok (NotifyResult_zero\<lparr>PaymentStatus := PaymentStateCreated\<rparr>)
         else Ok (NotifyResult_zero
                   \<lparr>PaymentStatus := PaymentStateError,
                    NotifyMessage := ''unexpected stripe checkout payment status: ''
                                     @ cs_PaymentStatus s\<rparr>))"
    by (simp add: Stripe_Notify_def Stripe_Notify_complete_def)
next
  assume h: "checkout_Get orderId = Inr s \<and> cs_Status s = ''complete'' \<and> cs_PaymentStatus s = ''paid'' \<and>
    cs_PaymentIntent s = Some i \<and> intent_Get i = Inr sIntent \<and>
    pi_Amount sIntent = priceFloat64ToInt64 (fl64 (9999 / 100))"
  then have "Stripe_Notify checkout_Get intent_Get body orderId = Stripe_Notify_paid intent_Get s orderId"
    by (simp add: Stripe_Notify_def Stripe_Notify_complete_def)
  with h Stripe_Notify_paid_status [of s i intent_Get sIntent orderId]
  show "\<exists>r. Stripe_Notify checkout_Get intent_Get body orderId = Ok r \<and>
           PaymentStatus r = PaymentStatePaid \<and> Price r = fl64 (9999 / 100)"
    by (simp add: price_9999_roundtrip)
qed

theorem Stripe_Notify_outer_axis_first_witness:
  "Stripe_Notify (\<lambda>_. Inr (CheckoutSession_example\<lparr>cs_Status := ''open''\<rparr>))
      (\<lambda>_. Inr PaymentIntent_example) [] ''cs_1'' =
     Ok (NotifyResult_zero\<lparr>PaymentStatus := PaymentStateCreated\<rparr>) \<and>
   Stripe_Notify (\<lambda>_. Inr (CheckoutSession_example\<lparr>cs_Status := ''expired''\<rparr>))
      (\<lambda>_. Inr PaymentIntent_example) [] ''cs_1'' =
     Ok (NotifyResult_zero\<lparr>PaymentStatus := PaymentStateTimeout\<rparr>) \<and>
   Stripe_Notify (\<lambda>_. Inr (CheckoutSession_example\<lparr>cs_Status := ''open'', cs_PaymentStatus := ''unpaid''\<rparr>))
      (\<lambda>_. Inr PaymentIntent_example) [] ''cs_1'' =
   Stripe_Notify (\<lambda>_. Inr (CheckoutSession_example\<lparr>cs_Status := ''open''\<rparr>))
      (\<lambda>_. Inr PaymentIntent_example) [] ''cs_1'' \<and>
   Stripe_Notify (\<lambda>_. Inr (CheckoutSession_example\<lparr>cs_PaymentStatus := ''unpaid''\<rparr>))
      (\<lambda>_. Inr PaymentIntent_example) [] ''cs_1'' =
     Ok (NotifyResult_zero\<lparr>PaymentStatus := PaymentStateCreated\<rparr>) \<and>
   (\<exists>r. Stripe_Notify (\<lambda>_. Inr CheckoutSession_example) (\<lambda>_. Inr PaymentIntent_example) [] ''cs_1'' = Ok r \<and>
        PaymentStatus r = PaymentStatePaid \<and> Price r = req_Price PayReq_example)"
proof -
  let ?I = "\<lambda>_::string. Inr PaymentIntent_example :: error + PaymentIntent"
  let ?o = "CheckoutSession_example\<lparr>cs_Status := ''open''\<rparr>"
  let ?e = "CheckoutSession_example\<lparr>cs_Status := ''expired''\<rparr>"
  let ?u = "CheckoutSession_example\<lparr>cs_PaymentStatus := ''unpaid''\<rparr>"
  note T = Stripe_Notify_outer_axis_first
  have 1: "Stripe_Notify (\<lambda>_. Inr ?o) ?I [] ''cs_1'' =
      Ok (NotifyResult_zero\<lparr>PaymentStatus := PaymentStateCreated\<rparr>)"
    using T [of "\<lambda>_. Inr ?o" "''cs_1''" ?o ?I "[]"] by (simp add: CheckoutSession_example_def)
  have 2: "Stripe_Notify (\<lambda>_. Inr ?e) ?I [] ''cs_1'' =
      Ok (NotifyResult_zero\<lparr>PaymentStatus := PaymentStateTimeout\<rparr>)"
    using T [of "\<lambda>_. Inr ?e" "''cs_1''" ?e ?I "[]"] by (simp add: CheckoutSession_example_def)
  have 3: "Stripe_Notify (\<lambda>_. Inr (?o\<lparr>cs_PaymentStatus := ''unpaid''\<rparr>)) ?I [] ''cs_1'' =
      Stripe_Notify (\<lambda>_. Inr ?o) ?I [] ''cs_1''"
    using T [of "\<lambda>_. Inr ?o" "''cs_1''" ?o ?I "[]" "''unpaid''"] by (simp add: CheckoutSession_example_def)
  have 4: "Stripe_Notify (\<lambda>_. Inr ?u) ?I [] ''cs_1'' =
      Ok (NotifyResult_zero\<lparr>PaymentStatus := PaymentStateCreated\<rparr>)"
    using T [of "\<lambda>_. Inr ?u" "''cs_1''" ?u ?I "[]"] by (simp add: CheckoutSession_example_def)
  have h: "Inr CheckoutSession_example = (Inr CheckoutSession_example :: error + CheckoutSession) \<and>
      cs_Status CheckoutSession_example = ''complete'' \<and>
      cs_PaymentStatus CheckoutSession_example = ''paid'' \<and>
      cs_PaymentIntent CheckoutSession_example = Some ''pi_1'' \<and>
      Inr PaymentIntent_example = (Inr PaymentIntent_example :: error + PaymentIntent) \<and>
      pi_Amount PaymentIntent_example = priceFloat64ToInt64 (fl64 (9999 / 100))"
    by (simp add: CheckoutSession_example_def PaymentIntent_example_def PayReq_example_def)
  have p: "req_Price PayReq_example = fl64 (9999 / 100)"
    by (simp add: PayReq_example_def)
  from h T [of "\<lambda>_. Inr CheckoutSession_example" "''cs_1''" CheckoutSession_example ?I "[]" _
        "''pi_1''" PaymentIntent_example]
  have "\<exists>r. Stripe_Notify (\<lambda>_. Inr CheckoutSession_example) ?I [] ''cs_1'' = Ok r \<and>
        PaymentStatus r = PaymentStatePaid \<and> Price r = fl64 (9999 / 100)"
    by blast
  with p have 5: "\<exists>r. Stripe_Notify (\<lambda>_. Inr CheckoutSession_example) ?I [] ''cs_1'' = Ok r \<and>
        PaymentStatus r = PaymentStatePaid \<and> Price r = req_Price PayReq_example"
    by simp
  from 1 2 3 4 5 show ?thesis by simp
qed

section \<open>Acknowledgement tokens\<close>

text \<open>
  C7, as it stands, fails: the Dummy and Balance adapters answer the empty string for a
  nil error and for any other, and the WeChat adapter's envelope carries the message of
  the error, so two different errors get two different tokens.
\<close>

theorem GetResponseError_counterexample:
  "Dummy_GetResponseError None = Dummy_GetResponseError (Some (GoError ''timeout'')) \<and>
   Balance_GetResponseError None = Balance_GetResponseError (Some (GoError ''timeout'')) \<and>
   Wechat_GetResponseError StructToJson_plain (Some (GoError ''timeout'')) \<noteq>
   Wechat_GetResponseError StructToJson_plain (Some (GoError ''closed''))"
  by (simp add: Dummy_GetResponseError_def Balance_GetResponseError_def
      Wechat_GetResponseError_def StructToJson_plain_def)

text \<open>
  C7, amended. For the Stripe, Alipay, PayPal, Airwallex and GC adapters the token is
  decided by the presence of the error alone: any two errors get the same token
  (\<^verbatim>\<open>fail\<close>), which differs from the token for no error (\<^verbatim>\<open>success\<close>). The WeChat adapter
  encodes a response with code \<^verbatim>\<open>SUCCESS\<close> and an empty message for no error, and with code
  \<^verbatim>\<open>FAIL\<close> and the error's message otherwise. The Balance and Dummy adapters return the
  empty string in both cases.
\<close>

theorem GetResponseError_tokens:
  "Stripe_GetResponseError (Some e1) = Stripe_GetResponseError (Some e2) \<and>
   Stripe_GetResponseError None \<noteq> Stripe_GetResponseError (Some e1) \<and>
   Alipay_GetResponseError (Some e1) = Alipay_GetResponseError (Some e2) \<and>
   Alipay_GetResponseError None \<noteq> Alipay_GetResponseError (Some e1) \<and>
   Paypal_GetResponseError (Some e1) = Paypal_GetResponseError (Some e2) \<and>
   Paypal_GetResponseError None \<noteq> Paypal_GetResponseError (Some e1) \<and>
   Airwallex_GetResponseError (Some e1) = Airwallex_GetResponseError (Some e2) \<and>
   Airwallex_GetResponseError None \<noteq> Airwallex_GetResponseError (Some e1) \<and>
   Gc_GetResponseError (Some e1) = Gc_GetResponseError (Some e2) \<and>
   Gc_GetResponseError None \<noteq> Gc_GetResponseError (Some e1) \<and>
   Wechat_GetResponseError StructToJson None =
     StructToJson \<lparr>wn_Code = ''SUCCESS'', wn_Message = ''''\<rparr> \<and>
   Wechat_GetResponseError StructToJson (Some e1) =
     StructToJson \<lparr>wn_Code = ''FAIL'', wn_Message = Error e1\<rparr> \<and>
   Balance_GetResponseError err = '''' \<and>
   Dummy_GetResponseError err = ''''"
  by (simp add: Stripe_GetResponseError_def Alipay_GetResponseError_def
      Paypal_GetResponseError_def Airwallex_GetResponseError_def Gc_GetResponseError_def
      success_or_fail_def Wechat_GetResponseError_def Balance_GetResponseError_def
      Dummy_GetResponseError_def)

section \<open>Constructors and missing credentials\<close>

text \<open>
  C6, as it stands, fails: the WeChat constructor is not the only one that returns an
  instance and no error when credentials are missing. The Stripe and the Airwallex
  constructors do so for empty keys.
\<close>

theorem constructors_counterexample:
  "NewStripePaymentProvider '''' '''' =
     (Ok \<lparr>PublishableKey = '''', SecretKey = '''', isProd = True\<rparr>, '''') \<and>
   NewAirwallexPaymentProvider '''' '''' =
     Ok \<lparr>aw_Client =
          \<lparr>ac_ClientId = '''', ac_APIKey = '''',
           ac_APIEndpoint = ''https://api.airwallex.com/api/v1'',
           ac_APICheckout = ''https://checkout.airwallex.com/#/standalone/checkout?'',
           ac_TimeoutSeconds = 15\<rparr>\<rparr>"
  by (simp add: NewStripePaymentProvider_def NewAirwallexPaymentProvider_def)

text \<open>
  C6, amended. The WeChat constructor returns the zero-value instance and no error
  whenever one of its five credentials is empty, without calling the SDK. No other
  constructor checks its credentials: those of Stripe and Airwallex always return an
  instance that holds the credentials as given, and no error; those of Alipay and PayPal
  return an error exactly when the SDK's client constructor or, for Alipay, its
  certificate setup returns one; GC's constructor has no error result; those of Balance
  and Dummy take no credentials and return no error.
\<close>

theorem constructors_credentials:
  "(appId = '''' \<or> mchId = '''' \<or> serialNo = '''' \<or> apiV3Key = '''' \<or> privateKey = '''' \<longrightarrow>
      NewWechatPaymentProvider NewClientV3 GetAndSelectNewestCert SetPlatformCert
        mchId apiV3Key appId serialNo privateKey = Ok \<lparr>wx_Client = None, wx_AppId = ''''\<rparr>) \<and>
   NewStripePaymentProvider publishableKey secretKey =
     (Ok \<lparr>PublishableKey = publishableKey, SecretKey = secretKey, isProd = True\<rparr>, secretKey) \<and>
   (\<exists>pp. NewAirwallexPaymentProvider clientId apiKey = Ok pp \<and>
      ac_ClientId (aw_Client pp) = clientId \<and> ac_APIKey (aw_Client pp) = apiKey) \<and>
   (NewAlipayPaymentProvider NewClient SetCertSnByContent
      aliAppId appCertificate appPrivateKey authorityPublicKey authorityRootPublicKey = Fail e \<longleftrightarrow>
      NewClient aliAppId appPrivateKey True = Inl e \<or>
      (\<exists>client. NewClient aliAppId appPrivateKey True = Inr client \<and>
         SetCertSnByContent client appCertificate authorityRootPublicKey authorityPublicKey = Inl e)) \<and>
   (NewPaypalPaymentProvider NewClient' clientID secret = Fail e' \<longleftrightarrow>
      NewClient' clientID secret True = Inl e') \<and>
   NewGcPaymentProvider gcClientId clientSecret host =
     \<lparr>Xmpch = gcClientId, gc_SecretKey = clientSecret, Host = host\<rparr> \<and>
   NewBalancePaymentProvider = Ok () \<and>
   NewDummyPaymentProvider = Ok ()"
  by (auto simp: NewWechatPaymentProvider_def NewStripePaymentProvider_def
      NewAirwallexPaymentProvider_def NewAlipayPaymentProvider_def NewPaypalPaymentProvider_def
      NewGcPaymentProvider_def NewBalancePaymentProvider_def NewDummyPaymentProvider_def
      split: sum.splits)

theorem constructors_credentials_witness:
  "NewWechatPaymentProvider (\<lambda>_ _ _ _. Inl (GoError ''missing key'') :: error + unit)
      (\<lambda>_. Inl (GoError ''no certificate'')) (\<lambda>c _ _. c)
      ''1900000001'' ''key'' ''wx1'' ''serial'' '''' = Ok \<lparr>wx_Client = None, wx_AppId = ''''\<rparr>"
proof -
  have "''wx1'' = '''' \<or> ''1900000001'' = '''' \<or> ''serial'' = '''' \<or> ''key'' = '''' \<or>
      ('''' :: string) = ''''"
    by simp
  with constructors_credentials [THEN conjunct1, of "''wx1''" "''1900000001''" "''serial''"
      "''key''" "''''" "\<lambda>_ _ _ _. Inl (GoError ''missing key'') :: error + unit"
      "\<lambda>_. Inl (GoError ''no certificate'')" "\<lambda>c _ _. c"]
  show ?thesis by blast
qed

section \<open>Vendor states outside the mapping\<close>

lemma reports_unmappedI:
  assumes "res = Ok (NotifyResult_zero\<lparr>PaymentStatus := PaymentStateError, NotifyMessage := p @ v\<rparr>)"
    and "p \<noteq> []"
  shows "reports_unmapped res v"
proof -
  let ?r = "NotifyResult_zero\<lparr>PaymentStatus := PaymentStateError, NotifyMessage := p @ v\<rparr>"
  have "PaymentStatus ?r = PaymentStateError" "NotifyMessage ?r = p @ v"
    by simp_all
  moreover have "strings_Contains (p @ v) v"
    by (rule strings_Contains_append)
  moreover have "p @ v \<noteq> []"
    using assms(2) by simp
  ultimately have "PaymentStatus ?r = PaymentStateError \<and>
      PaymentStatus ?r \<noteq> PaymentStateCreated \<and> PaymentStatus ?r \<noteq> PaymentStatePaid \<and>
      NotifyMessage ?r \<noteq> [] \<and> strings_Contains (NotifyMessage ?r) v"
    by (simp only: PaymentState_distinct simp_thms)
  with assms(1) show ?thesis by blast
qed

lemma Stripe_unmapped:
  "checkout_Get orderId = Inr s \<Longrightarrow> cs_Status s \<notin> set [''open'', ''complete'', ''expired''] \<Longrightarrow>
   reports_unmapped (Stripe_Notify checkout_Get intent_Get body orderId) (cs_Status s)"
  by (rule reports_unmappedI [where p = "''unexpected stripe checkout status: ''"])
    (simp_all add: Stripe_Notify_def)

lemma Stripe_unmapped_payment:
  "checkout_Get orderId = Inr s \<Longrightarrow> cs_Status s = ''complete'' \<Longrightarrow>
   cs_PaymentStatus s \<notin> set [''paid'', ''unpaid''] \<Longrightarrow>
   reports_unmapped (Stripe_Notify checkout_Get intent_Get body orderId) (cs_PaymentStatus s)"
  by (rule reports_unmappedI [where p = "''unexpected stripe checkout payment status: ''"])
    (simp_all add: Stripe_Notify_def Stripe_Notify_complete_def)

lemma Airwallex_unmapped:
  "GetIntentByOrderId orderId = Ok intent \<Longrightarrow>
   ai_Status intent \<notin> set [''PENDING'', ''REQUIRES_PAYMENT_METHOD'', ''REQUIRES_CUSTOMER_ACTION'',
     ''REQUIRES_CAPTURE'', ''CANCELLED'', ''EXPIRED'', ''SUCCEEDED''] \<Longrightarrow>
   reports_unmapped (Airwallex_Notify ParseFloat GetIntentByOrderId body orderId) (ai_Status intent)"
  by (rule reports_unmappedI [where p = "''unexpected airwallex checkout status: ''"])
    (simp_all add: Airwallex_Notify_def result_bind_def)

lemma Airwallex_unmapped_payment:
  "GetIntentByOrderId orderId = Ok intent \<Longrightarrow> ai_Status intent = ''SUCCEEDED'' \<Longrightarrow>
   ai_PaymentStatus intent \<notin> set ['''', ''CANCELLED'', ''EXPIRED'', ''RECEIVED'',
     ''AUTHENTICATION_REDIRECTED'', ''AUTHORIZED'', ''CAPTURE_REQUESTED'', ''PAID'', ''SETTLED''] \<Longrightarrow>
   reports_unmapped (Airwallex_Notify ParseFloat GetIntentByOrderId body orderId)
     (ai_PaymentStatus intent)"
  by (rule reports_unmappedI [where p = "''unexpected airwallex checkout payment status: ''"])
    (simp_all add: Airwallex_Notify_def Airwallex_Notify_succeeded_def result_bind_def)

lemma Alipay_unmapped:
  "TradeQuery orderId = Inr aliRsp \<Longrightarrow>
   tq_TradeStatus aliRsp \<notin> set [''WAIT_BUYER_PAY'', ''TRADE_CLOSED'', ''TRADE_SUCCESS''] \<Longrightarrow>
   reports_unmapped (Alipay_Notify ParseFloat json_Unmarshal TradeQuery body orderId)
     (tq_TradeStatus aliRsp)"
  by (rule reports_unmappedI [where p = "''unexpected alipay trade state: ''"])
    (simp_all add: Alipay_Notify_def)

lemma Wechat_unmapped:
  "V3TransactionQueryOrder (wx_Client pp) orderId = Inr queryRsp \<Longrightarrow>
   qr_Code queryRsp = wechat_Success \<Longrightarrow>
   qr_TradeState queryRsp \<notin> set [''SUCCESS'', ''CLOSED'', ''NOTPAY'', ''USERPAYING''] \<Longrightarrow>
   reports_unmapped (Wechat_Notify V3TransactionQueryOrder pp body orderId) (qr_TradeState queryRsp)"
  by (rule reports_unmappedI [where p = "''unexpected wechat trade state: ''"])
    (simp_all add: Wechat_Notify_def)

lemma Paypal_Notify_detail_status:
  "OrderDetail orderId = Inr detailRsp \<Longrightarrow> od_Code detailRsp = paypal_Success \<Longrightarrow>
   od_PurchaseUnits detailRsp = unit # units \<Longrightarrow> ParseFloat (pu_AmountValue unit) = Inr price \<Longrightarrow>
   parseAttachString (pu_Description unit) = (a, b, c, None) \<Longrightarrow>
   Paypal_Notify_detail ParseFloat fmt_Errorf OrderDetail orderId =
     Ok \<lparr>PaymentName = od_Id detailRsp,
         PaymentStatus = (if od_Status detailRsp = ''COMPLETED'' then PaymentStatePaid
                          else PaymentStateError),
         NotifyMessage = '''', ProductName = b, ProductDisplayName = a, ProviderName = c,
         Price = price, Currency = pu_AmountCurrencyCode unit, OrderId = orderId\<rparr>"
  by (simp add: Paypal_Notify_detail_def result_bind_def index0_def)

lemma Paypal_Notify_captured:
  "OrderCapture orderId = Inr captureRsp \<Longrightarrow>
   oc_Code captureRsp = paypal_Success \<or>
   (\<exists>d ds. oc_Details captureRsp = d # ds \<and> ed_Issue d = ''ORDER_ALREADY_CAPTURED'') \<Longrightarrow>
   Paypal_Notify ParseFloat fmt_Errorf OrderCapture OrderDetail body orderId =
     Paypal_Notify_detail ParseFloat fmt_Errorf OrderDetail orderId"
  by (auto simp: Paypal_Notify_def result_bind_def index0_def)

lemma Gc_Notify_decoded:
  "ParseQuery body = Inr m \<Longrightarrow>
   m ''op'' \<noteq> [] \<Longrightarrow> m ''xmpch'' \<noteq> [] \<Longrightarrow> m ''version'' \<noteq> [] \<Longrightarrow> m ''data'' = data # ds \<Longrightarrow>
   m ''requesttime'' \<noteq> [] \<Longrightarrow> m ''sign'' \<noteq> [] \<Longrightarrow>
   DecodeString data = Inr bytes \<Longrightarrow> json_Unmarshal bytes = Inr info \<Longrightarrow>
   Gc_Notify ParseQuery DecodeString json_Unmarshal body orderId =
     (if gn_OrderState info \<noteq> ''1'' then
        Fail (GoError (''error order state: '' @ gn_OrderDate info))
      else Ok \<lparr>PaymentName = gn_OrderNo info, PaymentStatus = PaymentStatePaid,
               NotifyMessage = '''', ProductName = '''', ProductDisplayName = '''',
               ProviderName = '''', Price = gn_Amount info, Currency = '''',
               OrderId = orderId\<rparr>)"
  by (auto simp: Gc_Notify_def result_bind_def index0_def neq_Nil_conv)

lemma Gc_body_example_values:
  "url_values (Gc_body_example Gc_data_example) ''op'' = [''OrderNotify'']"
  "url_values (Gc_body_example Gc_data_example) ''xmpch'' = [''m1'']"
  "url_values (Gc_body_example Gc_data_example) ''version'' = [''1.4'']"
  "url_values (Gc_body_example Gc_data_example) ''data'' = [Gc_data_example]"
  "url_values (Gc_body_example Gc_data_example) ''requesttime'' = [''20240101120000'']"
  "url_values (Gc_body_example Gc_data_example) ''sign'' = [''0123456789ABCDEF0123456789ABCDEF'']"
  by code_simp+

lemma Gc_body_unmapped_values:
  "url_values (Gc_body_example Gc_data_unmapped) ''op'' = [''OrderNotify'']"
  "url_values (Gc_body_example Gc_data_unmapped) ''xmpch'' = [''m1'']"
  "url_values (Gc_body_example Gc_data_unmapped) ''version'' = [''1.4'']"
  "url_values (Gc_body_example Gc_data_unmapped) ''data'' = [Gc_data_unmapped]"
  "url_values (Gc_body_example Gc_data_unmapped) ''requesttime'' = [''20240101120000'']"
  "url_values (Gc_body_example Gc_data_unmapped) ''sign'' = [''0123456789ABCDEF0123456789ABCDEF'']"
  by code_simp+

lemma base64_DecodeString_examples:
  "base64_DecodeString Gc_data_example = Inr (Gc_json_example ''1'')"
  "base64_DecodeString Gc_data_unmapped = Inr (Gc_json_example ''FOO_BAR'')"
  by code_simp+

lemma Gc_json_example_neq: "Gc_json_example ''FOO_BAR'' \<noteq> Gc_json_example ''1''"
  by code_simp

lemma json_Unmarshal_Gc_examples:
  "json_Unmarshal_Gc_example (Gc_json_example ''1'') = Inr GcNotifyRespInfo_example"
  "json_Unmarshal_Gc_example (Gc_json_example ''FOO_BAR'') =
     Inr (GcNotifyRespInfo_example\<lparr>gn_OrderState := ''FOO_BAR''\<rparr>)"
  by (simp_all add: json_Unmarshal_Gc_example_def Gc_json_example_neq)

lemma Gc_Notify_unmapped_example:
  "Gc_Notify url_ParseQuery base64_DecodeString json_Unmarshal_Gc_example
     (Gc_body_example Gc_data_unmapped) orderId =
     Fail (GoError ''error order state: 20240101'')"
  using Gc_Notify_decoded [of url_ParseQuery "Gc_body_example Gc_data_unmapped"
      "url_values (Gc_body_example Gc_data_unmapped)" Gc_data_unmapped "[]" base64_DecodeString
      "Gc_json_example ''FOO_BAR''" json_Unmarshal_Gc_example
      "GcNotifyRespInfo_example\<lparr>gn_OrderState := ''FOO_BAR''\<rparr>" orderId]
  by (simp add: url_ParseQuery_def Gc_body_unmapped_values base64_DecodeString_examples
      json_Unmarshal_Gc_examples GcNotifyRespInfo_example_def)

lemma Gc_Notify_example:
  "Gc_Notify url_ParseQuery base64_DecodeString json_Unmarshal_Gc_example
     (Gc_body_example Gc_data_example) orderId =
     Ok \<lparr>PaymentName = ''order_1'', PaymentStatus = PaymentStatePaid, NotifyMessage = '''',
         ProductName = '''', ProductDisplayName = '''', ProviderName = '''',
         Price = fl64 (9999 / 100), Currency = '''', OrderId = orderId\<rparr>"
  using Gc_Notify_decoded [of url_ParseQuery "Gc_body_example Gc_data_example"
      "url_values (Gc_body_example Gc_data_example)" Gc_data_example "[]" base64_DecodeString
      "Gc_json_example ''1''" json_Unmarshal_Gc_example GcNotifyRespInfo_example orderId]
  by (simp add: url_ParseQuery_def Gc_body_example_values base64_DecodeString_examples
      json_Unmarshal_Gc_examples GcNotifyRespInfo_example_def)

lemma Gc_body_sorted_values:
  "url_values (Gc_body_sorted Gc_data_example) = url_values (Gc_body_example Gc_data_example)"
proof -
  have a: "strings_Split (Gc_body_example Gc_data_example) ''&'' =
      [''op=OrderNotify'', ''xmpch=m1'', ''version=1.4'', ''data='' @ Gc_data_example,
       ''requesttime=20240101120000'', ''sign=0123456789ABCDEF0123456789ABCDEF'']"
    by code_simp
  have b: "strings_Split (Gc_body_sorted Gc_data_example) ''&'' =
      [''data='' @ Gc_data_example, ''op=OrderNotify'', ''requesttime=20240101120000'',
       ''version=1.4'', ''xmpch=m1'', ''sign=0123456789ABCDEF0123456789ABCDEF'']"
    by code_simp
  show ?thesis
    by (rule ext) (auto simp: url_values_def a b)
qed

text \<open>
  C1, as it stands, fails for two adapters. For an order whose status is the undocumented
  \<^verbatim>\<open>FOO_BAR\<close>, the PayPal adapter returns status \<open>Error\<close> with an empty message; for a
  notification whose order state is \<^verbatim>\<open>FOO_BAR\<close>, the GC adapter returns no result but an
  error.
\<close>

theorem Notify_unmapped_counterexample:
  "Paypal_Notify ParseFloat_decimal GoError (\<lambda>_. Inr OrderCaptureRsp_example)
     (\<lambda>_. Inr (OrderDetailRsp_example\<lparr>od_Status := ''FOO_BAR''\<rparr>)) [] ''5O190127TN364715T'' =
     Ok \<lparr>PaymentName = ''5O190127TN364715T'', PaymentStatus = PaymentStateError,
         NotifyMessage = '''', ProductName = ''prod'', ProductDisplayName = ''Product 1'',
         ProviderName = ''paypal'', Price = fl64 (9999 / 100), Currency = ''USD'',
         OrderId = ''5O190127TN364715T''\<rparr> \<and>
   \<not> strings_Contains '''' ''FOO_BAR'' \<and>
   Gc_Notify url_ParseQuery base64_DecodeString json_Unmarshal_Gc_example
          (Gc_body_example Gc_data_unmapped) ''order_1'' =
     Fail (GoError ''error order state: 20240101'')"
proof -
  have pf: "ParseFloat_decimal ''99.99'' = Inr (fl64 (9999 / 100))"
    by code_simp
  have pa: "parseAttachString ''Product 1|prod|paypal'' = (''Product 1'', ''prod'', ''paypal'', None)"
    by code_simp
  have 1: "Paypal_Notify ParseFloat_decimal GoError (\<lambda>_. Inr OrderCaptureRsp_example)
     (\<lambda>_. Inr (OrderDetailRsp_example\<lparr>od_Status := ''FOO_BAR''\<rparr>)) [] ''5O190127TN364715T'' =
     Ok \<lparr>PaymentName = ''5O190127TN364715T'', PaymentStatus = PaymentStateError,
         NotifyMessage = '''', ProductName = ''prod'', ProductDisplayName = ''Product 1'',
         ProviderName = ''paypal'', Price = fl64 (9999 / 100), Currency = ''USD'',
         OrderId = ''5O190127TN364715T''\<rparr>"
    by (simp add: Paypal_Notify_def Paypal_Notify_detail_def OrderCaptureRsp_example_def
        OrderDetailRsp_example_def paypal_Success_def result_bind_def index0_def pf pa)
  have 2: "Gc_Notify url_ParseQuery base64_DecodeString json_Unmarshal_Gc_example
          (Gc_body_example Gc_data_unmapped) ''order_1'' =
     Fail (GoError ''error order state: 20240101'')"
    by (rule Gc_Notify_unmapped_example)
  from 1 2 show ?thesis by simp
qed

text \<open>
  C1, amended. For the Stripe, Airwallex, Alipay and WeChat adapters a vendor status
  outside the adapter's mapping, on either axis where there are two, gives a result with
  status \<open>Error\<close>, neither \<open>Created\<close> nor \<open>Paid\<close>, and a message that is not empty and holds
  the vendor's string. The PayPal adapter gives status \<open>Error\<close> for every order status
  other than \<^verbatim>\<open>COMPLETED\<close>. The GC adapter returns an error and no result for every order
  state other than \<^verbatim>\<open>1\<close>.
\<close>

theorem Notify_unmapped_status:
  "(checkout_Get orderId = Inr s \<and> cs_Status s \<notin> set [''open'', ''complete'', ''expired''] \<longrightarrow>
      reports_unmapped (Stripe_Notify checkout_Get intent_Get body orderId) (cs_Status s)) \<and>
   (checkout_Get' orderId = Inr s' \<and> cs_Status s' = ''complete'' \<and>
    cs_PaymentStatus s' \<notin> set [''paid'', ''unpaid''] \<longrightarrow>
      reports_unmapped (Stripe_Notify checkout_Get' intent_Get body orderId) (cs_PaymentStatus s')) \<and>
   (GetIntentByOrderId orderId = Ok intent \<and>
    ai_Status intent \<notin> set [''PENDING'', ''REQUIRES_PAYMENT_METHOD'', ''REQUIRES_CUSTOMER_ACTION'',
      ''REQUIRES_CAPTURE'', ''CANCELLED'', ''EXPIRED'', ''SUCCEEDED''] \<longrightarrow>
      reports_unmapped (Airwallex_Notify ParseFloat GetIntentByOrderId body orderId)
        (ai_Status intent)) \<and>
   (GetIntentByOrderId' orderId = Ok intent' \<and> ai_Status intent' = ''SUCCEEDED'' \<and>
    ai_PaymentStatus intent' \<notin> set ['''', ''CANCELLED'', ''EXPIRED'', ''RECEIVED'',
      ''AUTHENTICATION_REDIRECTED'', ''AUTHORIZED'', ''CAPTURE_REQUESTED'', ''PAID'', ''SETTLED''] \<longrightarrow>
      reports_unmapped (Airwallex_Notify ParseFloat GetIntentByOrderId' body orderId)
        (ai_PaymentStatus intent')) \<and>
   (TradeQuery orderId = Inr aliRsp \<and>
    tq_TradeStatus aliRsp \<notin> set [''WAIT_BUYER_PAY'', ''TRADE_CLOSED'', ''TRADE_SUCCESS''] \<longrightarrow>
      reports_unmapped (Alipay_Notify ParseFloat json_Unmarshal TradeQuery body orderId)
        (tq_TradeStatus aliRsp)) \<and>
   (V3TransactionQueryOrder (wx_Client pp) orderId = Inr queryRsp \<and>
    qr_Code queryRsp = wechat_Success \<and>
    qr_TradeState queryRsp \<notin> set [''SUCCESS'', ''CLOSED'', ''NOTPAY'', ''USERPAYING''] \<longrightarrow>
      reports_unmapped (Wechat_Notify V3TransactionQueryOrder pp body orderId)
        (qr_TradeState queryRsp)) \<and>
   (OrderCapture orderId = Inr captureRsp \<and>
    (oc_Code captureRsp = paypal_Success \<or>
     (\<exists>d ds. oc_Details captureRsp = d # ds \<and> ed_Issue d = ''ORDER_ALREADY_CAPTURED'')) \<and>
    OrderDetail orderId = Inr detailRsp \<and> od_Code detailRsp = paypal_Success \<and>
    od_PurchaseUnits detailRsp = unit # units \<and> ParseFloat (pu_AmountValue unit) = Inr price \<and>
    parseAttachString (pu_Description unit) = (a, b, c, None) \<and>
    od_Status detailRsp \<noteq> ''COMPLETED'' \<longrightarrow>
      (\<exists>r. Paypal_Notify ParseFloat fmt_Errorf OrderCapture OrderDetail body orderId = Ok r \<and>
           PaymentStatus r = PaymentStateError \<and> PaymentStatus r \<noteq> PaymentStateCreated \<and>
           PaymentStatus r \<noteq> PaymentStatePaid)) \<and>
   (ParseQuery body = Inr m \<and> m ''op'' \<noteq> [] \<and> m ''xmpch'' \<noteq> [] \<and> m ''version'' \<noteq> [] \<and>
    m ''data'' = data # ds' \<and> m ''requesttime'' \<noteq> [] \<and> m ''sign'' \<noteq> [] \<and>
    DecodeString data = Inr bytes \<and> json_Unmarshal' bytes = Inr info \<and>
    gn_OrderState info \<noteq> ''1'' \<longrightarrow>
      (\<exists>err. Gc_Notify ParseQuery DecodeString json_Unmarshal' body orderId = Fail err))"
proof (intro conjI impI)
  assume "checkout_Get orderId = Inr s \<and> cs_Status s \<notin> set [''open'', ''complete'', ''expired'']"
  then show "reports_unmapped (Stripe_Notify checkout_Get intent_Get body orderId) (cs_Status s)"
    using Stripe_unmapped by blast
next
  assume "checkout_Get' orderId = Inr s' \<and> cs_Status s' = ''complete'' \<and>
    cs_PaymentStatus s' \<notin> set [''paid'', ''unpaid'']"
  then show "reports_unmapped (Stripe_Notify checkout_Get' intent_Get body orderId)
      (cs_PaymentStatus s')"
    using Stripe_unmapped_payment by blast
next
  assume "GetIntentByOrderId orderId = Ok intent \<and>
    ai_Status intent \<notin> set [''PENDING'', ''REQUIRES_PAYMENT_METHOD'', ''REQUIRES_CUSTOMER_ACTION'',
      ''REQUIRES_CAPTURE'', ''CANCELLED'', ''EXPIRED'', ''SUCCEEDED'']"
  then show "reports_unmapped (Airwallex_Notify ParseFloat GetIntentByOrderId body orderId)
      (ai_Status intent)"
    using Airwallex_unmapped by blast
next
  assume "GetIntentByOrderId' orderId = Ok intent' \<and> ai_Status intent' = ''SUCCEEDED'' \<and>
    ai_PaymentStatus intent' \<notin> set ['''', ''CANCELLED'', ''EXPIRED'', ''RECEIVED'',
      ''AUTHENTICATION_REDIRECTED'', ''AUTHORIZED'', ''CAPTURE_REQUESTED'', ''PAID'', ''SETTLED'']"
  then show "reports_unmapped (Airwallex_Notify ParseFloat GetIntentByOrderId' body orderId)
      (ai_PaymentStatus intent')"
    using Airwallex_unmapped_payment by blast
next
  assume "TradeQuery orderId = Inr aliRsp \<and>
    tq_TradeStatus aliRsp \<notin> set [''WAIT_BUYER_PAY'', ''TRADE_CLOSED'', ''TRADE_SUCCESS'']"
  then show "reports_unmapped (Alipay_Notify ParseFloat json_Unmarshal TradeQuery body orderId)
      (tq_TradeStatus aliRsp)"
    using Alipay_unmapped by blast
next
  assume "V3TransactionQueryOrder (wx_Client pp) orderId = Inr queryRsp \<and>
    qr_Code queryRsp = wechat_Success \<and>
    qr_TradeState queryRsp \<notin> set [''SUCCESS'', ''CLOSED'', ''NOTPAY'', ''USERPAYING'']"
  then show "reports_unmapped (Wechat_Notify V3TransactionQueryOrder pp body orderId)
      (qr_TradeState queryRsp)"
    using Wechat_unmapped by blast
next
  assume h: "OrderCapture orderId = Inr captureRsp \<and>
    (oc_Code captureRsp = paypal_Success \<or>
     (\<exists>d ds. oc_Details captureRsp = d # ds \<and> ed_Issue d = ''ORDER_ALREADY_CAPTURED'')) \<and>
    OrderDetail orderId = Inr detailRsp \<and> od_Code detailRsp = paypal_Success \<and>
    od_PurchaseUnits detailRsp = unit # units \<and> ParseFloat (pu_AmountValue unit) = Inr price \<and>
    parseAttachString (pu_Description unit) = (a, b, c, None) \<and>
    od_Status detailRsp \<noteq> ''COMPLETED''"
  then have "Paypal_Notify ParseFloat fmt_Errorf OrderCapture OrderDetail body orderId =
      Paypal_Notify_detail ParseFloat fmt_Errorf OrderDetail orderId"
    using Paypal_Notify_captured by blast
  with h Paypal_Notify_detail_status [of OrderDetail orderId detailRsp unit units ParseFloat price
      a b c fmt_Errorf]
  show "\<exists>r. Paypal_Notify ParseFloat fmt_Errorf OrderCapture OrderDetail body orderId = Ok r \<and>
      PaymentStatus r = PaymentStateError \<and> PaymentStatus r \<noteq> PaymentStateCreated \<and>
      PaymentStatus r \<noteq> PaymentStatePaid"
    by (simp add: PaymentState_distinct)
next
  assume h: "ParseQuery body = Inr m \<and> m ''op'' \<noteq> [] \<and> m ''xmpch'' \<noteq> [] \<and> m ''version'' \<noteq> [] \<and>
    m ''data'' = data # ds' \<and> m ''requesttime'' \<noteq> [] \<and> m ''sign'' \<noteq> [] \<and>
    DecodeString data = Inr bytes \<and> json_Unmarshal' bytes = Inr info \<and>
    gn_OrderState info \<noteq> ''1''"
  with Gc_Notify_decoded [of ParseQuery body m data ds' DecodeString bytes json_Unmarshal' info orderId]
  show "\<exists>err. Gc_Notify ParseQuery DecodeString json_Unmarshal' body orderId = Fail err"
    by simp
qed

theorem Notify_unmapped_status_witness:
  "reports_unmapped
     (Stripe_Notify (\<lambda>_. Inr (CheckoutSession_example\<lparr>cs_Status := ''FOO_BAR''\<rparr>))
        (\<lambda>_. Inr PaymentIntent_example) [] ''cs_1'') ''FOO_BAR'' \<and>
   reports_unmapped
     (Stripe_Notify (\<lambda>_. Inr (CheckoutSession_example\<lparr>cs_PaymentStatus := ''FOO_BAR''\<rparr>))
        (\<lambda>_. Inr PaymentIntent_example) [] ''cs_1'') ''FOO_BAR'' \<and>
   reports_unmapped
     (Airwallex_Notify ParseFloat_decimal
        (\<lambda>_. Ok (AirWallexIntentInfo_example\<lparr>ai_Status := ''FOO_BAR''\<rparr>)) [] ''order_1'') ''FOO_BAR'' \<and>
   reports_unmapped
     (Airwallex_Notify ParseFloat_decimal
        (\<lambda>_. Ok (AirWallexIntentInfo_example\<lparr>ai_PaymentStatus := ''FOO_BAR''\<rparr>)) [] ''order_1'')
     ''FOO_BAR'' \<and>
   reports_unmapped
     (Alipay_Notify ParseFloat_decimal json_Unmarshal_example
        (\<lambda>_. Inr (TradeQueryResponse_example\<lparr>tq_TradeStatus := ''FOO_BAR''\<rparr>)) [] ''order_1'')
     ''FOO_BAR'' \<and>
   reports_unmapped
     (Wechat_Notify (\<lambda>_ _. Inr (WechatQueryOrderRsp_example\<lparr>qr_TradeState := ''FOO_BAR''\<rparr>))
        \<lparr>wx_Client = Some (), wx_AppId = ''wx1''\<rparr> [] ''order_1'') ''FOO_BAR'' \<and>
   (\<exists>r. Paypal_Notify ParseFloat_decimal GoError (\<lambda>_. Inr OrderCaptureRsp_example)
          (\<lambda>_. Inr (OrderDetailRsp_example\<lparr>od_Status := ''FOO_BAR''\<rparr>)) [] ''5O190127TN364715T'' = Ok r \<and>
        PaymentStatus r = PaymentStateError \<and> PaymentStatus r \<noteq> PaymentStateCreated \<and>
        PaymentStatus r \<noteq> PaymentStatePaid) \<and>
   (\<exists>err. Gc_Notify url_ParseQuery base64_DecodeString json_Unmarshal_Gc_example
          (Gc_body_example Gc_data_unmapped) ''order_1'' = Fail err)"
proof -
  note T = Notify_unmapped_status
  have 1: "reports_unmapped
     (Stripe_Notify (\<lambda>_. Inr (CheckoutSession_example\<lparr>cs_Status := ''FOO_BAR''\<rparr>))
        (\<lambda>_. Inr PaymentIntent_example) [] ''cs_1'') ''FOO_BAR''"
    using T [where checkout_Get = "\<lambda>_. Inr (CheckoutSession_example\<lparr>cs_Status := ''FOO_BAR''\<rparr>)"
        and s = "CheckoutSession_example\<lparr>cs_Status := ''FOO_BAR''\<rparr>" and orderId = "''cs_1''"
        and intent_Get = "\<lambda>_. Inr PaymentIntent_example" and body = "[]", THEN conjunct1]
    by simp
  have 2: "reports_unmapped
     (Stripe_Notify (\<lambda>_. Inr (CheckoutSession_example\<lparr>cs_PaymentStatus := ''FOO_BAR''\<rparr>))
        (\<lambda>_. Inr PaymentIntent_example) [] ''cs_1'') ''FOO_BAR''"
    using T [where checkout_Get' = "\<lambda>_. Inr (CheckoutSession_example\<lparr>cs_PaymentStatus := ''FOO_BAR''\<rparr>)"
        and s' = "CheckoutSession_example\<lparr>cs_PaymentStatus := ''FOO_BAR''\<rparr>" and orderId = "''cs_1''"
        and intent_Get = "\<lambda>_. Inr PaymentIntent_example" and body = "[]",
        THEN conjunct2, THEN conjunct1]
    by (simp add: CheckoutSession_example_def)
  have 3: "reports_unmapped
     (Airwallex_Notify ParseFloat_decimal
        (\<lambda>_. Ok (AirWallexIntentInfo_example\<lparr>ai_Status := ''FOO_BAR''\<rparr>)) [] ''order_1'') ''FOO_BAR''"
    using T [where GetIntentByOrderId = "\<lambda>_. Ok (AirWallexIntentInfo_example\<lparr>ai_Status := ''FOO_BAR''\<rparr>)"
        and intent = "AirWallexIntentInfo_example\<lparr>ai_Status := ''FOO_BAR''\<rparr>"
        and orderId = "''order_1''" and ParseFloat = ParseFloat_decimal and body = "[]",
        THEN conjunct2, THEN conjunct2, THEN conjunct1]
    by simp
  have 4: "reports_unmapped
     (Airwallex_Notify ParseFloat_decimal
        (\<lambda>_. Ok (AirWallexIntentInfo_example\<lparr>ai_PaymentStatus := ''FOO_BAR''\<rparr>)) [] ''order_1'')
     ''FOO_BAR''"
    using T [where GetIntentByOrderId' = "\<lambda>_. Ok (AirWallexIntentInfo_example\<lparr>ai_PaymentStatus := ''FOO_BAR''\<rparr>)"
        and intent' = "AirWallexIntentInfo_example\<lparr>ai_PaymentStatus := ''FOO_BAR''\<rparr>"
        and orderId = "''order_1''" and ParseFloat = ParseFloat_decimal and body = "[]",
        THEN conjunct2, THEN conjunct2, THEN conjunct2, THEN conjunct1]
    by (simp add: AirWallexIntentInfo_example_def)
  have 5: "reports_unmapped
     (Alipay_Notify ParseFloat_decimal json_Unmarshal_example
        (\<lambda>_. Inr (TradeQueryResponse_example\<lparr>tq_TradeStatus := ''FOO_BAR''\<rparr>)) [] ''order_1'')
     ''FOO_BAR''"
    using T [where TradeQuery = "\<lambda>_. Inr (TradeQueryResponse_example\<lparr>tq_TradeStatus := ''FOO_BAR''\<rparr>)"
        and aliRsp = "TradeQueryResponse_example\<lparr>tq_TradeStatus := ''FOO_BAR''\<rparr>"
        and orderId = "''order_1''" and ParseFloat = ParseFloat_decimal and body = "[]"
        and json_Unmarshal = json_Unmarshal_example,
        THEN conjunct2, THEN conjunct2, THEN conjunct2, THEN conjunct2, THEN conjunct1]
    by simp
  have 6: "reports_unmapped
     (Wechat_Notify (\<lambda>_ _. Inr (WechatQueryOrderRsp_example\<lparr>qr_TradeState := ''FOO_BAR''\<rparr>))
        \<lparr>wx_Client = Some (), wx_AppId = ''wx1''\<rparr> [] ''order_1'') ''FOO_BAR''"
    using T [where V3TransactionQueryOrder =
          "\<lambda>_ _. Inr (WechatQueryOrderRsp_example\<lparr>qr_TradeState := ''FOO_BAR''\<rparr>)"
        and queryRsp = "WechatQueryOrderRsp_example\<lparr>qr_TradeState := ''FOO_BAR''\<rparr>"
        and pp = "\<lparr>wx_Client = Some (), wx_AppId = ''wx1''\<rparr>"
        and orderId = "''order_1''" and body = "[]",
        THEN conjunct2, THEN conjunct2, THEN conjunct2, THEN conjunct2, THEN conjunct2,
        THEN conjunct1]
    by (simp add: WechatQueryOrderRsp_example_def wechat_Success_def)
  have pf: "ParseFloat_decimal ''99.99'' = Inr (fl64 (9999 / 100))"
    by code_simp
  have pa: "parseAttachString ''Product 1|prod|paypal'' = (''Product 1'', ''prod'', ''paypal'', None)"
    by code_simp
  have 7: "\<exists>r. Paypal_Notify ParseFloat_decimal GoError (\<lambda>_. Inr OrderCaptureRsp_example)
          (\<lambda>_. Inr (OrderDetailRsp_example\<lparr>od_Status := ''FOO_BAR''\<rparr>)) [] ''5O190127TN364715T'' = Ok r \<and>
        PaymentStatus r = PaymentStateError \<and> PaymentStatus r \<noteq> PaymentStateCreated \<and>
        PaymentStatus r \<noteq> PaymentStatePaid"
    using T [where OrderCapture = "\<lambda>_. Inr OrderCaptureRsp_example"
        and captureRsp = OrderCaptureRsp_example
        and OrderDetail = "\<lambda>_. Inr (OrderDetailRsp_example\<lparr>od_Status := ''FOO_BAR''\<rparr>)"
        and detailRsp = "OrderDetailRsp_example\<lparr>od_Status := ''FOO_BAR''\<rparr>"
        and unit = "\<lparr>pu_AmountValue = ''99.99'', pu_AmountCurrencyCode = ''USD'',
                     pu_Description = ''Product 1|prod|paypal''\<rparr>"
        and units = "[]" and price = "fl64 (9999 / 100)" and a = "''Product 1''" and b = "''prod''"
        and c = "''paypal''" and fmt_Errorf = GoError
        and orderId = "''5O190127TN364715T''" and ParseFloat = ParseFloat_decimal and body = "[]",
        THEN conjunct2, THEN conjunct2, THEN conjunct2, THEN conjunct2, THEN conjunct2,
        THEN conjunct2, THEN conjunct1]
    by (simp add: OrderCaptureRsp_example_def OrderDetailRsp_example_def paypal_Success_def pf pa)
  have 8: "\<exists>err. Gc_Notify url_ParseQuery base64_DecodeString json_Unmarshal_Gc_example
          (Gc_body_example Gc_data_unmapped) ''order_1'' = Fail err"
    using T [where ParseQuery = url_ParseQuery and DecodeString = base64_DecodeString
        and json_Unmarshal' = json_Unmarshal_Gc_example
        and m = "url_values (Gc_body_example Gc_data_unmapped)"
        and data = Gc_data_unmapped and ds' = "[]" and bytes = "Gc_json_example ''FOO_BAR''"
        and info = "GcNotifyRespInfo_example\<lparr>gn_OrderState := ''FOO_BAR''\<rparr>"
        and orderId = "''order_1''" and body = "Gc_body_example Gc_data_unmapped",
        THEN conjunct2, THEN conjunct2, THEN conjunct2, THEN conjunct2, THEN conjunct2,
        THEN conjunct2, THEN conjunct2]
    by (simp add: url_ParseQuery_def Gc_body_unmapped_values base64_DecodeString_examples
        json_Unmarshal_Gc_examples)
  from 1 2 3 4 5 6 7 8 show ?thesis by blast
qed

section \<open>Paid only for a settled payment\<close>

lemma Stripe_Paid_only:
  "Stripe_Notify checkout_Get intent_Get body orderId = Ok r \<Longrightarrow>
   PaymentStatus r = PaymentStatePaid \<Longrightarrow>
   \<exists>s. checkout_Get orderId = Inr s \<and> cs_Status s = ''complete'' \<and> cs_PaymentStatus s = ''paid''"
  by (auto simp: Stripe_Notify_def Stripe_Notify_complete_def PaymentState_distinct
      split: sum.splits if_splits)

lemma Airwallex_Paid_only:
  "Airwallex_Notify ParseFloat GetIntentByOrderId body orderId = Ok r \<Longrightarrow>
   PaymentStatus r = PaymentStatePaid \<Longrightarrow>
   \<exists>intent. GetIntentByOrderId orderId = Ok intent \<and> ai_Status intent = ''SUCCEEDED'' \<and>
     ai_PaymentStatus intent \<in> set ['''', ''PAID'', ''SETTLED'']"
  by (auto simp: Airwallex_Notify_def Airwallex_Notify_succeeded_def result_bind_def
      PaymentState_distinct split: result.splits if_splits)

lemma Alipay_Paid_only:
  "Alipay_Notify ParseFloat json_Unmarshal TradeQuery body orderId = Ok r \<Longrightarrow>
   PaymentStatus r = PaymentStatePaid \<Longrightarrow>
   \<exists>aliRsp. TradeQuery orderId = Inr aliRsp \<and> tq_TradeStatus aliRsp = ''TRADE_SUCCESS''"
  by (auto simp: Alipay_Notify_def PaymentState_distinct split: sum.splits if_splits)

lemma Wechat_Paid_only:
  "Wechat_Notify V3TransactionQueryOrder pp body orderId = Ok r \<Longrightarrow>
   PaymentStatus r = PaymentStatePaid \<Longrightarrow>
   \<exists>queryRsp. V3TransactionQueryOrder (wx_Client pp) orderId = Inr queryRsp \<and>
     qr_Code queryRsp = wechat_Success \<and> qr_TradeState queryRsp = ''SUCCESS''"
  by (auto simp: Wechat_Notify_def PaymentState_distinct split: sum.splits if_splits)

lemma Paypal_Notify_detail_Paid_only:
  "Paypal_Notify_detail ParseFloat fmt_Errorf OrderDetail orderId = Ok r \<Longrightarrow>
   PaymentStatus r \<noteq> PaymentStateCreated \<and>
   (PaymentStatus r = PaymentStatePaid \<longrightarrow>
     (\<exists>detailRsp. OrderDetail orderId = Inr detailRsp \<and> od_Code detailRsp = paypal_Success \<and>
        od_Status detailRsp = ''COMPLETED''))"
  by (auto simp: Paypal_Notify_detail_def result_bind_def index0_def PaymentState_distinct
      split: sum.splits if_splits list.splits prod.splits option.splits)

lemma Paypal_Paid_only:
  "Paypal_Notify ParseFloat fmt_Errorf OrderCapture OrderDetail body orderId = Ok r \<Longrightarrow>
   PaymentStatus r \<noteq> PaymentStateCreated \<and>
   (PaymentStatus r = PaymentStatePaid \<longrightarrow>
     (\<exists>detailRsp. OrderDetail orderId = Inr detailRsp \<and> od_Code detailRsp = paypal_Success \<and>
        od_Status detailRsp = ''COMPLETED''))"
  using Paypal_Notify_detail_Paid_only [of ParseFloat fmt_Errorf OrderDetail orderId r]
  by (auto simp: Paypal_Notify_def result_bind_def index0_def PaymentState_distinct
      split: sum.splits if_splits list.splits)

lemma result_bind_Ok:
  "result_bind x f = Ok r \<Longrightarrow> \<exists>v. x = Ok v \<and> f v = Ok r"
  by (cases x) (simp_all add: result_bind_def)

lemma index0_Ok: "index0 xs = Ok v \<Longrightarrow> \<exists>vs. xs = v # vs"
  by (cases xs) (simp_all add: index0_def)

lemma Gc_Paid_only:
  assumes "Gc_Notify ParseQuery DecodeString json_Unmarshal body orderId = Ok r"
  shows "PaymentStatus r = PaymentStatePaid \<and>
    (\<exists>m data ds bytes info. ParseQuery body = Inr m \<and> m ''data'' = data # ds \<and>
       DecodeString data = Inr bytes \<and> json_Unmarshal bytes = Inr info \<and>
       gn_OrderState info = ''1'')"
proof -
  from assms obtain m where m: "ParseQuery body = Inr m"
    by (auto simp: Gc_Notify_def split: sum.splits)
  from assms m obtain data ds where d: "m ''data'' = data # ds"
    and rest: "(case DecodeString data of
              Inl err \<Rightarrow> Fail err
            | Inr notifyReqInfoBytes \<Rightarrow>
                (case json_Unmarshal notifyReqInfoBytes of
                   Inl err \<Rightarrow> Fail err
                 | Inr notifyRespInfo \<Rightarrow>
                     if gn_OrderState notifyRespInfo \<noteq> ''1'' then
                       Fail (GoError (''error order state: '' @ gn_OrderDate notifyRespInfo))
                     else
                       Ok \<lparr>PaymentName = gn_OrderNo notifyRespInfo,
                           PaymentStatus = PaymentStatePaid,
                           NotifyMessage = '''',
                           ProductName = '''',
                           ProductDisplayName = '''',
                           ProviderName = '''',
                           Price = gn_Amount notifyRespInfo,
                           Currency = '''',
                           OrderId = orderId\<rparr>)) = Ok r"
    by (auto simp: Gc_Notify_def dest!: result_bind_Ok index0_Ok)
  from rest obtain bytes info where "DecodeString data = Inr bytes"
    "json_Unmarshal bytes = Inr info" "gn_OrderState info = ''1''"
    "PaymentStatus r = PaymentStatePaid"
    by (auto split: sum.splits if_splits)
  with m d show ?thesis by blast
qed

text \<open>The adapters at the example inputs.\<close>

lemma ParseFloat_decimal_9999: "ParseFloat_decimal ''99.99'' = Inr (fl64 (9999 / 100))"
  by code_simp

lemma priceInt64ToFloat64_9999: "priceInt64ToFloat64 9999 = fl64 (9999 / 100)"
  by code_simp

lemma priceFloat64ToInt64_9999: "priceFloat64ToInt64 (fl64 (9999 / 100)) = 9999"
  by code_simp

lemma parseAttachString_examples:
  "parseAttachString ''prod|Product 1|stripe'' = (''prod'', ''Product 1'', ''stripe'', None)"
  "parseAttachString ''prod|Product 1|airwallex'' = (''prod'', ''Product 1'', ''airwallex'', None)"
  "parseAttachString ''prod|Product 1|alipay'' = (''prod'', ''Product 1'', ''alipay'', None)"
  "parseAttachString ''Product 1|prod|wechat'' = (''Product 1'', ''prod'', ''wechat'', None)"
  "parseAttachString ''Product 1|prod|paypal'' = (''Product 1'', ''prod'', ''paypal'', None)"
  by code_simp+

lemma Stripe_Notify_example:
  "Stripe_Notify (\<lambda>_. Inr CheckoutSession_example) (\<lambda>_. Inr PaymentIntent_example) body ''cs_1'' =
     Ok \<lparr>PaymentName = ''order_1'', PaymentStatus = PaymentStatePaid, NotifyMessage = '''',
         ProductName = ''prod'', ProductDisplayName = ''Product 1'', ProviderName = ''stripe'',
         Price = fl64 (9999 / 100), Currency = ''usd'', OrderId = ''cs_1''\<rparr>"
  by (simp add: Stripe_Notify_def Stripe_Notify_complete_def Stripe_Notify_paid_def
      CheckoutSession_example_def PaymentIntent_example_def PayReq_example_def
      parseAttachString_examples price_9999_roundtrip)

lemma Airwallex_Notify_example:
  "ai_PaymentStatus intent \<in> set ['''', ''PAID'', ''SETTLED''] \<Longrightarrow>
   intent = AirWallexIntentInfo_example\<lparr>ai_PaymentStatus := ai_PaymentStatus intent\<rparr> \<Longrightarrow>
   Airwallex_Notify ParseFloat_decimal (\<lambda>_. Ok intent) body orderId =
     Ok \<lparr>PaymentName = ''order_1'', PaymentStatus = PaymentStatePaid, NotifyMessage = '''',
         ProductName = ''prod'', ProductDisplayName = ''Product 1'', ProviderName = ''airwallex'',
         Price = fl64 (9999 / 100), Currency = ''USD'', OrderId = ''order_1''\<rparr>"
  by (cases intent)
    (auto simp: Airwallex_Notify_def Airwallex_Notify_succeeded_def Airwallex_Notify_paid_def
      AirWallexIntentInfo_example_def result_bind_def priceStringToFloat64_def
      parseAttachString_examples ParseFloat_decimal_9999)

lemma Alipay_Notify_example:
  "Alipay_Notify ParseFloat_decimal json_Unmarshal (\<lambda>_. Inr TradeQueryResponse_example) body
     ''order_1'' =
     Ok \<lparr>PaymentName = ''order_1'', PaymentStatus = PaymentStatePaid, NotifyMessage = '''',
         ProductName = ''Product 1'', ProductDisplayName = ''prod'', ProviderName = ''alipay'',
         Price = fl64 (9999 / 100), Currency = '''', OrderId = ''order_1''\<rparr>"
  by (simp add: Alipay_Notify_def TradeQueryResponse_example_def result_bind_def
      priceStringToFloat64_def parseAttachString_examples ParseFloat_decimal_9999)

lemma Wechat_Notify_example:
  "Wechat_Notify (\<lambda>_ _. Inr WechatQueryOrderRsp_example) pp body ''order_1'' =
     Ok \<lparr>PaymentName = ''order_1'', PaymentStatus = PaymentStatePaid, NotifyMessage = '''',
         ProductName = ''prod'', ProductDisplayName = ''Product 1'', ProviderName = ''wechat'',
         Price = fl64 (9999 / 100), Currency = '''', OrderId = ''order_1''\<rparr>"
  by (simp add: Wechat_Notify_def WechatQueryOrderRsp_example_def wechat_Success_def
      parseAttachString_examples priceInt64ToFloat64_9999)

lemma Paypal_Notify_detail_example:
  "Paypal_Notify_detail ParseFloat_decimal fmt_Errorf
     (\<lambda>_. Inr (OrderDetailRsp_example\<lparr>od_Status := status\<rparr>)) orderId =
     Ok \<lparr>PaymentName = ''5O190127TN364715T'',
         PaymentStatus = (if status = ''COMPLETED'' then PaymentStatePaid else PaymentStateError),
         NotifyMessage = '''',
         ProductName = ''prod'', ProductDisplayName = ''Product 1'', ProviderName = ''paypal'',
         Price = fl64 (9999 / 100), Currency = ''USD'', OrderId = orderId\<rparr>"
  by (simp add: Paypal_Notify_detail_def OrderDetailRsp_example_def paypal_Success_def
      result_bind_def index0_def parseAttachString_examples ParseFloat_decimal_9999)

lemma Paypal_Notify_example:
  "captureRsp = OrderCaptureRsp_example \<or> captureRsp = OrderCaptureRsp_captured \<Longrightarrow>
   Paypal_Notify ParseFloat_decimal fmt_Errorf (\<lambda>_. Inr captureRsp)
     (\<lambda>_. Inr (OrderDetailRsp_example\<lparr>od_Status := status\<rparr>)) body orderId =
     Ok \<lparr>PaymentName = ''5O190127TN364715T'',
         PaymentStatus = (if status = ''COMPLETED'' then PaymentStatePaid else PaymentStateError),
         NotifyMessage = '''',
         ProductName = ''prod'', ProductDisplayName = ''Product 1'', ProviderName = ''paypal'',
         Price = fl64 (9999 / 100), Currency = ''USD'', OrderId = orderId\<rparr>"
  using Paypal_Notify_detail_example [of fmt_Errorf status orderId]
  by (auto simp: Paypal_Notify_def OrderCaptureRsp_example_def OrderCaptureRsp_captured_def
      paypal_Success_def result_bind_def index0_def)

text \<open>
  C3, as it stands, fails. The Airwallex adapter returns \<open>Paid\<close> for a succeeded intent
  whose payment attempt reports no status, so without \<^verbatim>\<open>PAID\<close> or \<^verbatim>\<open>SETTLED\<close>; an attempt
  status \<^verbatim>\<open>AUTHORIZED\<close> under a cancelled intent gives \<open>Canceled\<close>, not \<open>Created\<close>; the PayPal
  adapter maps the order status \<^verbatim>\<open>APPROVED\<close>, approved by the payer and not captured, to
  \<open>Error\<close>; and the Dummy and Balance adapters return \<open>Paid\<close> without any vendor state.
\<close>

theorem Notify_Paid_counterexample:
  "Airwallex_Notify ParseFloat_decimal
     (\<lambda>_. Ok (AirWallexIntentInfo_example\<lparr>ai_PaymentStatus := ''''\<rparr>)) [] ''order_1'' =
     Ok \<lparr>PaymentName = ''order_1'', PaymentStatus = PaymentStatePaid, NotifyMessage = '''',
         ProductName = ''prod'', ProductDisplayName = ''Product 1'', ProviderName = ''airwallex'',
         Price = fl64 (9999 / 100), Currency = ''USD'', OrderId = ''order_1''\<rparr> \<and>
   Airwallex_Notify ParseFloat_decimal
     (\<lambda>_. Ok (AirWallexIntentInfo_example\<lparr>ai_Status := ''CANCELLED'', ai_PaymentStatus := ''AUTHORIZED''\<rparr>))
     [] ''order_1'' = Ok (NotifyResult_zero\<lparr>PaymentStatus := PaymentStateCanceled\<rparr>) \<and>
   PaymentStateCanceled \<noteq> PaymentStateCreated \<and>
   Paypal_Notify ParseFloat_decimal GoError (\<lambda>_. Inr OrderCaptureRsp_example)
     (\<lambda>_. Inr (OrderDetailRsp_example\<lparr>od_Status := ''APPROVED''\<rparr>)) [] ''5O190127TN364715T'' =
     Ok \<lparr>PaymentName = ''5O190127TN364715T'', PaymentStatus = PaymentStateError,
         NotifyMessage = '''', ProductName = ''prod'', ProductDisplayName = ''Product 1'',
         ProviderName = ''paypal'', Price = fl64 (9999 / 100), Currency = ''USD'',
         OrderId = ''5O190127TN364715T''\<rparr> \<and>
   PaymentStateError \<noteq> PaymentStateCreated \<and>
   Dummy_Notify [] ''order_1'' = Ok (NotifyResult_zero\<lparr>PaymentStatus := PaymentStatePaid\<rparr>) \<and>
   Balance_Notify [] ''order_1'' = Ok (NotifyResult_zero\<lparr>PaymentStatus := PaymentStatePaid\<rparr>)"
proof -
  have 1: "Airwallex_Notify ParseFloat_decimal
     (\<lambda>_. Ok (AirWallexIntentInfo_example\<lparr>ai_PaymentStatus := ''''\<rparr>)) [] ''order_1'' =
     Ok \<lparr>PaymentName = ''order_1'', PaymentStatus = PaymentStatePaid, NotifyMessage = '''',
         ProductName = ''prod'', ProductDisplayName = ''Product 1'', ProviderName = ''airwallex'',
         Price = fl64 (9999 / 100), Currency = ''USD'', OrderId = ''order_1''\<rparr>"
    by (rule Airwallex_Notify_example) simp_all
  have 2: "Airwallex_Notify ParseFloat_decimal
     (\<lambda>_. Ok (AirWallexIntentInfo_example\<lparr>ai_Status := ''CANCELLED'', ai_PaymentStatus := ''AUTHORIZED''\<rparr>))
     [] ''order_1'' = Ok (NotifyResult_zero\<lparr>PaymentStatus := PaymentStateCanceled\<rparr>)"
    by (simp add: Airwallex_Notify_def result_bind_def)
  have 3: "Paypal_Notify ParseFloat_decimal GoError (\<lambda>_. Inr OrderCaptureRsp_example)
     (\<lambda>_. Inr (OrderDetailRsp_example\<lparr>od_Status := ''APPROVED''\<rparr>)) [] ''5O190127TN364715T'' =
     Ok \<lparr>PaymentName = ''5O190127TN364715T'', PaymentStatus = PaymentStateError,
         NotifyMessage = '''', ProductName = ''prod'', ProductDisplayName = ''Product 1'',
         ProviderName = ''paypal'', Price = fl64 (9999 / 100), Currency = ''USD'',
         OrderId = ''5O190127TN364715T''\<rparr>"
    using Paypal_Notify_example [of OrderCaptureRsp_example GoError "''APPROVED''" "[]"
        "''5O190127TN364715T''"]
    by simp
  from 1 2 3 show ?thesis
    by (simp add: PaymentState_distinct Dummy_Notify_def Balance_Notify_def)
qed

text \<open>
  C3, amended. Each adapter that asks a vendor returns \<open>Paid\<close> only for the vendor state
  its mapping sends on to the paid result: Stripe for a complete session with payment
  status \<^verbatim>\<open>paid\<close>; Airwallex for a succeeded intent whose payment attempt reports
  \<^verbatim>\<open>PAID\<close>, \<^verbatim>\<open>SETTLED\<close> or no status; Alipay for \<^verbatim>\<open>TRADE_SUCCESS\<close>; WeChat for \<^verbatim>\<open>SUCCESS\<close>;
  PayPal for \<^verbatim>\<open>COMPLETED\<close>; GC for order state \<^verbatim>\<open>1\<close>. The states before payment map to
  \<open>Created\<close> where the outer status lets the adapter look at them: for Airwallex the pending
  intent statuses (\<^verbatim>\<open>REQUIRES_CAPTURE\<close> among them) and, under a succeeded intent, the
  attempt statuses \<^verbatim>\<open>AUTHORIZED\<close>, \<^verbatim>\<open>CAPTURE_REQUESTED\<close> and the four others of its
  list; for WeChat \<^verbatim>\<open>NOTPAY\<close> and \<^verbatim>\<open>USERPAYING\<close>; for Stripe an open session and a complete
  unpaid one; for Alipay \<^verbatim>\<open>WAIT_BUYER_PAY\<close>. The PayPal and GC adapters never return
  \<open>Created\<close>, and the Balance and Dummy adapters always return \<open>Paid\<close>.
\<close>

theorem Notify_Paid_only_when_settled:
  "(Stripe_Notify checkout_Get intent_Get body orderId = Ok r \<and>
    PaymentStatus r = PaymentStatePaid \<longrightarrow>
      (\<exists>s. checkout_Get orderId = Inr s \<and> cs_Status s = ''complete'' \<and>
           cs_PaymentStatus s = ''paid'')) \<and>
   (Airwallex_Notify ParseFloat GetIntentByOrderId body orderId = Ok r \<and>
    PaymentStatus r = PaymentStatePaid \<longrightarrow>
      (\<exists>intent. GetIntentByOrderId orderId = Ok intent \<and> ai_Status intent = ''SUCCEEDED'' \<and>
           ai_PaymentStatus intent \<in> set ['''', ''PAID'', ''SETTLED''])) \<and>
   (Alipay_Notify ParseFloat json_Unmarshal TradeQuery body orderId = Ok r \<and>
    PaymentStatus r = PaymentStatePaid \<longrightarrow>
      (\<exists>aliRsp. TradeQuery orderId = Inr aliRsp \<and> tq_TradeStatus aliRsp = ''TRADE_SUCCESS'')) \<and>
   (Wechat_Notify V3TransactionQueryOrder pp body orderId = Ok r \<and>
    PaymentStatus r = PaymentStatePaid \<longrightarrow>
      (\<exists>queryRsp. V3TransactionQueryOrder (wx_Client pp) orderId = Inr queryRsp \<and>
           qr_Code queryRsp = wechat_Success \<and> qr_TradeState queryRsp = ''SUCCESS'')) \<and>
   (Paypal_Notify ParseFloat fmt_Errorf OrderCapture OrderDetail body orderId = Ok r \<longrightarrow>
      PaymentStatus r \<noteq> PaymentStateCreated \<and>
      (PaymentStatus r = PaymentStatePaid \<longrightarrow>
        (\<exists>detailRsp. OrderDetail orderId = Inr detailRsp \<and> od_Code detailRsp = paypal_Success \<and>
             od_Status detailRsp = ''COMPLETED''))) \<and>
   (Gc_Notify ParseQuery DecodeString json_Unmarshal' body orderId = Ok r \<longrightarrow>
      PaymentStatus r = PaymentStatePaid \<and>
      (\<exists>m data ds bytes info. ParseQuery body = Inr m \<and> m ''data'' = data # ds \<and>
           DecodeString data = Inr bytes \<and> json_Unmarshal' bytes = Inr info \<and>
           gn_OrderState info = ''1'')) \<and>
   (GetIntentByOrderId' orderId = Ok intent' \<and>
    (ai_Status intent' \<in> set [''PENDING'', ''REQUIRES_PAYMENT_METHOD'',
       ''REQUIRES_CUSTOMER_ACTION'', ''REQUIRES_CAPTURE''] \<or>
     ai_Status intent' = ''SUCCEEDED'' \<and>
     ai_PaymentStatus intent' \<in> set [''CANCELLED'', ''EXPIRED'', ''RECEIVED'',
       ''AUTHENTICATION_REDIRECTED'', ''AUTHORIZED'', ''CAPTURE_REQUESTED'']) \<longrightarrow>
      Airwallex_Notify ParseFloat GetIntentByOrderId' body orderId =
        Ok (NotifyResult_zero\<lparr>PaymentStatus := PaymentStateCreated\<rparr>)) \<and>
   (V3TransactionQueryOrder' (wx_Client pp) orderId = Inr queryRsp' \<and>
    qr_Code queryRsp' = wechat_Success \<and>
    qr_TradeState queryRsp' \<in> set [''NOTPAY'', ''USERPAYING''] \<longrightarrow>
      Wechat_Notify V3TransactionQueryOrder' pp body orderId =
        Ok (NotifyResult_zero\<lparr>PaymentStatus := PaymentStateCreated\<rparr>)) \<and>
   (checkout_Get' orderId = Inr s' \<and>
    (cs_Status s' = ''open'' \<or> cs_Status s' = ''complete'' \<and> cs_PaymentStatus s' = ''unpaid'') \<longrightarrow>
      Stripe_Notify checkout_Get' intent_Get body orderId =
        Ok (NotifyResult_zero\<lparr>PaymentStatus := PaymentStateCreated\<rparr>)) \<and>
   (TradeQuery' orderId = Inr aliRsp' \<and> tq_TradeStatus aliRsp' = ''WAIT_BUYER_PAY'' \<longrightarrow>
      Alipay_Notify ParseFloat json_Unmarshal TradeQuery' body orderId =
        Ok (NotifyResult_zero\<lparr>PaymentStatus := PaymentStateCreated\<rparr>)) \<and>
   Balance_Notify body orderId = Ok (NotifyResult_zero\<lparr>PaymentStatus := PaymentStatePaid\<rparr>) \<and>
   Dummy_Notify body orderId = Ok (NotifyResult_zero\<lparr>PaymentStatus := PaymentStatePaid\<rparr>)"
proof (intro conjI impI)
  assume "Stripe_Notify checkout_Get intent_Get body orderId = Ok r \<and>
    PaymentStatus r = PaymentStatePaid"
  then show "\<exists>s. checkout_Get orderId = Inr s \<and> cs_Status s = ''complete'' \<and>
      cs_PaymentStatus s = ''paid''"
    using Stripe_Paid_only by blast
next
  assume "Airwallex_Notify ParseFloat GetIntentByOrderId body orderId = Ok r \<and>
    PaymentStatus r = PaymentStatePaid"
  then show "\<exists>intent. GetIntentByOrderId orderId = Ok intent \<and> ai_Status intent = ''SUCCEEDED'' \<and>
      ai_PaymentStatus intent \<in> set ['''', ''PAID'', ''SETTLED'']"
    using Airwallex_Paid_only by blast
next
  assume "Alipay_Notify ParseFloat json_Unmarshal TradeQuery body orderId = Ok r \<and>
    PaymentStatus r = PaymentStatePaid"
  then show "\<exists>aliRsp. TradeQuery orderId = Inr aliRsp \<and> tq_TradeStatus aliRsp = ''TRADE_SUCCESS''"
    using Alipay_Paid_only by blast
next
  assume "Wechat_Notify V3TransactionQueryOrder pp body orderId = Ok r \<and>
    PaymentStatus r = PaymentStatePaid"
  then show "\<exists>queryRsp. V3TransactionQueryOrder (wx_Client pp) orderId = Inr queryRsp \<and>
      qr_Code queryRsp = wechat_Success \<and> qr_TradeState queryRsp = ''SUCCESS''"
    using Wechat_Paid_only by blast
next
  assume "Paypal_Notify ParseFloat fmt_Errorf OrderCapture OrderDetail body orderId = Ok r"
  then show "PaymentStatus r \<noteq> PaymentStateCreated"
    using Paypal_Paid_only by blast
next
  assume "Paypal_Notify ParseFloat fmt_Errorf OrderCapture OrderDetail body orderId = Ok r"
    and "PaymentStatus r = PaymentStatePaid"
  then show "\<exists>detailRsp. OrderDetail orderId = Inr detailRsp \<and> od_Code detailRsp = paypal_Success \<and>
      od_Status detailRsp = ''COMPLETED''"
    using Paypal_Paid_only by blast
next
  assume "Gc_Notify ParseQuery DecodeString json_Unmarshal' body orderId = Ok r"
  then show "PaymentStatus r = PaymentStatePaid"
    using Gc_Paid_only by blast
next
  assume "Gc_Notify ParseQuery DecodeString json_Unmarshal' body orderId = Ok r"
  then show "\<exists>m data ds bytes info. ParseQuery body = Inr m \<and> m ''data'' = data # ds \<and>
      DecodeString data = Inr bytes \<and> json_Unmarshal' bytes = Inr info \<and>
      gn_OrderState info = ''1''"
    using Gc_Paid_only by blast
next
  assume "GetIntentByOrderId' orderId = Ok intent' \<and>
    (ai_Status intent' \<in> set [''PENDING'', ''REQUIRES_PAYMENT_METHOD'',
       ''REQUIRES_CUSTOMER_ACTION'', ''REQUIRES_CAPTURE''] \<or>
     ai_Status intent' = ''SUCCEEDED'' \<and>
     ai_PaymentStatus intent' \<in> set [''CANCELLED'', ''EXPIRED'', ''RECEIVED'',
       ''AUTHENTICATION_REDIRECTED'', ''AUTHORIZED'', ''CAPTURE_REQUESTED''])"
  then show "Airwallex_Notify ParseFloat GetIntentByOrderId' body orderId =
      Ok (NotifyResult_zero\<lparr>PaymentStatus := PaymentStateCreated\<rparr>)"
    by (auto simp: Airwallex_Notify_def Airwallex_Notify_succeeded_def result_bind_def)
next
  assume "V3TransactionQueryOrder' (wx_Client pp) orderId = Inr queryRsp' \<and>
    qr_Code queryRsp' = wechat_Success \<and>
    qr_TradeState queryRsp' \<in> set [''NOTPAY'', ''USERPAYING'']"
  then show "Wechat_Notify V3TransactionQueryOrder' pp body orderId =
      Ok (NotifyResult_zero\<lparr>PaymentStatus := PaymentStateCreated\<rparr>)"
    by (auto simp: Wechat_Notify_def)
next
  assume "checkout_Get' orderId = Inr s' \<and>
    (cs_Status s' = ''open'' \<or> cs_Status s' = ''complete'' \<and> cs_PaymentStatus s' = ''unpaid'')"
  then show "Stripe_Notify checkout_Get' intent_Get body orderId =
      Ok (NotifyResult_zero\<lparr>PaymentStatus := PaymentStateCreated\<rparr>)"
    by (auto simp: Stripe_Notify_def Stripe_Notify_complete_def)
next
  assume "TradeQuery' orderId = Inr aliRsp' \<and> tq_TradeStatus aliRsp' = ''WAIT_BUYER_PAY''"
  then show "Alipay_Notify ParseFloat json_Unmarshal TradeQuery' body orderId =
      Ok (NotifyResult_zero\<lparr>PaymentStatus := PaymentStateCreated\<rparr>)"
    by (simp add: Alipay_Notify_def)
next
  show "Balance_Notify body orderId = Ok (NotifyResult_zero\<lparr>PaymentStatus := PaymentStatePaid\<rparr>)"
    by (simp add: Balance_Notify_def)
next
  show "Dummy_Notify body orderId = Ok (NotifyResult_zero\<lparr>PaymentStatus := PaymentStatePaid\<rparr>)"
    by (simp add: Dummy_Notify_def)
qed

theorem Notify_Paid_only_when_settled_witness:
  "(\<exists>r. Stripe_Notify (\<lambda>_. Inr CheckoutSession_example) (\<lambda>_. Inr PaymentIntent_example) []
          ''cs_1'' = Ok r \<and> PaymentStatus r = PaymentStatePaid) \<and>
   cs_Status CheckoutSession_example = ''complete'' \<and>
   cs_PaymentStatus CheckoutSession_example = ''paid'' \<and>
   (\<exists>r. Airwallex_Notify ParseFloat_decimal (\<lambda>_. Ok AirWallexIntentInfo_example) [] ''order_1'' =
          Ok r \<and> PaymentStatus r = PaymentStatePaid) \<and>
   ai_Status AirWallexIntentInfo_example = ''SUCCEEDED'' \<and>
   ai_PaymentStatus AirWallexIntentInfo_example \<in> set ['''', ''PAID'', ''SETTLED''] \<and>
   (\<exists>r. Alipay_Notify ParseFloat_decimal json_Unmarshal_example
          (\<lambda>_. Inr TradeQueryResponse_example) [] ''order_1'' = Ok r \<and>
        PaymentStatus r = PaymentStatePaid) \<and>
   tq_TradeStatus TradeQueryResponse_example = ''TRADE_SUCCESS'' \<and>
   (\<exists>r. Wechat_Notify (\<lambda>_ _. Inr WechatQueryOrderRsp_example)
          \<lparr>wx_Client = Some (), wx_AppId = ''wx1''\<rparr> [] ''order_1'' = Ok r \<and>
        PaymentStatus r = PaymentStatePaid) \<and>
   qr_TradeState WechatQueryOrderRsp_example = ''SUCCESS'' \<and>
   (\<exists>r. Paypal_Notify ParseFloat_decimal GoError (\<lambda>_. Inr OrderCaptureRsp_example)
          (\<lambda>_. Inr OrderDetailRsp_example) [] ''5O190127TN364715T'' = Ok r \<and>
        PaymentStatus r = PaymentStatePaid \<and> PaymentStatus r \<noteq> PaymentStateCreated) \<and>
   od_Status OrderDetailRsp_example = ''COMPLETED'' \<and>
   (\<exists>r. Gc_Notify url_ParseQuery base64_DecodeString json_Unmarshal_Gc_example
          (Gc_body_example Gc_data_example) ''order_1'' = Ok r \<and>
        PaymentStatus r = PaymentStatePaid) \<and>
   gn_OrderState GcNotifyRespInfo_example = ''1'' \<and>
   Airwallex_Notify ParseFloat_decimal
     (\<lambda>_. Ok (AirWallexIntentInfo_example\<lparr>ai_PaymentStatus := ''AUTHORIZED''\<rparr>)) [] ''order_1'' =
     Ok (NotifyResult_zero\<lparr>PaymentStatus := PaymentStateCreated\<rparr>) \<and>
   Wechat_Notify (\<lambda>_ _. Inr (WechatQueryOrderRsp_example\<lparr>qr_TradeState := ''USERPAYING''\<rparr>))
     \<lparr>wx_Client = Some (), wx_AppId = ''wx1''\<rparr> [] ''order_1'' =
     Ok (NotifyResult_zero\<lparr>PaymentStatus := PaymentStateCreated\<rparr>) \<and>
   Stripe_Notify (\<lambda>_. Inr (CheckoutSession_example\<lparr>cs_PaymentStatus := ''unpaid''\<rparr>))
     (\<lambda>_. Inr PaymentIntent_example) [] ''cs_1'' =
     Ok (NotifyResult_zero\<lparr>PaymentStatus := PaymentStateCreated\<rparr>) \<and>
   Alipay_Notify ParseFloat_decimal json_Unmarshal_example
     (\<lambda>_. Inr (TradeQueryResponse_example\<lparr>tq_TradeStatus := ''WAIT_BUYER_PAY''\<rparr>)) [] ''order_1'' =
     Ok (NotifyResult_zero\<lparr>PaymentStatus := PaymentStateCreated\<rparr>)"
proof -
  note T = Notify_Paid_only_when_settled
  let ?pp = "\<lparr>wx_Client = Some (), wx_AppId = ''wx1''\<rparr>"
  let ?rs = "\<lparr>PaymentName = ''order_1'', PaymentStatus = PaymentStatePaid, NotifyMessage = '''',
         ProductName = ''prod'', ProductDisplayName = ''Product 1'', ProviderName = ''stripe'',
         Price = fl64 (9999 / 100), Currency = ''usd'', OrderId = ''cs_1''\<rparr>"
  let ?ra = "\<lparr>PaymentName = ''order_1'', PaymentStatus = PaymentStatePaid, NotifyMessage = '''',
         ProductName = ''prod'', ProductDisplayName = ''Product 1'', ProviderName = ''airwallex'',
         Price = fl64 (9999 / 100), Currency = ''USD'', OrderId = ''order_1''\<rparr>"
  let ?rl = "\<lparr>PaymentName = ''order_1'', PaymentStatus = PaymentStatePaid, NotifyMessage = '''',
         ProductName = ''Product 1'', ProductDisplayName = ''prod'', ProviderName = ''alipay'',
         Price = fl64 (9999 / 100), Currency = '''', OrderId = ''order_1''\<rparr>"
  let ?rw = "\<lparr>PaymentName = ''order_1'', PaymentStatus = PaymentStatePaid, NotifyMessage = '''',
         ProductName = ''prod'', ProductDisplayName = ''Product 1'', ProviderName = ''wechat'',
         Price = fl64 (9999 / 100), Currency = '''', OrderId = ''order_1''\<rparr>"
  let ?rp = "\<lparr>PaymentName = ''5O190127TN364715T'', PaymentStatus = PaymentStatePaid,
         NotifyMessage = '''',
         ProductName = ''prod'', ProductDisplayName = ''Product 1'', ProviderName = ''paypal'',
         Price = fl64 (9999 / 100), Currency = ''USD'', OrderId = ''5O190127TN364715T''\<rparr>"
  let ?rg = "\<lparr>PaymentName = ''order_1'', PaymentStatus = PaymentStatePaid, NotifyMessage = '''',
         ProductName = '''', ProductDisplayName = '''', ProviderName = '''',
         Price = fl64 (9999 / 100), Currency = '''', OrderId = ''order_1''\<rparr>"
  have h1: "Stripe_Notify (\<lambda>_. Inr CheckoutSession_example) (\<lambda>_. Inr PaymentIntent_example) []
      ''cs_1'' = Ok ?rs \<and> PaymentStatus ?rs = PaymentStatePaid"
    by (simp add: Stripe_Notify_example)
  from h1 T [where checkout_Get = "\<lambda>_. Inr CheckoutSession_example"
      and intent_Get = "\<lambda>_. Inr PaymentIntent_example" and body = "[]" and orderId = "''cs_1''"
      and r = ?rs, THEN conjunct1]
  have c1: "cs_Status CheckoutSession_example = ''complete'' \<and>
      cs_PaymentStatus CheckoutSession_example = ''paid''"
    by blast
  have h2: "Airwallex_Notify ParseFloat_decimal (\<lambda>_. Ok AirWallexIntentInfo_example) [] ''order_1'' =
      Ok ?ra \<and> PaymentStatus ?ra = PaymentStatePaid"
    using Airwallex_Notify_example [of AirWallexIntentInfo_example "[]" "''order_1''"]
    by (simp add: AirWallexIntentInfo_example_def)
  from h2 T [where GetIntentByOrderId = "\<lambda>_. Ok AirWallexIntentInfo_example"
      and ParseFloat = ParseFloat_decimal and body = "[]" and orderId = "''order_1''"
      and r = ?ra, THEN conjunct2, THEN conjunct1]
  have c2: "ai_Status AirWallexIntentInfo_example = ''SUCCEEDED'' \<and>
      ai_PaymentStatus AirWallexIntentInfo_example \<in> set ['''', ''PAID'', ''SETTLED'']"
    by blast
  have h3: "Alipay_Notify ParseFloat_decimal json_Unmarshal_example
      (\<lambda>_. Inr TradeQueryResponse_example) [] ''order_1'' = Ok ?rl \<and>
      PaymentStatus ?rl = PaymentStatePaid"
    by (simp add: Alipay_Notify_example)
  from h3 T [where TradeQuery = "\<lambda>_. Inr TradeQueryResponse_example"
      and json_Unmarshal = json_Unmarshal_example
      and ParseFloat = ParseFloat_decimal and body = "[]" and orderId = "''order_1''"
      and r = ?rl, THEN conjunct2, THEN conjunct2, THEN conjunct1]
  have c3: "tq_TradeStatus TradeQueryResponse_example = ''TRADE_SUCCESS''"
    by blast
  have h4: "Wechat_Notify (\<lambda>_ _. Inr WechatQueryOrderRsp_example) ?pp [] ''order_1'' = Ok ?rw \<and>
      PaymentStatus ?rw = PaymentStatePaid"
    by (simp add: Wechat_Notify_example)
  from h4 T [where V3TransactionQueryOrder = "\<lambda>_ _. Inr WechatQueryOrderRsp_example"
      and pp = ?pp and body = "[]" and orderId = "''order_1''"
      and r = ?rw, THEN conjunct2, THEN conjunct2, THEN conjunct2, THEN conjunct1]
  have c4: "qr_TradeState WechatQueryOrderRsp_example = ''SUCCESS''"
    by blast
  have h5: "Paypal_Notify ParseFloat_decimal GoError (\<lambda>_. Inr OrderCaptureRsp_example)
      (\<lambda>_. Inr OrderDetailRsp_example) [] ''5O190127TN364715T'' = Ok ?rp \<and>
      PaymentStatus ?rp = PaymentStatePaid"
    using Paypal_Notify_example [of OrderCaptureRsp_example GoError "''COMPLETED''" "[]"
        "''5O190127TN364715T''"]
    by (simp add: OrderDetailRsp_example_def)
  from h5 T [where OrderCapture = "\<lambda>_. Inr OrderCaptureRsp_example"
      and OrderDetail = "\<lambda>_. Inr OrderDetailRsp_example" and fmt_Errorf = GoError
      and ParseFloat = ParseFloat_decimal and body = "[]" and orderId = "''5O190127TN364715T''"
      and r = ?rp, THEN conjunct2, THEN conjunct2, THEN conjunct2, THEN conjunct2, THEN conjunct1]
  have c5: "PaymentStatus ?rp \<noteq> PaymentStateCreated \<and>
      od_Status OrderDetailRsp_example = ''COMPLETED''"
    by blast
  have h6: "Gc_Notify url_ParseQuery base64_DecodeString json_Unmarshal_Gc_example
          (Gc_body_example Gc_data_example) ''order_1'' = Ok ?rg"
    by (simp add: Gc_Notify_example)
  from h6 T [where ParseQuery = url_ParseQuery and DecodeString = base64_DecodeString
      and json_Unmarshal' = json_Unmarshal_Gc_example
      and body = "Gc_body_example Gc_data_example" and orderId = "''order_1''"
      and r = ?rg, THEN conjunct2, THEN conjunct2, THEN conjunct2, THEN conjunct2, THEN conjunct2,
      THEN conjunct1]
  have c6: "PaymentStatus ?rg = PaymentStatePaid \<and> gn_OrderState GcNotifyRespInfo_example = ''1''"
    by (auto simp: url_ParseQuery_def Gc_body_example_values base64_DecodeString_examples
        json_Unmarshal_Gc_examples)
  have c7: "Airwallex_Notify ParseFloat_decimal
     (\<lambda>_. Ok (AirWallexIntentInfo_example\<lparr>ai_PaymentStatus := ''AUTHORIZED''\<rparr>)) [] ''order_1'' =
     Ok (NotifyResult_zero\<lparr>PaymentStatus := PaymentStateCreated\<rparr>)"
    using T [where GetIntentByOrderId' = "\<lambda>_. Ok (AirWallexIntentInfo_example\<lparr>ai_PaymentStatus := ''AUTHORIZED''\<rparr>)"
      and intent' = "AirWallexIntentInfo_example\<lparr>ai_PaymentStatus := ''AUTHORIZED''\<rparr>"
      and ParseFloat = ParseFloat_decimal and body = "[]" and orderId = "''order_1''",
      THEN conjunct2, THEN conjunct2, THEN conjunct2, THEN conjunct2, THEN conjunct2,
      THEN conjunct2, THEN conjunct1]
    by (simp add: AirWallexIntentInfo_example_def)
  have c8: "Wechat_Notify (\<lambda>_ _. Inr (WechatQueryOrderRsp_example\<lparr>qr_TradeState := ''USERPAYING''\<rparr>))
     ?pp [] ''order_1'' = Ok (NotifyResult_zero\<lparr>PaymentStatus := PaymentStateCreated\<rparr>)"
    using T [where V3TransactionQueryOrder' =
        "\<lambda>_ _. Inr (WechatQueryOrderRsp_example\<lparr>qr_TradeState := ''USERPAYING''\<rparr>)"
      and queryRsp' = "WechatQueryOrderRsp_example\<lparr>qr_TradeState := ''USERPAYING''\<rparr>"
      and pp = ?pp and body = "[]" and orderId = "''order_1''",
      THEN conjunct2, THEN conjunct2, THEN conjunct2, THEN conjunct2, THEN conjunct2,
      THEN conjunct2, THEN conjunct2, THEN conjunct1]
    by (simp add: WechatQueryOrderRsp_example_def wechat_Success_def)
  have c9: "Stripe_Notify (\<lambda>_. Inr (CheckoutSession_example\<lparr>cs_PaymentStatus := ''unpaid''\<rparr>))
     (\<lambda>_. Inr PaymentIntent_example) [] ''cs_1'' =
     Ok (NotifyResult_zero\<lparr>PaymentStatus := PaymentStateCreated\<rparr>)"
    using T [where checkout_Get' = "\<lambda>_. Inr (CheckoutSession_example\<lparr>cs_PaymentStatus := ''unpaid''\<rparr>)"
      and s' = "CheckoutSession_example\<lparr>cs_PaymentStatus := ''unpaid''\<rparr>"
      and intent_Get = "\<lambda>_. Inr PaymentIntent_example" and body = "[]" and orderId = "''cs_1''",
      THEN conjunct2, THEN conjunct2, THEN conjunct2, THEN conjunct2, THEN conjunct2,
      THEN conjunct2, THEN conjunct2, THEN conjunct2, THEN conjunct1]
    by (simp add: CheckoutSession_example_def)
  have c10: "Alipay_Notify ParseFloat_decimal json_Unmarshal_example
     (\<lambda>_. Inr (TradeQueryResponse_example\<lparr>tq_TradeStatus := ''WAIT_BUYER_PAY''\<rparr>)) [] ''order_1'' =
     Ok (NotifyResult_zero\<lparr>PaymentStatus := PaymentStateCreated\<rparr>)"
    using T [where TradeQuery' = "\<lambda>_. Inr (TradeQueryResponse_example\<lparr>tq_TradeStatus := ''WAIT_BUYER_PAY''\<rparr>)"
      and aliRsp' = "TradeQueryResponse_example\<lparr>tq_TradeStatus := ''WAIT_BUYER_PAY''\<rparr>"
      and json_Unmarshal = json_Unmarshal_example
      and ParseFloat = ParseFloat_decimal and body = "[]" and orderId = "''order_1''",
      THEN conjunct2, THEN conjunct2, THEN conjunct2, THEN conjunct2, THEN conjunct2,
      THEN conjunct2, THEN conjunct2, THEN conjunct2, THEN conjunct2, THEN conjunct1]
    by simp
  have e1: "\<exists>r. Stripe_Notify (\<lambda>_. Inr CheckoutSession_example) (\<lambda>_. Inr PaymentIntent_example) []
          ''cs_1'' = Ok r \<and> PaymentStatus r = PaymentStatePaid"
    by (rule exI [of _ ?rs]) (rule h1)
  have e2: "\<exists>r. Airwallex_Notify ParseFloat_decimal (\<lambda>_. Ok AirWallexIntentInfo_example) [] ''order_1'' =
          Ok r \<and> PaymentStatus r = PaymentStatePaid"
    by (rule exI [of _ ?ra]) (rule h2)
  have e3: "\<exists>r. Alipay_Notify ParseFloat_decimal json_Unmarshal_example
          (\<lambda>_. Inr TradeQueryResponse_example) [] ''order_1'' = Ok r \<and>
        PaymentStatus r = PaymentStatePaid"
    by (rule exI [of _ ?rl]) (rule h3)
  have e4: "\<exists>r. Wechat_Notify (\<lambda>_ _. Inr WechatQueryOrderRsp_example) ?pp [] ''order_1'' = Ok r \<and>
        PaymentStatus r = PaymentStatePaid"
    by (rule exI [of _ ?rw]) (rule h4)
  from h5 c5 have "Paypal_Notify ParseFloat_decimal GoError (\<lambda>_. Inr OrderCaptureRsp_example)
          (\<lambda>_. Inr OrderDetailRsp_example) [] ''5O190127TN364715T'' = Ok ?rp \<and>
        PaymentStatus ?rp = PaymentStatePaid \<and> PaymentStatus ?rp \<noteq> PaymentStateCreated"
    by blast
  then have e5: "\<exists>r. Paypal_Notify ParseFloat_decimal GoError (\<lambda>_. Inr OrderCaptureRsp_example)
          (\<lambda>_. Inr OrderDetailRsp_example) [] ''5O190127TN364715T'' = Ok r \<and>
        PaymentStatus r = PaymentStatePaid \<and> PaymentStatus r \<noteq> PaymentStateCreated"
    by (rule exI [of _ ?rp])
  from h6 c6 have "Gc_Notify url_ParseQuery base64_DecodeString json_Unmarshal_Gc_example
          (Gc_body_example Gc_data_example) ''order_1'' = Ok ?rg \<and>
        PaymentStatus ?rg = PaymentStatePaid"
    by blast
  then have e6: "\<exists>r. Gc_Notify url_ParseQuery base64_DecodeString json_Unmarshal_Gc_example
          (Gc_body_example Gc_data_example) ''order_1'' = Ok r \<and>
        PaymentStatus r = PaymentStatePaid"
    by (rule exI [of _ ?rg])
  from c5 have d5: "od_Status OrderDetailRsp_example = ''COMPLETED''"
    by blast
  from c6 have d6: "gn_OrderState GcNotifyRespInfo_example = ''1''"
    by blast
  from e1 c1 e2 c2 e3 c3 e4 c4 e5 d5 e6 d6 c7 c8 c9 c10 show ?thesis
    by (intro conjI) (erule conjunct1 conjunct2 | assumption)+
qed

section \<open>Repeated notifications\<close>

lemma Stripe_Notify_cong:
  "checkout_Get orderId = checkout_Get' orderId \<Longrightarrow> (\<forall>i. intent_Get i = intent_Get' i) \<Longrightarrow>
   Stripe_Notify checkout_Get intent_Get body orderId =
   Stripe_Notify checkout_Get' intent_Get' body' orderId"
  by (simp add: Stripe_Notify_def Stripe_Notify_complete_def Stripe_Notify_paid_def
      split: sum.splits option.splits)

lemma Paypal_Notify_cong:
  assumes "OrderCapture orderId = OrderCapture' orderId"
    and "OrderDetail orderId = OrderDetail' orderId"
  shows "Paypal_Notify ParseFloat fmt_Errorf OrderCapture OrderDetail body orderId =
    Paypal_Notify ParseFloat fmt_Errorf OrderCapture' OrderDetail' body' orderId"
proof -
  have "Paypal_Notify_detail ParseFloat fmt_Errorf OrderDetail orderId =
      Paypal_Notify_detail ParseFloat fmt_Errorf OrderDetail' orderId"
    using assms(2) by (simp add: Paypal_Notify_detail_def)
  then show ?thesis
    using assms(1) by (simp add: Paypal_Notify_def cong: sum.case_cong if_cong)
qed

text \<open>
  C8. Two calls of an adapter's \<open>Notify\<close> for one order to which the vendor gives the same
  answers return the same result, whatever the callback bodies are (for GC, whose state
  comes in the body: two bodies that decode alike). For PayPal, a first call whose capture
  succeeds and a second call to which the vendor answers \<^verbatim>\<open>ORDER_ALREADY_CAPTURED\<close>, with
  the order reported \<^verbatim>\<open>COMPLETED\<close> both times, return the same result, with status
  \<open>Paid\<close>.
\<close>

theorem Notify_idempotent:
  "(checkout_Get orderId = checkout_Get' orderId \<and> (\<forall>i. intent_Get i = intent_Get' i) \<longrightarrow>
      Stripe_Notify checkout_Get intent_Get body orderId =
      Stripe_Notify checkout_Get' intent_Get' body' orderId) \<and>
   (GetIntentByOrderId orderId = GetIntentByOrderId' orderId \<longrightarrow>
      Airwallex_Notify ParseFloat GetIntentByOrderId body orderId =
      Airwallex_Notify ParseFloat GetIntentByOrderId' body' orderId) \<and>
   (TradeQuery orderId = TradeQuery' orderId \<longrightarrow>
      Alipay_Notify ParseFloat json_Unmarshal TradeQuery body orderId =
      Alipay_Notify ParseFloat json_Unmarshal TradeQuery' body' orderId) \<and>
   (V3TransactionQueryOrder (wx_Client pp) orderId = V3TransactionQueryOrder' (wx_Client pp) orderId \<longrightarrow>
      Wechat_Notify V3TransactionQueryOrder pp body orderId =
      Wechat_Notify V3TransactionQueryOrder' pp body' orderId) \<and>
   (OrderCapture orderId = OrderCapture' orderId \<and> OrderDetail orderId = OrderDetail' orderId \<longrightarrow>
      Paypal_Notify ParseFloat fmt_Errorf OrderCapture OrderDetail body orderId =
      Paypal_Notify ParseFloat fmt_Errorf OrderCapture' OrderDetail' body' orderId) \<and>
   (ParseQuery body = ParseQuery body' \<longrightarrow>
      Gc_Notify ParseQuery DecodeString json_Unmarshal' body orderId =
      Gc_Notify ParseQuery DecodeString json_Unmarshal' body' orderId) \<and>
   Balance_Notify body orderId = Balance_Notify body' orderId \<and>
   Dummy_Notify body orderId = Dummy_Notify body' orderId \<and>
   (Capture_first orderId = Inr captureRsp \<and> oc_Code captureRsp = paypal_Success \<and>
    Capture_again orderId = Inr captureRsp' \<and> oc_Code captureRsp' \<noteq> paypal_Success \<and>
    oc_Details captureRsp' = d # ds \<and> ed_Issue d = ''ORDER_ALREADY_CAPTURED'' \<and>
    Detail_first orderId = Inr detailRsp \<and> Detail_again orderId = Inr detailRsp \<and>
    od_Code detailRsp = paypal_Success \<and> od_Status detailRsp = ''COMPLETED'' \<and>
    od_PurchaseUnits detailRsp = unit # units \<and> ParseFloat (pu_AmountValue unit) = Inr price \<and>
    parseAttachString (pu_Description unit) = (a, b, c, None) \<longrightarrow>
      (\<exists>r. Paypal_Notify ParseFloat fmt_Errorf Capture_first Detail_first body orderId = Ok r \<and>
           Paypal_Notify ParseFloat fmt_Errorf Capture_again Detail_again body' orderId = Ok r \<and>
           PaymentStatus r = PaymentStatePaid))"
proof (intro conjI impI)
  assume "checkout_Get orderId = checkout_Get' orderId \<and> (\<forall>i. intent_Get i = intent_Get' i)"
  then show "Stripe_Notify checkout_Get intent_Get body orderId =
      Stripe_Notify checkout_Get' intent_Get' body' orderId"
    using Stripe_Notify_cong by blast
next
  assume "GetIntentByOrderId orderId = GetIntentByOrderId' orderId"
  then show "Airwallex_Notify ParseFloat GetIntentByOrderId body orderId =
      Airwallex_Notify ParseFloat GetIntentByOrderId' body' orderId"
    by (simp add: Airwallex_Notify_def)
next
  assume "TradeQuery orderId = TradeQuery' orderId"
  then show "Alipay_Notify ParseFloat json_Unmarshal TradeQuery body orderId =
      Alipay_Notify ParseFloat json_Unmarshal TradeQuery' body' orderId"
    by (simp add: Alipay_Notify_def)
next
  assume "V3TransactionQueryOrder (wx_Client pp) orderId =
      V3TransactionQueryOrder' (wx_Client pp) orderId"
  then show "Wechat_Notify V3TransactionQueryOrder pp body orderId =
      Wechat_Notify V3TransactionQueryOrder' pp body' orderId"
    by (simp add: Wechat_Notify_def)
next
  assume "OrderCapture orderId = OrderCapture' orderId \<and> OrderDetail orderId = OrderDetail' orderId"
  then show "Paypal_Notify ParseFloat fmt_Errorf OrderCapture OrderDetail body orderId =
      Paypal_Notify ParseFloat fmt_Errorf OrderCapture' OrderDetail' body' orderId"
    using Paypal_Notify_cong by blast
next
  assume "ParseQuery body = ParseQuery body'"
  then show "Gc_Notify ParseQuery DecodeString json_Unmarshal' body orderId =
      Gc_Notify ParseQuery DecodeString json_Unmarshal' body' orderId"
    by (simp add: Gc_Notify_def)
next
  show "Balance_Notify body orderId = Balance_Notify body' orderId"
    by (simp add: Balance_Notify_def)
next
  show "Dummy_Notify body orderId = Dummy_Notify body' orderId"
    by (simp add: Dummy_Notify_def)
next
  assume h: "Capture_first orderId = Inr captureRsp \<and> oc_Code captureRsp = paypal_Success \<and>
    Capture_again orderId = Inr captureRsp' \<and> oc_Code captureRsp' \<noteq> paypal_Success \<and>
    oc_Details captureRsp' = d # ds \<and> ed_Issue d = ''ORDER_ALREADY_CAPTURED'' \<and>
    Detail_first orderId = Inr detailRsp \<and> Detail_again orderId = Inr detailRsp \<and>
    od_Code detailRsp = paypal_Success \<and> od_Status detailRsp = ''COMPLETED'' \<and>
    od_PurchaseUnits detailRsp = unit # units \<and> ParseFloat (pu_AmountValue unit) = Inr price \<and>
    parseAttachString (pu_Description unit) = (a, b, c, None)"
  let ?r = "\<lparr>PaymentName = od_Id detailRsp, PaymentStatus = PaymentStatePaid,
         NotifyMessage = '''', ProductName = b, ProductDisplayName = a, ProviderName = c,
         Price = price, Currency = pu_AmountCurrencyCode unit, OrderId = orderId\<rparr>"
  from h have 1: "Paypal_Notify ParseFloat fmt_Errorf Capture_first Detail_first body orderId =
      Paypal_Notify_detail ParseFloat fmt_Errorf Detail_first orderId"
    using Paypal_Notify_captured [of Capture_first orderId captureRsp] by blast
  from h have 2: "Paypal_Notify ParseFloat fmt_Errorf Capture_again Detail_again body' orderId =
      Paypal_Notify_detail ParseFloat fmt_Errorf Detail_again orderId"
    using Paypal_Notify_captured [of Capture_again orderId captureRsp'] by blast
  from h have 3: "Paypal_Notify_detail ParseFloat fmt_Errorf Detail_first orderId = Ok ?r"
    using Paypal_Notify_detail_status [of Detail_first orderId detailRsp unit units ParseFloat
        price a b c fmt_Errorf]
    by simp
  from h have 4: "Paypal_Notify_detail ParseFloat fmt_Errorf Detail_again orderId = Ok ?r"
    using Paypal_Notify_detail_status [of Detail_again orderId detailRsp unit units ParseFloat
        price a b c fmt_Errorf]
    by simp
  have "Paypal_Notify ParseFloat fmt_Errorf Capture_first Detail_first body orderId = Ok ?r \<and>
      Paypal_Notify ParseFloat fmt_Errorf Capture_again Detail_again body' orderId = Ok ?r \<and>
      PaymentStatus ?r = PaymentStatePaid"
    using 1 2 3 4 by simp
  then show "\<exists>r. Paypal_Notify ParseFloat fmt_Errorf Capture_first Detail_first body orderId = Ok r \<and>
      Paypal_Notify ParseFloat fmt_Errorf Capture_again Detail_again body' orderId = Ok r \<and>
      PaymentStatus r = PaymentStatePaid"
    by (rule exI [of _ ?r])
qed

theorem Notify_idempotent_witness:
  "Stripe_Notify (\<lambda>_. Inr CheckoutSession_example) (\<lambda>_. Inr PaymentIntent_example) [] ''cs_1'' =
     Stripe_Notify
       (\<lambda>oid. if oid = ''cs_1'' then Inr CheckoutSession_example else Inl (GoError ''No such session''))
       (\<lambda>_. Inr PaymentIntent_example) ''resent'' ''cs_1'' \<and>
   Airwallex_Notify ParseFloat_decimal (\<lambda>_. Ok AirWallexIntentInfo_example) [] ''order_1'' =
     Airwallex_Notify ParseFloat_decimal (\<lambda>_. Ok AirWallexIntentInfo_example) ''resent'' ''order_1'' \<and>
   Alipay_Notify ParseFloat_decimal json_Unmarshal_example
       (\<lambda>_. Inr TradeQueryResponse_example) [] ''order_1'' =
     Alipay_Notify ParseFloat_decimal json_Unmarshal_example
       (\<lambda>_. Inr TradeQueryResponse_example) ''resent'' ''order_1'' \<and>
   Wechat_Notify (\<lambda>_ _. Inr WechatQueryOrderRsp_example)
       \<lparr>wx_Client = Some (), wx_AppId = ''wx1''\<rparr> [] ''order_1'' =
     Wechat_Notify (\<lambda>_ _. Inr WechatQueryOrderRsp_example)
       \<lparr>wx_Client = Some (), wx_AppId = ''wx1''\<rparr> ''resent'' ''order_1'' \<and>
   Paypal_Notify ParseFloat_decimal GoError (\<lambda>_. Inr OrderCaptureRsp_captured)
       (\<lambda>_. Inr OrderDetailRsp_example) [] ''5O190127TN364715T'' =
     Paypal_Notify ParseFloat_decimal GoError (\<lambda>_. Inr OrderCaptureRsp_captured)
       (\<lambda>_. Inr OrderDetailRsp_example) ''resent'' ''5O190127TN364715T'' \<and>
   Gc_Notify url_ParseQuery base64_DecodeString json_Unmarshal_Gc_example
          (Gc_body_example Gc_data_example) ''order_1'' =
     Gc_Notify url_ParseQuery base64_DecodeString json_Unmarshal_Gc_example
          (Gc_body_sorted Gc_data_example) ''order_1'' \<and>
   (\<exists>r. Paypal_Notify ParseFloat_decimal GoError (\<lambda>_. Inr OrderCaptureRsp_example)
          (\<lambda>_. Inr OrderDetailRsp_example) [] ''5O190127TN364715T'' = Ok r \<and>
        Paypal_Notify ParseFloat_decimal GoError (\<lambda>_. Inr OrderCaptureRsp_captured)
          (\<lambda>_. Inr OrderDetailRsp_example) ''resent'' ''5O190127TN364715T'' = Ok r \<and>
        PaymentStatus r = PaymentStatePaid)"
proof -
  note T = Notify_idempotent
  let ?pp = "\<lparr>wx_Client = Some (), wx_AppId = ''wx1''\<rparr>"
  have 1: "Stripe_Notify (\<lambda>_. Inr CheckoutSession_example) (\<lambda>_. Inr PaymentIntent_example) [] ''cs_1'' =
     Stripe_Notify
       (\<lambda>oid. if oid = ''cs_1'' then Inr CheckoutSession_example else Inl (GoError ''No such session''))
       (\<lambda>_. Inr PaymentIntent_example) ''resent'' ''cs_1''"
    using T [where checkout_Get = "\<lambda>_. Inr CheckoutSession_example"
        and checkout_Get' = "\<lambda>oid. if oid = ''cs_1'' then Inr CheckoutSession_example
                                 else Inl (GoError ''No such session'')"
        and intent_Get = "\<lambda>_. Inr PaymentIntent_example"
        and intent_Get' = "\<lambda>_. Inr PaymentIntent_example"
        and body = "[]" and body' = "''resent''" and orderId = "''cs_1''", THEN conjunct1]
    by simp
  have 2: "Airwallex_Notify ParseFloat_decimal (\<lambda>_. Ok AirWallexIntentInfo_example) [] ''order_1'' =
     Airwallex_Notify ParseFloat_decimal (\<lambda>_. Ok AirWallexIntentInfo_example) ''resent'' ''order_1''"
    using T [where GetIntentByOrderId = "\<lambda>_. Ok AirWallexIntentInfo_example"
        and GetIntentByOrderId' = "\<lambda>_. Ok AirWallexIntentInfo_example"
        and ParseFloat = ParseFloat_decimal
        and body = "[]" and body' = "''resent''" and orderId = "''order_1''",
        THEN conjunct2, THEN conjunct1]
    by simp
  have 3: "Alipay_Notify ParseFloat_decimal json_Unmarshal_example
       (\<lambda>_. Inr TradeQueryResponse_example) [] ''order_1'' =
     Alipay_Notify ParseFloat_decimal json_Unmarshal_example
       (\<lambda>_. Inr TradeQueryResponse_example) ''resent'' ''order_1''"
    using T [where TradeQuery = "\<lambda>_. Inr TradeQueryResponse_example"
        and TradeQuery' = "\<lambda>_. Inr TradeQueryResponse_example"
        and ParseFloat = ParseFloat_decimal and json_Unmarshal = json_Unmarshal_example
        and body = "[]" and body' = "''resent''" and orderId = "''order_1''",
        THEN conjunct2, THEN conjunct2, THEN conjunct1]
    by simp
  have 4: "Wechat_Notify (\<lambda>_ _. Inr WechatQueryOrderRsp_example) ?pp [] ''order_1'' =
     Wechat_Notify (\<lambda>_ _. Inr WechatQueryOrderRsp_example) ?pp ''resent'' ''order_1''"
    using T [where V3TransactionQueryOrder = "\<lambda>_ _. Inr WechatQueryOrderRsp_example"
        and V3TransactionQueryOrder' = "\<lambda>_ _. Inr WechatQueryOrderRsp_example" and pp = ?pp
        and body = "[]" and body' = "''resent''" and orderId = "''order_1''",
        THEN conjunct2, THEN conjunct2, THEN conjunct2, THEN conjunct1]
    by simp
  have 5: "Paypal_Notify ParseFloat_decimal GoError (\<lambda>_. Inr OrderCaptureRsp_captured)
       (\<lambda>_. Inr OrderDetailRsp_example) [] ''5O190127TN364715T'' =
     Paypal_Notify ParseFloat_decimal GoError (\<lambda>_. Inr OrderCaptureRsp_captured)
       (\<lambda>_. Inr OrderDetailRsp_example) ''resent'' ''5O190127TN364715T''"
    using T [where OrderCapture = "\<lambda>_. Inr OrderCaptureRsp_captured"
        and OrderCapture' = "\<lambda>_. Inr OrderCaptureRsp_captured"
        and OrderDetail = "\<lambda>_. Inr OrderDetailRsp_example"
        and OrderDetail' = "\<lambda>_. Inr OrderDetailRsp_example"
        and ParseFloat = ParseFloat_decimal and fmt_Errorf = GoError
        and body = "[]" and body' = "''resent''" and orderId = "''5O190127TN364715T''",
        THEN conjunct2, THEN conjunct2, THEN conjunct2, THEN conjunct2, THEN conjunct1]
    by simp
  have 6: "Gc_Notify url_ParseQuery base64_DecodeString json_Unmarshal_Gc_example
          (Gc_body_example Gc_data_example) ''order_1'' =
     Gc_Notify url_ParseQuery base64_DecodeString json_Unmarshal_Gc_example
          (Gc_body_sorted Gc_data_example) ''order_1''"
    using T [where ParseQuery = url_ParseQuery and DecodeString = base64_DecodeString
        and json_Unmarshal' = json_Unmarshal_Gc_example
        and body = "Gc_body_example Gc_data_example" and body' = "Gc_body_sorted Gc_data_example"
        and orderId = "''order_1''",
        THEN conjunct2, THEN conjunct2, THEN conjunct2, THEN conjunct2, THEN conjunct2,
        THEN conjunct1]
    by (simp add: url_ParseQuery_def Gc_body_sorted_values)
  have 7: "\<exists>r. Paypal_Notify ParseFloat_decimal GoError (\<lambda>_. Inr OrderCaptureRsp_example)
          (\<lambda>_. Inr OrderDetailRsp_example) [] ''5O190127TN364715T'' = Ok r \<and>
        Paypal_Notify ParseFloat_decimal GoError (\<lambda>_. Inr OrderCaptureRsp_captured)
          (\<lambda>_. Inr OrderDetailRsp_example) ''resent'' ''5O190127TN364715T'' = Ok r \<and>
        PaymentStatus r = PaymentStatePaid"
    using T [where Capture_first = "\<lambda>_. Inr OrderCaptureRsp_example"
        and Capture_again = "\<lambda>_. Inr OrderCaptureRsp_captured"
        and captureRsp = OrderCaptureRsp_example and captureRsp' = OrderCaptureRsp_captured
        and d = "\<lparr>ed_Issue = ''ORDER_ALREADY_CAPTURED'', ed_Description = ''Order already captured.''\<rparr>"
        and ds = "[]"
        and Detail_first = "\<lambda>_. Inr OrderDetailRsp_example"
        and Detail_again = "\<lambda>_. Inr OrderDetailRsp_example"
        and detailRsp = OrderDetailRsp_example
        and unit = "\<lparr>pu_AmountValue = ''99.99'', pu_AmountCurrencyCode = ''USD'',
                     pu_Description = ''Product 1|prod|paypal''\<rparr>"
        and units = "[]" and price = "fl64 (9999 / 100)" and a = "''Product 1''" and b = "''prod''"
        and c = "''paypal''"
        and ParseFloat = ParseFloat_decimal and fmt_Errorf = GoError
        and body = "[]" and body' = "''resent''" and orderId = "''5O190127TN364715T''",
        THEN conjunct2, THEN conjunct2, THEN conjunct2, THEN conjunct2, THEN conjunct2,
        THEN conjunct2, THEN conjunct2, THEN conjunct2]
    by (simp add: OrderCaptureRsp_example_def OrderCaptureRsp_captured_def
        OrderDetailRsp_example_def paypal_Success_def ParseFloat_decimal_9999
        parseAttachString_examples)
  from 1 2 3 4 5 6 7 show ?thesis
    by (intro conjI) assumption+
qed

section \<open>Amount round trip\<close>

lemma bitlen_powi_bounds:
  assumes "0 < (p::int)"
  shows "(2::rat) powi (bitlen p - 1) \<le> of_int p" and "(of_int p :: rat) < 2 powi bitlen p"
proof -
  from assms have b: "1 \<le> bitlen p"
    by (auto simp: bitlen_alt_def)
  from bitlen_bounds [OF assms] have l: "2 ^ nat (bitlen p - 1) \<le> p" and u: "p < 2 ^ nat (bitlen p)"
    by simp_all
  from l have "(of_int (2 ^ nat (bitlen p - 1)) :: rat) \<le> of_int p"
    by (simp only: of_int_le_iff)
  with b show "(2::rat) powi (bitlen p - 1) \<le> of_int p"
    by (simp add: power_int_nonneg_exp)
  from u have "(of_int p :: rat) < of_int (2 ^ nat (bitlen p))"
    by (simp only: of_int_less_iff)
  with b show "(of_int p :: rat) < 2 powi bitlen p"
    by (simp add: power_int_nonneg_exp)
qed

lemma expo_bounds:
  assumes "x \<noteq> 0"
  shows "2 powi expo x \<le> \<bar>x\<bar>" and "\<bar>x\<bar> < 2 powi (expo x + 1)"
proof -
  obtain p q where pq: "quotient_of \<bar>x\<bar> = (p, q)"
    by (cases "quotient_of \<bar>x\<bar>")
  then have q: "0 < q" and x: "\<bar>x\<bar> = of_int p / of_int q"
    by (rule quotient_of_denom_pos, rule quotient_of_div)
  from assms have "0 < \<bar>x\<bar>" by simp
  with x q have p: "0 < p"
    by (simp add: zero_less_divide_iff)
  let ?e = "bitlen p - bitlen q"
  note P = bitlen_powi_bounds [OF p] and Q = bitlen_powi_bounds [OF q]
  have qpos: "(0::rat) < of_int q" using q by simp
  have lower: "2 powi (?e - 1) \<le> \<bar>x\<bar>"
  proof -
    have "(2::rat) powi (?e - 1) = 2 powi (bitlen p - 1) / 2 powi bitlen q"
      by (simp add: power_int_diff)
    also have "\<dots> \<le> of_int p / 2 powi bitlen q"
      using P(1) by (simp add: divide_right_mono)
    also have "\<dots> \<le> of_int p / of_int q"
      using Q(2) p qpos by (intro divide_left_mono) simp_all
    finally show ?thesis by (simp add: x)
  qed
  have upper: "\<bar>x\<bar> < 2 powi (?e + 1)"
  proof -
    have "\<bar>x\<bar> = of_int p / of_int q" by (rule x)
    also have "\<dots> < 2 powi bitlen p / of_int q"
      using P(2) qpos by (simp add: divide_strict_right_mono)
    also have "\<dots> \<le> 2 powi bitlen p / 2 powi (bitlen q - 1)"
      using Q(1) qpos by (intro divide_left_mono mult_pos_pos) simp_all
    also have "\<dots> = 2 powi (?e + 1)"
      by (simp add: power_int_diff power_int_add field_simps)
    finally show ?thesis .
  qed
  show "2 powi expo x \<le> \<bar>x\<bar>"
    using lower by (simp add: expo_def pq Let_def)
  show "\<bar>x\<bar> < 2 powi (expo x + 1)"
    using upper by (auto simp: expo_def pq Let_def not_le)
qed

lemma round_even_error: "\<bar>of_int (round_even r) - r\<bar> \<le> 1 / 2"
proof -
  have "of_int \<lfloor>r\<rfloor> \<le> r" "r < of_int \<lfloor>r\<rfloor> + 1"
    by linarith+
  then show ?thesis
    by (auto simp: round_even_def Let_def abs_le_iff)
qed

lemma round_even_of_int: "round_even (of_int k) = k"
  by (simp add: round_even_def)

lemma fl64_error:
  assumes "x \<noteq> 0" and "- 1022 \<le> expo x"
  shows "\<bar>fl64 x - x\<bar> \<le> \<bar>x\<bar> / 2 ^ 53"
proof -
  let ?u = "(2::rat) powi (expo x - 52)"
  have u: "0 < ?u" by simp
  from assms(2) have m: "max (expo x - 52) (- 1074) = expo x - 52"
    by simp
  have fl: "fl64 x = of_int (round_even (x / ?u)) * ?u"
    using assms(1) by (simp add: fl64_def Let_def m)
  have "fl64 x - x = (of_int (round_even (x / ?u)) - x / ?u) * ?u"
    using u by (simp add: fl left_diff_distrib)
  then have "\<bar>fl64 x - x\<bar> = \<bar>of_int (round_even (x / ?u)) - x / ?u\<bar> * ?u"
    using u by (simp add: abs_mult)
  also have "\<dots> \<le> 1 / 2 * ?u"
    using round_even_error [of "x / ?u"] u by (intro mult_right_mono) simp_all
  also have "\<dots> = 2 powi expo x / 2 ^ 53"
    by (simp add: power_int_diff)
  also have "\<dots> \<le> \<bar>x\<bar> / 2 ^ 53"
    using expo_bounds(1) [OF assms(1)] by (simp add: divide_right_mono)
  finally show ?thesis .
qed

lemma fl64_of_int:
  assumes "0 < k" and "k < 2 ^ 53"
  shows "fl64 (of_int k) = of_int k"
proof -
  let ?x = "of_int k :: rat"
  have x: "?x \<noteq> 0" using assms(1) by simp
  have "(2::rat) powi expo ?x \<le> \<bar>?x\<bar>"
    by (rule expo_bounds(1) [OF x])
  also have "\<bar>?x\<bar> = ?x" using assms(1) by simp
  also have "?x < of_int (2 ^ 53)"
    using assms(2) by (simp only: of_int_less_iff)
  finally have "(2::rat) powi expo ?x < 2 powi 53"
    by simp
  then have "expo ?x < 53"
    by (intro power_int_le_imp_less_exp [of "2::rat"]) simp_all
  then have "max (expo ?x - 52) (- 1074) \<le> 0"
    by simp
  then obtain j where j: "max (expo ?x - 52) (- 1074) = - int j"
    by (metis nat_0_le neg_le_0_iff_le minus_minus)
  have "?x / 2 powi (- int j) = of_int (k * 2 ^ j)"
    by (simp add: power_int_minus field_simps)
  then have "round_even (?x / 2 powi (- int j)) = k * 2 ^ j"
    by (simp only: round_even_of_int)
  then show ?thesis
    using x by (simp add: fl64_def Let_def j power_int_minus field_simps)
qed

lemma fl64_0: "fl64 0 = 0"
  by (simp add: fl64_def)

lemma expo_ge:
  assumes "x \<noteq> 0" and "2 powi k \<le> \<bar>x\<bar>"
  shows "k \<le> expo x"
proof (rule ccontr)
  assume "\<not> k \<le> expo x"
  then have "expo x + 1 \<le> k" by simp
  then have "(2::rat) powi (expo x + 1) \<le> 2 powi k"
    by (intro power_int_increasing) simp_all
  with assms(2) expo_bounds(2) [OF assms(1)] show False
    by simp
qed

lemma sint_word_of_int_64:
  assumes "- (2 ^ 63) \<le> k" and "k < 2 ^ 63"
  shows "sint (word_of_int k :: 64 word) = k"
  using assms by (simp add: sint_sbintrunc' signed_take_bit_int_eq_self)

lemma math_Round_near:
  assumes "\<bar>y - of_int k\<bar> < 1 / 2" and "0 < k"
  shows "math_Round y = of_int k"
proof -
  from assms(2) have k: "1 \<le> (of_int k :: rat)"
    by simp
  from assms(1) have l: "of_int k - 1 / 2 < y" and u: "y < of_int k + 1 / 2"
    by linarith+
  from k l have "0 \<le> y"
    by linarith
  moreover have "\<lfloor>y + 1 / 2\<rfloor> = k"
  proof (rule floor_unique)
    show "of_int k \<le> y + 1 / 2" using l by linarith
    show "y + 1 / 2 < of_int k + 1" using u by linarith
  qed
  ultimately show ?thesis
    by (simp add: math_Round_def)
qed

lemma roundtrip_arith:
  fixes N x y :: rat
  assumes "1 \<le> N" and "N \<le> 2251799813685247"
    and "\<bar>x - N / 100\<bar> \<le> N / 100 / 9007199254740992"
    and "0 < x * 100 \<longrightarrow> \<bar>y - x * 100\<bar> \<le> x * 100 / 9007199254740992"
  shows "\<bar>y - N\<bar> < 1 / 2"
proof -
  from assms(3) have a: "N - N / 9007199254740992 \<le> x * 100"
    and b: "x * 100 \<le> N + N / 9007199254740992"
    by linarith+
  from a assms(1) have c: "0 < x * 100"
    by linarith
  with assms(4) have d: "\<bar>y - x * 100\<bar> \<le> x * 100 / 9007199254740992"
    by blast
  from a b d assms(1,2) show ?thesis
    by linarith
qed

lemma math_Round_0: "math_Round 0 = 0"
proof -
  have "\<lfloor>(1 / 2 :: rat)\<rfloor> = 0"
    by (rule floor_unique) simp_all
  then show ?thesis
    by (simp add: math_Round_def)
qed

lemma roundtrip_arith_lower:
  fixes N x :: rat
  assumes "1 \<le> N" and "\<bar>x - N / 100\<bar> \<le> N / 100 / 9007199254740992"
  shows "1 / 2 \<le> x * 100"
  using assms by linarith

lemma toMinor_fl64:
  fixes n :: nat
  assumes n: "0 < n" "n < 2 ^ 51"
  shows "math_Round (fl64 (fl64 (of_nat n / 100) * 100)) = of_nat n"
proof -
  let ?N = "of_nat n :: rat"
  let ?q = "?N / 100"
  let ?x = "fl64 ?q"
  let ?z = "?x * 100"
  let ?y = "fl64 ?z"
  have p53: "(2::rat) ^ 53 = 9007199254740992" by simp
  have N1: "1 \<le> ?N" using n(1) by simp
  from n(2) have "n \<le> 2251799813685247" by simp
  then have "?N \<le> of_nat 2251799813685247"
    by (simp only: of_nat_le_iff)
  then have N2: "?N \<le> 2251799813685247" by simp
  have q0: "?q \<noteq> 0" using N1 by simp
  have qa: "\<bar>?q\<bar> = ?q" using N1 by simp
  have "(2::rat) powi (- 7) \<le> ?q"
    using N1 by (simp add: power_int_minus)
  then have "- 7 \<le> expo ?q"
    using expo_ge [OF q0, of "- 7"] qa by simp
  then have "- 1022 \<le> expo ?q" by simp
  from fl64_error [OF q0 this] have xq: "\<bar>?x - ?q\<bar> \<le> ?q / 9007199254740992"
    unfolding qa p53 .
  from roundtrip_arith_lower [OF N1 xq] have zl: "1 / 2 \<le> ?z" .
  then have z0: "?z \<noteq> 0" and za: "\<bar>?z\<bar> = ?z"
    by linarith+
  have "(2::rat) powi (- 1) \<le> ?z"
    using zl by (simp add: power_int_minus)
  then have "- 1 \<le> expo ?z"
    using expo_ge [OF z0, of "- 1"] za by simp
  then have "- 1022 \<le> expo ?z" by simp
  from fl64_error [OF z0 this] have yz: "\<bar>?y - ?z\<bar> \<le> ?z / 9007199254740992"
    unfolding za p53 .
  then have "0 < ?z \<longrightarrow> \<bar>?y - ?z\<bar> \<le> ?z / 9007199254740992"
    by blast
  from roundtrip_arith [OF N1 N2 xq this] have "\<bar>?y - of_int (int n)\<bar> < 1 / 2"
    by simp
  then have "math_Round ?y = of_int (int n)"
    using n(1) by (intro math_Round_near) simp_all
  then show ?thesis by simp
qed

text \<open>
  C5, as it stands, fails for large amounts. For 35185652548606.63 the product with 100 is
  rounded to a \<^verbatim>\<open>float64\<close> that lies half a cent above, and \<^verbatim>\<open>math.Round\<close> gives the next
  cent; for \<open>10 ^ 17\<close> the number of cents is outside \<^verbatim>\<open>int64\<close>.
\<close>

theorem price_roundtrip_counterexample:
  "priceFloat64ToInt64 (fl64 (3518565254860663 / 100)) = 3518565254860664 \<and>
   priceInt64ToFloat64 (priceFloat64ToInt64 (fl64 (3518565254860663 / 100))) \<noteq>
     fl64 (3518565254860663 / 100) \<and>
   priceInt64ToFloat64 (priceFloat64ToInt64 (fl64 (10 ^ 19 / 100))) \<noteq> fl64 (10 ^ 19 / 100)"
  by code_simp

text \<open>
  C5, amended. For every amount of \<open>n\<close> cents with \<open>n < 2 ^ 51\<close>, that is below
  22517998136852.48, given as the \<^verbatim>\<open>float64\<close> nearest to \<open>n / 100\<close>, \<open>priceFloat64ToInt64\<close>
  returns \<open>n\<close> and \<open>priceInt64ToFloat64\<close> of it is the amount again.
\<close>

theorem price_roundtrip:
  fixes n :: nat
  assumes "n < 2 ^ 51"
  shows "priceFloat64ToInt64 (fl64 (of_nat n / 100)) = word_of_int (int n) \<and>
    priceInt64ToFloat64 (priceFloat64ToInt64 (fl64 (of_nat n / 100))) = fl64 (of_nat n / 100)"
proof -
  have r: "math_Round (fl64 (fl64 (of_nat n / 100) * 100)) = of_nat n"
  proof (cases "n = 0")
    case True
    then show ?thesis by (simp add: fl64_0 math_Round_0)
  next
    case False
    with assms show ?thesis by (intro toMinor_fl64) simp_all
  qed
  have "int n < 2 ^ 51"
    using assms by (metis of_nat_less_iff of_nat_numeral of_nat_power)
  then have b: "int n < 2 ^ 53" "int n < 2 ^ 63" "- (2 ^ 63) \<le> int n"
    by simp_all
  have m: "priceFloat64ToInt64 (fl64 (of_nat n / 100)) = word_of_int (int n)"
    using b by (simp add: priceFloat64ToInt64_def r int64_of_float64_def)
  have s: "sint (word_of_int (int n) :: 64 word) = int n"
    using b by (intro sint_word_of_int_64) simp_all
  have f: "fl64 (of_int (int n)) = of_int (int n)"
  proof (cases "n = 0")
    case True
    then show ?thesis by (simp add: fl64_0)
  next
    case False
    with b show ?thesis by (intro fl64_of_int) simp_all
  qed
  have "priceInt64ToFloat64 (priceFloat64ToInt64 (fl64 (of_nat n / 100))) = fl64 (of_nat n / 100)"
    unfolding m priceInt64ToFloat64_def float64_of_int64_def s f by simp
  with m show ?thesis by simp
qed

theorem price_roundtrip_witness:
  "(9999::nat) < 2 ^ 51 \<and> priceFloat64ToInt64 (fl64 (9999 / 100)) = 9999 \<and>
   priceInt64ToFloat64 (priceFloat64ToInt64 (fl64 (9999 / 100))) = fl64 (9999 / 100)"
proof -
  have h: "(9999::nat) < 2 ^ 51"
    by simp
  have n: "(of_nat 9999 :: rat) = 9999" "(word_of_int (int 9999) :: 64 word) = 9999"
    by simp_all
  from price_roundtrip [OF h]
  have "priceFloat64ToInt64 (fl64 (9999 / 100)) = 9999 \<and>
      priceInt64ToFloat64 (priceFloat64ToInt64 (fl64 (9999 / 100))) = fl64 (9999 / 100)"
    unfolding n .
  with h show ?thesis
    by blast
qed

end
